theory Spec2Isabelle
  imports Main "HOL-Library.Multiset"
begin

section \<open>Job admission and dispatch: \<^verbatim>\<open>apps/api/src/services/queue-jobs.ts\<close>\<close>

text \<open>
  The admission layer talks to collaborators whose code lives in other modules
  (\<^verbatim>\<open>lib/concurrency-limit\<close>, \<^verbatim>\<open>lib/crawl-redis\<close>, \<^verbatim>\<open>controllers/auth\<close>,
  the notification service, the BullMQ queue, \<^verbatim>\<open>lib/gcs-jobs\<close>, \<^verbatim>\<open>lib/error-serde\<close>).
  They are parameters of the model:
  \<^item> every call to a collaborator is appended to a trace of events, in the order in which
    the calls are made;
  \<^item> what a reading call answers is given by an environment record \<open>env\<close>; each answer
    may depend on the trace so far, so a read made after a write can see the write.

  Every function of the source therefore takes the trace and returns the extended
  trace next to its result. JavaScript numbers that count jobs or milliseconds are
  integers here; \<^verbatim>\<open>Infinity\<close> is a constructor of its own. The two properties that the
  source compares with \<^verbatim>\<open>undefined\<close> (\<^verbatim>\<open>delay\<close> and \<^verbatim>\<open>maxConcurrency\<close>) keep
  \<^verbatim>\<open>undefined\<close> and \<^verbatim>\<open>null\<close> apart; any other optional field, which the source reads
  with \<^verbatim>\<open>?.\<close>, \<^verbatim>\<open>??\<close> or by truthiness only, is an \<open>option\<close>. A string is truthy when
  it is present and non-empty, a number when it is a number other than 0.

  Time belongs to the platform: \<^verbatim>\<open>Date.now()\<close> is an answer of the environment, a sleep and
  the start of a timer are events of the trace, and the environment tells how a wait for
  a job settles and whether a deadline timer fires before it does. A call that never
  returns has the result \<open>None\<close>.

  \<^verbatim>\<open>Promise.all\<close> over a mapped list of asynchronous callbacks starts every callback, in
  list order, each running up to its first \<^verbatim>\<open>await\<close>; from then on the callback whose
  awaited answer arrives next is resumed and runs up to its next \<^verbatim>\<open>await\<close>, until all
  have returned. The order in which the answers arrive is the environment's.

  Lines 62 to 103 of the source (the fire-and-forget mirror of a request to a staging
  host) touch neither the ledger, the payload nor the queue and are left out.
\<close>

subsection \<open>Data\<close>

text \<open>The value of a property that the source compares with \<^verbatim>\<open>undefined\<close>: it is
  missing (\<^verbatim>\<open>undefined\<close>), \<^verbatim>\<open>null\<close>, or a value.\<close>

datatype 'v js = Undefined | Null | Val 'v

record CrawlerOptions =
  delay :: "int js"

record StoredCrawl =
  sc_crawlerOptions :: "CrawlerOptions option"
  sc_maxConcurrency :: "int js"

record ScrapeOptions =
  timeout :: "int option"

record InternalOptions =
  zeroDataRetention :: bool

text \<open>The fields of the job payload that the module reads or writes; every other
  field of the payload lives in the record's extension.\<close>

record WebScraperOptions =
  team_id :: string
  crawl_id :: "string option"
  crawlerOptions :: "CrawlerOptions option"
  scrapeOptions :: "ScrapeOptions option"
  internalOptions :: "InternalOptions option"
  is_extract :: bool
  from_extract :: bool
  concurrencyLimited :: bool

text \<open>\<^verbatim>\<open>{ ...options, priority: jobPriority, jobId: jobId }\<close>\<close>

record 'o QueueOpts =
  opt_spread :: 'o
  opt_priority :: int
  opt_jobId :: string

text \<open>The entry handed to \<^verbatim>\<open>pushConcurrencyLimitedJob\<close>.\<close>

record ('a, 'o) ConcurrencyLimitedJob =
  cq_id :: string
  cq_data :: "'a WebScraperOptions_scheme"
  cq_opts :: "'o QueueOpts"
  cq_priority :: int

text \<open>The handle returned by the worker queue's \<^verbatim>\<open>add\<close>.\<close>

record ('a, 'o) Job =
  job_id :: string
  job_data :: "'a WebScraperOptions_scheme"
  job_opts :: "'o QueueOpts"

record AuthCreditUsageChunk =
  concurrency :: int

datatype RateLimiterMode = Crawl | Extract

datatype NotificationType = CONCURRENCY_LIMIT_REACHED

datatype millis = Millis int | Infinity

datatype ('a, 'o) event =
    GetCrawl string
  | GetCrawlConcurrencyLimitActiveJobs string
  | GetACUCTeam string bool bool RateLimiterMode
  | CleanOldConcurrencyLimitEntries string int
  | GetConcurrencyLimitActiveJobs string int
  | GetConcurrencyQueueJobsCount string
  | ShouldSendConcurrencyLimitNotification string
  | SendNotificationWithCustomDays string NotificationType int bool bool
  | PushConcurrencyLimitedJob string "('a, 'o) ConcurrencyLimitedJob" millis
  | PushConcurrencyLimitActiveJob string string int
  | PushCrawlConcurrencyLimitActiveJob string string int
  | QueueAdd string "'a WebScraperOptions_scheme" "'o QueueOpts"
  | GetJobFromGCS string
  | RemoveJobFromGCS string
  | QueueGetJob string
  | Sleep int
  | WaitUntilFinished string int
  | DeadlineTimer int

text \<open>An instance of \<^verbatim>\<open>TransportableError\<close>: its code (the kind of error) and its
  message.\<close>

record TransportableError =
  code :: string
  message :: string

text \<open>What \<^verbatim>\<open>waitForJob\<close> can throw or catch: an instance of
  \<^verbatim>\<open>TransportableError\<close>, any other \<^verbatim>\<open>Error\<close> (its message), or a value that
  is no \<^verbatim>\<open>Error\<close>.\<close>

datatype thrown = Transportable TransportableError | GenericError string | NonError string

text \<open>How a promise for a document settles: it resolves with a document (\<open>None\<close> for
  a falsy one) or rejects with a thrown value.\<close>

datatype 'd settled = Resolved "'d option" | Rejected thrown

text \<open>The collaborators and the platform. \<open>dateNow\<close> is \<^verbatim>\<open>Date.now()\<close>.
  \<open>waitUntilFinished\<close> tells how \<^verbatim>\<open>job.waitUntilFinished(events, ttl)\<close> settles.
  \<open>deadline_first\<close> tells, on the trace that ends with the start of the deadline timer
  (the event carries the delay handed to \<^verbatim>\<open>setTimeout\<close>), whether the timer fires
  before that wait settles. \<open>resume_next\<close> tells, while the callbacks of a
  \<^verbatim>\<open>Promise.all\<close> are suspended, which awaited answer arrives next: an index into the
  suspended callbacks, listed in the order in which their pending calls were made, taken
  modulo their number. \<open>newScrapeJobTimeoutError\<close> is the constructor of
  \<^verbatim>\<open>ScrapeJobTimeoutError\<close>, a class of \<^verbatim>\<open>lib/error\<close>: the value thrown for a
  message (whether the class is a \<^verbatim>\<open>TransportableError\<close> is up to that module).\<close>

record ('a, 'o, 'd) env =
  getCrawl :: "('a, 'o) event list \<Rightarrow> string \<Rightarrow> StoredCrawl option"
  getCrawlConcurrencyLimitActiveJobs :: "('a, 'o) event list \<Rightarrow> string \<Rightarrow> string list"
  getACUCTeam :: "('a, 'o) event list \<Rightarrow> string \<Rightarrow> bool \<Rightarrow> bool \<Rightarrow> RateLimiterMode
     \<Rightarrow> AuthCreditUsageChunk option"
  getConcurrencyLimitActiveJobs :: "('a, 'o) event list \<Rightarrow> string \<Rightarrow> int \<Rightarrow> string list"
  getConcurrencyQueueJobsCount :: "('a, 'o) event list \<Rightarrow> string \<Rightarrow> int"
  shouldSendConcurrencyLimitNotification :: "('a, 'o) event list \<Rightarrow> string \<Rightarrow> bool"
  dateNow :: "('a, 'o) event list \<Rightarrow> int"
  getJobFromGCS :: "('a, 'o) event list \<Rightarrow> string \<Rightarrow> 'd list option"
  deserializeTransportableError :: "string \<Rightarrow> TransportableError option"
  queue_getJob :: "('a, 'o) event list \<Rightarrow> string \<Rightarrow> ('a, 'o) Job option"
  waitUntilFinished :: "('a, 'o) event list \<Rightarrow> string \<Rightarrow> int \<Rightarrow> 'd settled"
  deadline_first :: "('a, 'o) event list \<Rightarrow> bool"
  resume_next :: "('a, 'o) event list \<Rightarrow> nat"
  newScrapeJobTimeoutError :: "string \<Rightarrow> thrown"

subsection \<open>JavaScript truthiness and optional chaining\<close>

definition truthy :: "string option \<Rightarrow> bool" where
  "truthy s = (case s of None \<Rightarrow> False | Some x \<Rightarrow> x \<noteq> [])"

definition truthy_num :: "int js \<Rightarrow> bool" where
  "truthy_num n = (case n of Val x \<Rightarrow> x \<noteq> 0 | _ \<Rightarrow> False)"

text \<open>\<^verbatim>\<open>crawlerOptions?.delay\<close>: \<^verbatim>\<open>undefined\<close> when there are no crawler options.\<close>

definition opt_delay :: "CrawlerOptions option \<Rightarrow> int js" where
  "opt_delay co = (case co of None \<Rightarrow> Undefined | Some c \<Rightarrow> delay c)"

text \<open>\<^verbatim>\<open>sc?.maxConcurrency\<close>\<close>

definition opt_maxConcurrency :: "StoredCrawl option \<Rightarrow> int js" where
  "opt_maxConcurrency sc = (case sc of None \<Rightarrow> Undefined | Some c \<Rightarrow> sc_maxConcurrency c)"

text \<open>\<^verbatim>\<open>scrapeOptions?.timeout\<close>\<close>

definition opt_timeout :: "ScrapeOptions option \<Rightarrow> int option" where
  "opt_timeout so = (case so of None \<Rightarrow> None | Some s \<Rightarrow> timeout s)"

text \<open>\<^verbatim>\<open>internalOptions?.zeroDataRetention\<close>\<close>

definition opt_zeroDataRetention :: "InternalOptions option \<Rightarrow> bool" where
  "opt_zeroDataRetention io = (case io of None \<Rightarrow> False | Some i \<Rightarrow> zeroDataRetention i)"

subsection \<open>The single-job path\<close>

definition isCrawlOrBatchScrape :: "'a WebScraperOptions_scheme \<Rightarrow> bool" where
  "isCrawlOrBatchScrape options = (crawlerOptions options \<noteq> None \<or> truthy (crawl_id options))"

definition queueOpts :: "'o \<Rightarrow> int \<Rightarrow> string \<Rightarrow> 'o QueueOpts" where
  "queueOpts options jobPriority jobId =
     \<lparr>opt_spread = options, opt_priority = jobPriority, opt_jobId = jobId\<rparr>"

text \<open>\<^verbatim>\<open>_addScrapeJobToConcurrencyQueue\<close> (lines 38 to 54).\<close>

definition addScrapeJobToConcurrencyQueue ::
  "'a WebScraperOptions_scheme \<Rightarrow> 'o \<Rightarrow> string \<Rightarrow> int \<Rightarrow> ('a, 'o) event list
     \<Rightarrow> ('a, 'o) event list" where
  "addScrapeJobToConcurrencyQueue webScraperOptions options jobId jobPriority tr =
     tr @ [PushConcurrencyLimitedJob (team_id webScraperOptions)
             \<lparr>cq_id = jobId, cq_data = webScraperOptions,
              cq_opts = queueOpts options jobPriority jobId, cq_priority = jobPriority\<rparr>
             (if truthy (crawl_id webScraperOptions) then Infinity
              else Millis (case opt_timeout (scrapeOptions webScraperOptions) of
                             Some t \<Rightarrow> t | None \<Rightarrow> 60 * 1000))]"

text \<open>\<^verbatim>\<open>_addScrapeJobToBullMQ\<close> (lines 105 to 124), called and awaited on its own.\<close>

definition addScrapeJobToBullMQ ::
  "('a, 'o, 'd) env \<Rightarrow> 'a WebScraperOptions_scheme \<Rightarrow> 'o \<Rightarrow> string \<Rightarrow> int
     \<Rightarrow> ('a, 'o) event list \<Rightarrow> ('a, 'o) Job \<times> ('a, 'o) event list" where
  "addScrapeJobToBullMQ env webScraperOptions options jobId jobPriority tr =
     (let tr3 =
        (if team_id webScraperOptions \<noteq> [] then
           (let tr1 = tr @ [PushConcurrencyLimitActiveJob (team_id webScraperOptions) jobId (60 * 1000)]
            in case crawl_id webScraperOptions of
                 None \<Rightarrow> tr1
               | Some cid \<Rightarrow>
                   if cid = [] then tr1
                   else (let sc = getCrawl env tr1 cid;
                             tr2 = tr1 @ [GetCrawl cid]
                         in if truthy_num (opt_delay (crawlerOptions webScraperOptions))
                               \<or> truthy_num (opt_maxConcurrency sc)
                            then tr2 @ [PushCrawlConcurrencyLimitActiveJob cid jobId (60 * 1000)]
                            else tr2))
         else tr)
      in (\<lparr>job_id = jobId, job_data = webScraperOptions,
           job_opts = queueOpts options jobPriority jobId\<rparr>,
          tr3 @ [QueueAdd jobId webScraperOptions (queueOpts options jobPriority jobId)]))"

text \<open>The value of the local \<^verbatim>\<open>concurrencyLimited\<close>; \<^verbatim>\<open>null\<close> is \<open>None\<close>.\<close>

datatype concurrencyLimited = Yes | Yes_crawl | No

text \<open>The expression bound to \<^verbatim>\<open>concurrencyLimit\<close> (lines 142 to 146, and again,
  letter for letter, lines 284 to 288); its value \<^verbatim>\<open>null\<close> is \<open>None\<close>. Both tests are
  \<^verbatim>\<open>=== undefined\<close>, which a \<^verbatim>\<open>null\<close> does not pass, and \<^verbatim>\<open>crawl.maxConcurrency ?? 1\<close>
  is 1 for \<^verbatim>\<open>undefined\<close> and for \<^verbatim>\<open>null\<close>.\<close>

definition concurrencyLimit_of :: "StoredCrawl option \<Rightarrow> int option" where
  "concurrencyLimit_of crawl =
     (case crawl of
        None \<Rightarrow> None
      | Some c \<Rightarrow>
          if opt_delay (sc_crawlerOptions c) = Undefined \<and> sc_maxConcurrency c = Undefined
          then None
          else Some (case sc_maxConcurrency c of Val m \<Rightarrow> m | _ \<Rightarrow> 1))"

text \<open>Lines 140 to 155: the per-crawl gate of \<^verbatim>\<open>addScrapeJobRaw\<close>.\<close>

definition crawl_gate ::
  "('a, 'o, 'd) env \<Rightarrow> 'a WebScraperOptions_scheme \<Rightarrow> ('a, 'o) event list
     \<Rightarrow> concurrencyLimited option \<times> ('a, 'o) event list" where
  "crawl_gate env webScraperOptions tr =
     (case crawl_id webScraperOptions of
        None \<Rightarrow> (None, tr)
      | Some cid \<Rightarrow>
          if cid = [] then (None, tr)
          else (let crawl = getCrawl env tr cid;
                    tr1 = tr @ [GetCrawl cid]
                in case concurrencyLimit_of crawl of
                     None \<Rightarrow> (None, tr1)
                   | Some concurrencyLimit \<Rightarrow>
                       (let crawlConcurrency =
                              int (length (getCrawlConcurrencyLimitActiveJobs env tr1 cid));
                            tr2 = tr1 @ [GetCrawlConcurrencyLimitActiveJobs cid];
                            freeSlots = max (concurrencyLimit - crawlConcurrency) 0
                        in (if freeSlots = 0 then Some Yes_crawl else None, tr2))))"

text \<open>Lines 157 to 163: the tenant gate of \<^verbatim>\<open>addScrapeJobRaw\<close>. Its
  \<^verbatim>\<open>maxConcurrency\<close> and \<^verbatim>\<open>currentActiveConcurrency\<close> are block-scoped constants that
  shadow the function's variables of the same names.\<close>

definition team_gate ::
  "('a, 'o, 'd) env \<Rightarrow> 'a WebScraperOptions_scheme \<Rightarrow> ('a, 'o) event list
     \<Rightarrow> concurrencyLimited \<times> ('a, 'o) event list" where
  "team_gate env webScraperOptions tr =
     (let now = dateNow env tr;
          mode = (if is_extract webScraperOptions then Extract else Crawl);
          maxConcurrency =
            (case getACUCTeam env tr (team_id webScraperOptions) False True mode of
               None \<Rightarrow> 2 | Some acuc \<Rightarrow> concurrency acuc);
          tr1 = tr @ [GetACUCTeam (team_id webScraperOptions) False True mode];
          tr2 = tr1 @ [CleanOldConcurrencyLimitEntries (team_id webScraperOptions) now];
          currentActiveConcurrency =
            int (length (getConcurrencyLimitActiveJobs env tr2 (team_id webScraperOptions) now));
          tr3 = tr2 @ [GetConcurrencyLimitActiveJobs (team_id webScraperOptions) now]
      in (if currentActiveConcurrency \<ge> maxConcurrency then Yes else No, tr3))"

text \<open>Lines 133 to 164: the admission decision of \<^verbatim>\<open>addScrapeJobRaw\<close>.\<close>

definition admission ::
  "('a, 'o, 'd) env \<Rightarrow> 'a WebScraperOptions_scheme \<Rightarrow> bool \<Rightarrow> ('a, 'o) event list
     \<Rightarrow> concurrencyLimited \<times> ('a, 'o) event list" where
  "admission env webScraperOptions directToBullMQ tr =
     (if directToBullMQ then (No, tr)
      else case crawl_gate env webScraperOptions tr of
             (Some v, tr1) \<Rightarrow> (v, tr1)
           | (None, tr1) \<Rightarrow> team_gate env webScraperOptions tr1)"

text \<open>Lines 171 to 182: the notification block of the single-job path. It compares
  with the function-level \<^verbatim>\<open>maxConcurrency\<close>, which line 135 initialises to 0 and
  nothing assigns afterwards (line 159 declares a new constant in its own block).\<close>

definition notify_single ::
  "('a, 'o, 'd) env \<Rightarrow> 'a WebScraperOptions_scheme \<Rightarrow> ('a, 'o) event list
     \<Rightarrow> ('a, 'o) event list" where
  "notify_single env webScraperOptions tr =
     (let maxConcurrency = 0;
          concurrencyQueueJobs = getConcurrencyQueueJobsCount env tr (team_id webScraperOptions);
          tr1 = tr @ [GetConcurrencyQueueJobsCount (team_id webScraperOptions)]
      in if concurrencyQueueJobs > maxConcurrency then
           (let shouldSendNotification =
                  shouldSendConcurrencyLimitNotification env tr1 (team_id webScraperOptions);
                tr2 = tr1 @ [ShouldSendConcurrencyLimitNotification (team_id webScraperOptions)]
            in if shouldSendNotification then
                 tr2 @ [SendNotificationWithCustomDays (team_id webScraperOptions)
                          CONCURRENCY_LIMIT_REACHED 15 False True]
               else tr2)
         else tr1)"

text \<open>\<^verbatim>\<open>addScrapeJobRaw\<close> (lines 126 to 197); \<open>limited\<close> is the local
  \<^verbatim>\<open>concurrencyLimited\<close>. The result is the returned handle
  (\<^verbatim>\<open>null\<close> is \<open>None\<close>), the payload object as the caller sees it afterwards, and
  the trace.\<close>

definition addScrapeJobRaw ::
  "('a, 'o, 'd) env \<Rightarrow> 'a WebScraperOptions_scheme \<Rightarrow> 'o \<Rightarrow> string \<Rightarrow> int \<Rightarrow> bool
     \<Rightarrow> ('a, 'o) event list
     \<Rightarrow> ('a, 'o) Job option \<times> 'a WebScraperOptions_scheme \<times> ('a, 'o) event list" where
  "addScrapeJobRaw env webScraperOptions options jobId jobPriority directToBullMQ tr =
     (case admission env webScraperOptions directToBullMQ tr of
        (limited, tr1) \<Rightarrow>
          if limited = Yes \<or> limited = Yes_crawl then
            (let tr2 = (if limited = Yes
                        then notify_single env webScraperOptions tr1 else tr1);
                 webScraperOptions' = webScraperOptions\<lparr>concurrencyLimited := True\<rparr>
             in (None, webScraperOptions',
                 addScrapeJobToConcurrencyQueue webScraperOptions' options jobId jobPriority tr2))
          else
            (case addScrapeJobToBullMQ env webScraperOptions options jobId jobPriority tr1 of
               (job, tr2) \<Rightarrow> (Some job, webScraperOptions, tr2)))"

definition addScrapeJob ::
  "('a, 'o, 'd) env \<Rightarrow> 'a WebScraperOptions_scheme \<Rightarrow> 'o \<Rightarrow> string \<Rightarrow> int \<Rightarrow> bool
     \<Rightarrow> ('a, 'o) event list
     \<Rightarrow> ('a, 'o) Job option \<times> 'a WebScraperOptions_scheme \<times> ('a, 'o) event list" where
  "addScrapeJob env webScraperOptions options jobId jobPriority directToBullMQ tr =
     addScrapeJobRaw env webScraperOptions options jobId jobPriority directToBullMQ tr"

subsection \<open>The bulk path\<close>

record BulkOpts =
  jobId :: string
  priority :: int

record 'a BulkJob =
  data :: "'a WebScraperOptions_scheme"
  opts :: BulkOpts

text \<open>A JavaScript \<^verbatim>\<open>Map\<close> from keys to arrays, in insertion order of the keys:
  \<^verbatim>\<open>if (!m.has(k)) m.set(k, []); m.get(k).push(v)\<close>.\<close>

fun map_push :: "('k \<times> 'v list) list \<Rightarrow> 'k \<Rightarrow> 'v \<Rightarrow> ('k \<times> 'v list) list" where
  "map_push [] k v = [(k, [v])]"
| "map_push ((k', vs) # m) k v =
     (if k' = k then (k', vs @ [v]) # m else (k', vs) # map_push m k v)"

text \<open>Lines 228 to 233.\<close>

fun jobsByTeam ::
  "'a BulkJob list \<Rightarrow> (string \<times> 'a BulkJob list) list \<Rightarrow> (string \<times> 'a BulkJob list) list" where
  "jobsByTeam [] m = m"
| "jobsByTeam (job # rest) m = jobsByTeam rest (map_push m (team_id (data job)) job)"

text \<open>Lines 270 to 279: the pair of \<^verbatim>\<open>jobsByCrawlID\<close> and \<^verbatim>\<open>jobsWithoutCrawlID\<close>.\<close>

fun selectByCrawlID ::
  "'a BulkJob list \<Rightarrow> (string \<times> 'a BulkJob list) list \<Rightarrow> 'a BulkJob list
     \<Rightarrow> (string \<times> 'a BulkJob list) list \<times> 'a BulkJob list" where
  "selectByCrawlID [] byCrawlID withoutCrawlID = (byCrawlID, withoutCrawlID)"
| "selectByCrawlID (job # rest) byCrawlID withoutCrawlID =
     (case crawl_id (data job) of
        None \<Rightarrow> selectByCrawlID rest byCrawlID (withoutCrawlID @ [job])
      | Some cid \<Rightarrow>
          if cid = [] then selectByCrawlID rest byCrawlID (withoutCrawlID @ [job])
          else selectByCrawlID rest (map_push byCrawlID cid job) withoutCrawlID)"

text \<open>Lines 282 to 304: the loop over the crawl buckets. The accumulators are
  \<^verbatim>\<open>jobsPotentiallyInCQ\<close> and \<^verbatim>\<open>jobsForcedToCQ\<close>; \<^verbatim>\<open>slice(0, n)\<close> is \<open>take\<close> and
  \<^verbatim>\<open>slice(n)\<close> is \<open>drop\<close> (\<open>n\<close> is never negative here).\<close>

fun crawl_buckets ::
  "('a, BulkOpts, 'd) env \<Rightarrow> (string \<times> 'a BulkJob list) list \<Rightarrow> 'a BulkJob list
     \<Rightarrow> 'a BulkJob list \<Rightarrow> ('a, BulkOpts) event list
     \<Rightarrow> 'a BulkJob list \<times> 'a BulkJob list \<times> ('a, BulkOpts) event list" where
  "crawl_buckets env [] potentially forced tr = (potentially, forced, tr)"
| "crawl_buckets env ((crawlID, crawlJobs) # rest) potentially forced tr =
     (case concurrencyLimit_of (getCrawl env tr crawlID) of
        None \<Rightarrow> crawl_buckets env rest (potentially @ crawlJobs) forced (tr @ [GetCrawl crawlID])
      | Some concurrencyLimit \<Rightarrow>
          (let crawlConcurrency =
                 int (length (getCrawlConcurrencyLimitActiveJobs env (tr @ [GetCrawl crawlID]) crawlID));
               freeSlots = max (concurrencyLimit - crawlConcurrency) 0
           in crawl_buckets env rest
                (potentially @ take (nat freeSlots) crawlJobs)
                (forced @ drop (nat freeSlots) crawlJobs)
                (tr @ [GetCrawl crawlID, GetCrawlConcurrencyLimitActiveJobs crawlID])))"

text \<open>Lines 236 to 307: \<^verbatim>\<open>jobsPotentiallyInCQ\<close> and \<^verbatim>\<open>jobsForcedToCQ\<close> of one
  tenant bucket, with the trace of the reads made for them.\<close>

definition classify ::
  "('a, BulkOpts, 'd) env \<Rightarrow> 'a BulkJob list \<Rightarrow> ('a, BulkOpts) event list
     \<Rightarrow> 'a BulkJob list \<times> 'a BulkJob list \<times> ('a, BulkOpts) event list" where
  "classify env teamJobs tr =
     (case selectByCrawlID teamJobs [] [] of
        (jobsByCrawlID, jobsWithoutCrawlID) \<Rightarrow>
          (case crawl_buckets env jobsByCrawlID [] [] tr of
             (potentially, forced, tr1) \<Rightarrow> (potentially @ jobsWithoutCrawlID, forced, tr1)))"

definition jobsPotentiallyInCQ ::
  "('a, BulkOpts, 'd) env \<Rightarrow> 'a BulkJob list \<Rightarrow> ('a, BulkOpts) event list \<Rightarrow> 'a BulkJob list" where
  "jobsPotentiallyInCQ env teamJobs tr = fst (classify env teamJobs tr)"

definition jobsForcedToCQ ::
  "('a, BulkOpts, 'd) env \<Rightarrow> 'a BulkJob list \<Rightarrow> ('a, BulkOpts) event list \<Rightarrow> 'a BulkJob list" where
  "jobsForcedToCQ env teamJobs tr = fst (snd (classify env teamJobs tr))"

text \<open>Lines 309 to 318: \<^verbatim>\<open>maxConcurrency\<close> and \<^verbatim>\<open>countCanBeDirectlyAdded\<close> of one
  tenant bucket; \<open>job0\<close> is \<^verbatim>\<open>jobs[0]\<close>, the first job of the whole submission.\<close>

definition headroom ::
  "('a, BulkOpts, 'd) env \<Rightarrow> 'a BulkJob \<Rightarrow> string \<Rightarrow> ('a, BulkOpts) event list
     \<Rightarrow> int \<times> int \<times> ('a, BulkOpts) event list" where
  "headroom env job0 teamId tr =
     (let now = dateNow env tr;
          mode = (if from_extract (data job0) then Extract else Crawl);
          maxConcurrency =
            (case getACUCTeam env tr teamId False True mode of
               None \<Rightarrow> 2 | Some acuc \<Rightarrow> concurrency acuc);
          tr1 = tr @ [GetACUCTeam teamId False True mode];
          tr2 = tr1 @ [CleanOldConcurrencyLimitEntries teamId now];
          currentActiveConcurrency = int (length (getConcurrencyLimitActiveJobs env tr2 teamId now));
          tr3 = tr2 @ [GetConcurrencyLimitActiveJobs teamId now];
          countCanBeDirectlyAdded = max (maxConcurrency - currentActiveConcurrency) 0
      in (maxConcurrency, countCanBeDirectlyAdded, tr3))"

text \<open>Lines 323 to 335.\<close>

definition notify_bulk ::
  "('a, BulkOpts, 'd) env \<Rightarrow> 'a BulkJob \<Rightarrow> int \<Rightarrow> int \<Rightarrow> int \<Rightarrow> ('a, BulkOpts) event list
     \<Rightarrow> ('a, BulkOpts) event list" where
  "notify_bulk env job0 potentiallyLength countCanBeDirectlyAdded maxConcurrency tr =
     (if potentiallyLength - countCanBeDirectlyAdded > maxConcurrency then
        (if \<not> isCrawlOrBatchScrape (data job0) then
           (let shouldSendNotification =
                  shouldSendConcurrencyLimitNotification env tr (team_id (data job0));
                tr1 = tr @ [ShouldSendConcurrencyLimitNotification (team_id (data job0))]
            in if shouldSendNotification then
                 tr1 @ [SendNotificationWithCustomDays (team_id (data job0))
                          CONCURRENCY_LIMIT_REACHED 15 False True]
               else tr1)
         else tr)
      else tr)"

text \<open>Lines 337 to 347. Each callback makes its one call, the push to the deferred
  queue, before its first \<^verbatim>\<open>await\<close>: the pushes are made in list order while the
  callbacks are started, and nothing is left to interleave.\<close>

fun addAllToCQ :: "'a BulkJob list \<Rightarrow> ('a, BulkOpts) event list \<Rightarrow> ('a, BulkOpts) event list" where
  "addAllToCQ [] tr = tr"
| "addAllToCQ (job # rest) tr =
     addAllToCQ rest
       (addScrapeJobToConcurrencyQueue (data job) (opts job) (jobId (opts job))
          (priority (opts job)) tr)"

text \<open>Lines 349 to 359: the callbacks
  \<^verbatim>\<open>_addScrapeJobToBullMQ(job.data, job.opts, job.opts.jobId, job.opts.priority)\<close>, run
  together by \<^verbatim>\<open>Promise.all\<close>. A suspended callback is at one of the four \<^verbatim>\<open>await\<close>s of
  lines 109, 112, 114 and 119; the answer of \<^verbatim>\<open>getCrawl\<close> that it waits for at line 112
  is the answer to the call as it was made; the stage keeps it, with the crawl id.\<close>

datatype stage =
    Awaits_push_active
  | Awaits_crawl string "StoredCrawl option"
  | Awaits_crawl_push_active
  | Awaits_add

text \<open>Line 119: the call of the worker queue's \<^verbatim>\<open>add\<close>.\<close>

definition bull_add :: "'a BulkJob \<Rightarrow> ('a, BulkOpts) event list \<Rightarrow> ('a, BulkOpts) event list" where
  "bull_add job tr =
     tr @ [QueueAdd (jobId (opts job)) (data job)
             (queueOpts (opts job) (priority (opts job)) (jobId (opts job)))]"

text \<open>A callback from its start to its first \<^verbatim>\<open>await\<close>.\<close>

definition bull_start ::
  "'a BulkJob \<Rightarrow> ('a, BulkOpts) event list \<Rightarrow> stage \<times> ('a, BulkOpts) event list" where
  "bull_start job tr =
     (if team_id (data job) \<noteq> [] then
        (Awaits_push_active,
         tr @ [PushConcurrencyLimitActiveJob (team_id (data job)) (jobId (opts job)) (60 * 1000)])
      else (Awaits_add, bull_add job tr))"

text \<open>A suspended callback from the arrival of the answer it waits for to its next
  \<^verbatim>\<open>await\<close> (\<open>Some\<close> of the new stage) or to its return (\<open>None\<close>).\<close>

definition bull_resume ::
  "('a, BulkOpts, 'd) env \<Rightarrow> 'a BulkJob \<Rightarrow> stage \<Rightarrow> ('a, BulkOpts) event list
     \<Rightarrow> stage option \<times> ('a, BulkOpts) event list" where
  "bull_resume env job st tr =
     (case st of
        Awaits_push_active \<Rightarrow>
          (case crawl_id (data job) of
             None \<Rightarrow> (Some Awaits_add, bull_add job tr)
           | Some cid \<Rightarrow>
               if cid = [] then (Some Awaits_add, bull_add job tr)
               else (Some (Awaits_crawl cid (getCrawl env tr cid)), tr @ [GetCrawl cid]))
      | Awaits_crawl cid sc \<Rightarrow>
          if truthy_num (opt_delay (crawlerOptions (data job))) \<or> truthy_num (opt_maxConcurrency sc)
          then (Some Awaits_crawl_push_active,
                tr @ [PushCrawlConcurrencyLimitActiveJob cid (jobId (opts job)) (60 * 1000)])
          else (Some Awaits_add, bull_add job tr)
      | Awaits_crawl_push_active \<Rightarrow> (Some Awaits_add, bull_add job tr)
      | Awaits_add \<Rightarrow> (None, tr))"

text \<open>\<^verbatim>\<open>addToBull.map(async (job) => ...)\<close>: every callback is started, in list order, and
  runs up to its first \<^verbatim>\<open>await\<close>. \<open>pending\<close> lists the suspended callbacks in the order
  in which their pending calls were made.\<close>

fun start_all ::
  "'a BulkJob list \<Rightarrow> ('a BulkJob \<times> stage) list \<Rightarrow> ('a, BulkOpts) event list
     \<Rightarrow> ('a BulkJob \<times> stage) list \<times> ('a, BulkOpts) event list" where
  "start_all [] pending tr = (pending, tr)"
| "start_all (job # rest) pending tr =
     (case bull_start job tr of (st, tr1) \<Rightarrow> start_all rest (pending @ [(job, st)]) tr1)"

text \<open>One step of the event loop: the answer that arrives next resumes its callback,
  which runs to its next \<^verbatim>\<open>await\<close>, where its new call is the last one made, or to its
  return.\<close>

definition resume_one ::
  "('a, BulkOpts, 'd) env \<Rightarrow> ('a BulkJob \<times> stage) list \<Rightarrow> ('a, BulkOpts) event list
     \<Rightarrow> ('a BulkJob \<times> stage) list \<times> ('a, BulkOpts) event list" where
  "resume_one env pending tr =
     (let k = resume_next env tr mod length pending;
          job = fst (pending ! k);
          st = snd (pending ! k);
          others = take k pending @ drop (Suc k) pending
      in case bull_resume env job st tr of
           (None, tr1) \<Rightarrow> (others, tr1)
         | (Some st1, tr1) \<Rightarrow> (others @ [(job, st1)], tr1))"

text \<open>The number of \<^verbatim>\<open>await\<close>s a suspended callback still has to pass, at most, and
  their sum over the suspended callbacks: the measure by which the event loop ends.\<close>

fun awaits_left :: "stage \<Rightarrow> nat" where
  "awaits_left Awaits_push_active = 4"
| "awaits_left (Awaits_crawl cid sc) = 3"
| "awaits_left Awaits_crawl_push_active = 2"
| "awaits_left Awaits_add = 1"

definition remaining :: "('a BulkJob \<times> stage) list \<Rightarrow> nat" where
  "remaining pending = sum_list (map (\<lambda>p. awaits_left (snd p)) pending)"

text \<open>The event loop until every callback has returned, which is when
  \<^verbatim>\<open>Promise.all\<close> resolves.\<close>

function run_pending ::
  "('a, BulkOpts, 'd) env \<Rightarrow> ('a BulkJob \<times> stage) list \<Rightarrow> ('a, BulkOpts) event list
     \<Rightarrow> ('a, BulkOpts) event list" where
  "run_pending env pending tr =
     (if pending = [] then tr
      else run_pending env (fst (resume_one env pending tr)) (snd (resume_one env pending tr)))"
  by pat_completeness auto

termination
proof (relation "measure (\<lambda>(env, pending, tr). remaining pending)")
  show "wf (measure (\<lambda>(env :: ('a, BulkOpts, 'd) env, pending :: ('a BulkJob \<times> stage) list,
                        tr :: ('a, BulkOpts) event list). remaining pending))"
    by simp
next
  fix env :: "('a, BulkOpts, 'd) env"
    and pending :: "('a BulkJob \<times> stage) list"
    and tr :: "('a, BulkOpts) event list"
  assume ne: "pending \<noteq> []"
  define k where "k = resume_next env tr mod length pending"
  define others where "others = take k pending @ drop (Suc k) pending"
  have k: "k < length pending"
    using ne by (simp add: k_def)
  have split: "pending = take k pending @ pending ! k # drop (Suc k) pending"
    using k by (rule id_take_nth_drop)
  have "remaining pending =
          remaining (take k pending) + awaits_left (snd (pending ! k))
          + remaining (drop (Suc k) pending)"
    by (subst split) (simp add: remaining_def)
  then have total: "remaining pending = remaining others + awaits_left (snd (pending ! k))"
    by (simp add: others_def remaining_def)
  have step: "remaining (fst (resume_one env pending tr)) < remaining others + awaits_left (snd (pending ! k))"
    by (cases "snd (pending ! k)")
       (simp_all add: resume_one_def bull_resume_def Let_def remaining_def
          k_def [symmetric] others_def [symmetric] split: option.splits)
  show "((env, fst (resume_one env pending tr), snd (resume_one env pending tr)), env, pending, tr)
          \<in> measure (\<lambda>(env, pending, tr). remaining pending)"
    using step total by (simp add: case_prod_beta)
qed

text \<open>Lines 349 to 359.\<close>

definition addAllToBull ::
  "('a, BulkOpts, 'd) env \<Rightarrow> 'a BulkJob list \<Rightarrow> ('a, BulkOpts) event list
     \<Rightarrow> ('a, BulkOpts) event list" where
  "addAllToBull env jobs tr =
     (case start_all jobs [] tr of (pending, tr1) \<Rightarrow> run_pending env pending tr1)"

text \<open>Lines 236 to 359: the body of the loop over the tenant buckets. Each
  \<^verbatim>\<open>Promise.all\<close> is awaited before the next statement runs.\<close>

definition team_bucket ::
  "('a, BulkOpts, 'd) env \<Rightarrow> 'a BulkJob \<Rightarrow> string \<Rightarrow> 'a BulkJob list
     \<Rightarrow> ('a, BulkOpts) event list \<Rightarrow> ('a, BulkOpts) event list" where
  "team_bucket env job0 teamId teamJobs tr =
     (case classify env teamJobs tr of
        (potentially, forced, tr1) \<Rightarrow>
          (case headroom env job0 teamId tr1 of
             (maxConcurrency, countCanBeDirectlyAdded, tr2) \<Rightarrow>
               (let addToBull = take (nat countCanBeDirectlyAdded) potentially;
                    addToCQ = drop (nat countCanBeDirectlyAdded) potentially @ forced;
                    tr3 = notify_bulk env job0 (int (length potentially))
                            countCanBeDirectlyAdded maxConcurrency tr2;
                    tr4 = addAllToCQ addToCQ tr3
                in addAllToBull env addToBull tr4)))"

text \<open>Lines 235 to 360: the loop over the tenant buckets, one after the other.\<close>

fun team_loop ::
  "('a, BulkOpts, 'd) env \<Rightarrow> 'a BulkJob \<Rightarrow> (string \<times> 'a BulkJob list) list
     \<Rightarrow> ('a, BulkOpts) event list \<Rightarrow> ('a, BulkOpts) event list" where
  "team_loop env job0 [] tr = tr"
| "team_loop env job0 ((teamId, teamJobs) # rest) tr =
     team_loop env job0 rest (team_bucket env job0 teamId teamJobs tr)"

text \<open>\<^verbatim>\<open>addScrapeJobs\<close> (lines 209 to 361); the returned value is \<^verbatim>\<open>true\<close> for
  an empty submission and \<^verbatim>\<open>undefined\<close> (\<open>None\<close>) otherwise.\<close>

definition addScrapeJobs ::
  "('a, BulkOpts, 'd) env \<Rightarrow> 'a BulkJob list \<Rightarrow> ('a, BulkOpts) event list
     \<Rightarrow> bool option \<times> ('a, BulkOpts) event list" where
  "addScrapeJobs env jobs tr =
     (case jobs of
        [] \<Rightarrow> (Some True, tr)
      | job0 # _ \<Rightarrow> (None, team_loop env job0 (jobsByTeam jobs []) tr))"

text \<open>\<^verbatim>\<open>countCanBeDirectlyAdded\<close> of a tenant bucket, read on the trace that the
  classification of the bucket's jobs leaves.\<close>

definition countCanBeDirectlyAdded ::
  "('a, BulkOpts, 'd) env \<Rightarrow> 'a BulkJob \<Rightarrow> string \<Rightarrow> 'a BulkJob list
     \<Rightarrow> ('a, BulkOpts) event list \<Rightarrow> int" where
  "countCanBeDirectlyAdded env job0 teamId teamJobs tr =
     fst (snd (headroom env job0 teamId (snd (snd (classify env teamJobs tr)))))"

subsection \<open>Waiting for a result\<close>

text \<open>Lines 389 to 418 of \<^verbatim>\<open>waitForJob\<close>: everything after the race has settled, for
  the job handle \<open>job\<close>.\<close>

definition waitForJob_settled ::
  "('a, 'o, 'd) env \<Rightarrow> ('a, 'o) Job \<Rightarrow> 'd settled \<Rightarrow> ('a, 'o) event list
     \<Rightarrow> (thrown + 'd) \<times> ('a, 'o) event list" where
  "waitForJob_settled env job s tr =
     (case s of
        Rejected e \<Rightarrow>
          (case e of
             Transportable t \<Rightarrow> (Inl (Transportable t), tr)
           | GenericError msg \<Rightarrow>
               (case deserializeTransportableError env msg of
                  Some x \<Rightarrow> (Inl (Transportable x), tr)
                | None \<Rightarrow> (Inl (GenericError msg), tr))
           | NonError v \<Rightarrow> (Inl (NonError v), tr))
      | Resolved (Some doc) \<Rightarrow> (Inr doc, tr)
      | Resolved None \<Rightarrow>
          (case getJobFromGCS env tr (job_id job) of
             None \<Rightarrow> (Inl (GenericError ''Job not found in GCS''), tr @ [GetJobFromGCS (job_id job)])
           | Some [] \<Rightarrow> (Inl (GenericError ''Job not found in GCS''), tr @ [GetJobFromGCS (job_id job)])
           | Some (doc # _) \<Rightarrow>
               if opt_zeroDataRetention (internalOptions (job_data job))
               then (Inr doc, tr @ [GetJobFromGCS (job_id job), RemoveJobFromGCS (job_id job)])
               else (Inr doc, tr @ [GetJobFromGCS (job_id job)])))"

text \<open>The first argument of \<^verbatim>\<open>waitForJob\<close>: a job id or a job handle.\<close>

datatype ('a, 'o) job_ref = ById string | ByHandle "('a, 'o) Job"

text \<open>Lines 371 to 378: the polling loop, entered when the first look-up found no
  job. \<open>start\<close> is the clock reading of line 368. Each round sleeps 500 ms, looks the
  job up again and then reads the clock; when the time elapsed exceeds the limit the
  round throws, whatever the look-up found. The loop may run for ever: the result
  \<open>None\<close> stands for a call that never returns.\<close>

partial_function (option) poll ::
  "('a, 'o, 'd) env \<Rightarrow> string \<Rightarrow> int \<Rightarrow> int option \<Rightarrow> ('a, 'o) event list
     \<Rightarrow> ((thrown + ('a, 'o) Job) \<times> ('a, 'o) event list) option" where
  "poll env i start timeout' tr =
     (if dateNow env (tr @ [Sleep 500, QueueGetJob i]) - start
           > (case timeout' of Some t \<Rightarrow> t | None \<Rightarrow> 180000)
      then Some (Inl (newScrapeJobTimeoutError env
                        ''Scrape timed out while waiting in the concurrency limit queue''),
                 tr @ [Sleep 500, QueueGetJob i])
      else (case queue_getJob env (tr @ [Sleep 500]) i of
              None \<Rightarrow> poll env i start timeout' (tr @ [Sleep 500, QueueGetJob i])
            | Some job \<Rightarrow> Some (Inr job, tr @ [Sleep 500, QueueGetJob i])))"

declare poll.simps [code]

text \<open>Lines 381 to 388: the race. The wait for the job's completion is started first,
  with the time to live \<^verbatim>\<open>timeout ?? 180000\<close>; only when a timeout was passed, a timer
  is started, with the delay \<^verbatim>\<open>Math.max(0, timeout - (Date.now() - start))\<close>, that
  rejects when it fires. The promise that settles first decides, and which one that is
  the environment tells. \<open>byId\<close> is \<^verbatim>\<open>typeof _job === "string"\<close>.\<close>

definition race ::
  "('a, 'o, 'd) env \<Rightarrow> ('a, 'o) Job \<Rightarrow> bool \<Rightarrow> int option \<Rightarrow> int \<Rightarrow> ('a, 'o) event list
     \<Rightarrow> 'd settled \<times> ('a, 'o) event list" where
  "race env job byId timeout' start tr =
     (let ttl = (case timeout' of Some t \<Rightarrow> t | None \<Rightarrow> 180000);
          finished = waitUntilFinished env tr (job_id job) ttl;
          tr1 = tr @ [WaitUntilFinished (job_id job) ttl]
      in case timeout' of
           None \<Rightarrow> (finished, tr1)
         | Some t \<Rightarrow>
             (let tr2 = tr1 @ [DeadlineTimer (max 0 (t - (dateNow env tr1 - start)))]
              in if deadline_first env tr2
                 then (Rejected (newScrapeJobTimeoutError env
                         (''Scrape timed out'' @
                            (if byId then '' after waiting in the concurrency limit queue''
                             else []))),
                       tr2)
                 else (finished, tr2)))"

text \<open>Lines 379 to 419: from the race to the result, for the job handle found.\<close>

definition wait_finished ::
  "('a, 'o, 'd) env \<Rightarrow> ('a, 'o) Job \<Rightarrow> bool \<Rightarrow> int option \<Rightarrow> int \<Rightarrow> ('a, 'o) event list
     \<Rightarrow> (thrown + 'd) \<times> ('a, 'o) event list" where
  "wait_finished env job byId timeout' start tr =
     (case race env job byId timeout' start tr of
        (s, tr1) \<Rightarrow> waitForJob_settled env job s tr1)"

text \<open>\<^verbatim>\<open>waitForJob\<close> (lines 363 to 419). \<open>None\<close>: the call never returns.\<close>

definition waitForJob ::
  "('a, 'o, 'd) env \<Rightarrow> ('a, 'o) job_ref \<Rightarrow> int option \<Rightarrow> ('a, 'o) event list
     \<Rightarrow> ((thrown + 'd) \<times> ('a, 'o) event list) option" where
  "waitForJob env ref timeout' tr =
     (let start = dateNow env tr
      in case ref of
           ByHandle job \<Rightarrow> Some (wait_finished env job False timeout' start tr)
         | ById i \<Rightarrow>
             (case queue_getJob env tr i of
                Some job \<Rightarrow> Some (wait_finished env job True timeout' start (tr @ [QueueGetJob i]))
              | None \<Rightarrow>
                  (case poll env i start timeout' (tr @ [QueueGetJob i]) of
                     None \<Rightarrow> None
                   | Some (Inl e, tr1) \<Rightarrow> Some (Inl e, tr1)
                   | Some (Inr job, tr1) \<Rightarrow> Some (wait_finished env job True timeout' start tr1))))"

subsection \<open>Reading a trace\<close>

fun queue_add_of ::
  "('a, 'o) event \<Rightarrow> (string \<times> 'a WebScraperOptions_scheme \<times> 'o QueueOpts) list" where
  "queue_add_of (QueueAdd i d q) = [(i, d, q)]"
| "queue_add_of _ = []"

fun cq_push_of ::
  "('a, 'o) event \<Rightarrow> (string \<times> ('a, 'o) ConcurrencyLimitedJob \<times> millis) list" where
  "cq_push_of (PushConcurrencyLimitedJob t e h) = [(t, e, h)]"
| "cq_push_of _ = []"

fun push_active_of :: "('a, 'o) event \<Rightarrow> (string \<times> string \<times> int) list" where
  "push_active_of (PushConcurrencyLimitActiveJob t i ttl) = [(t, i, ttl)]"
| "push_active_of _ = []"

fun crawl_push_active_of :: "('a, 'o) event \<Rightarrow> (string \<times> string \<times> int) list" where
  "crawl_push_active_of (PushCrawlConcurrencyLimitActiveJob c i ttl) = [(c, i, ttl)]"
| "crawl_push_active_of _ = []"

fun gate_call_of :: "('a, 'o) event \<Rightarrow> string list" where
  "gate_call_of (ShouldSendConcurrencyLimitNotification t) = [t]"
| "gate_call_of _ = []"

text \<open>The worker-queue enqueues, the deferred-queue pushes, the push-active and
  crawl-push-active calls and the notification-gate calls of a trace, in order.\<close>

definition queue_adds ::
  "('a, 'o) event list \<Rightarrow> (string \<times> 'a WebScraperOptions_scheme \<times> 'o QueueOpts) list" where
  "queue_adds tr = concat (map queue_add_of tr)"

definition cq_pushes ::
  "('a, 'o) event list \<Rightarrow> (string \<times> ('a, 'o) ConcurrencyLimitedJob \<times> millis) list" where
  "cq_pushes tr = concat (map cq_push_of tr)"

definition push_actives :: "('a, 'o) event list \<Rightarrow> (string \<times> string \<times> int) list" where
  "push_actives tr = concat (map push_active_of tr)"

definition crawl_push_actives :: "('a, 'o) event list \<Rightarrow> (string \<times> string \<times> int) list" where
  "crawl_push_actives tr = concat (map crawl_push_active_of tr)"

definition gate_calls :: "('a, 'o) event list \<Rightarrow> string list" where
  "gate_calls tr = concat (map gate_call_of tr)"

text \<open>The bulk job behind a worker-queue enqueue or a deferred-queue push of the bulk
  path.\<close>

definition enqueued_jobs :: "('a, BulkOpts) event list \<Rightarrow> 'a BulkJob list" where
  "enqueued_jobs tr = map (\<lambda>(i, d, q). \<lparr>data = d, opts = opt_spread q\<rparr>) (queue_adds tr)"

definition deferred_jobs :: "('a, BulkOpts) event list \<Rightarrow> 'a BulkJob list" where
  "deferred_jobs tr =
     map (\<lambda>(t, e, h). \<lparr>data = cq_data e, opts = opt_spread (cq_opts e)\<rparr>) (cq_pushes tr)"

text \<open>\<open>n\<close> rounds of the polling loop for the job id \<open>i\<close>: a sleep of 500 ms and a
  look-up, \<open>n\<close> times.\<close>

definition rounds :: "string \<Rightarrow> nat \<Rightarrow> ('a, 'o) event list" where
  "rounds i n = concat (replicate n [Sleep 500, QueueGetJob i])"

fun sleep_of :: "('a, 'o) event \<Rightarrow> int" where
  "sleep_of (Sleep ms) = ms"
| "sleep_of _ = 0"

text \<open>The milliseconds slept so far.\<close>

definition slept :: "('a, 'o) event list \<Rightarrow> int" where
  "slept tr = sum_list (map sleep_of tr)"

text \<open>The trace on which the loop over the tenant buckets reaches the bucket of index
  \<open>n\<close>: the trace that the buckets before it leave.\<close>

definition bucket_trace ::
  "('a, BulkOpts, 'd) env \<Rightarrow> 'a BulkJob list \<Rightarrow> ('a, BulkOpts) event list \<Rightarrow> nat
     \<Rightarrow> ('a, BulkOpts) event list" where
  "bucket_trace env jobs tr n =
     (case jobs of
        [] \<Rightarrow> tr
      | job0 # _ \<Rightarrow> team_loop env job0 (take n (jobsByTeam jobs [])) tr)"

subsection \<open>The rules as the specification words them\<close>

text \<open>The per-crawl ceiling: \<^verbatim>\<open>max_concurrency\<close> if set; else 1 if \<^verbatim>\<open>delay\<close> is present;
  else unbounded (\<open>None\<close>); a missing crawl record is unbounded. A property is set, or
  present, when it holds a number.\<close>

definition crawl_ceiling :: "StoredCrawl option \<Rightarrow> int option" where
  "crawl_ceiling crawl =
     (case crawl of
        None \<Rightarrow> None
      | Some c \<Rightarrow>
          (case sc_maxConcurrency c of
             Val m \<Rightarrow> Some m
           | _ \<Rightarrow> (case opt_delay (sc_crawlerOptions c) of Val d \<Rightarrow> Some 1 | _ \<Rightarrow> None)))"

text \<open>A crawl record whose \<^verbatim>\<open>max_concurrency\<close> and \<^verbatim>\<open>delay\<close> are each a number or
  absent: neither is \<^verbatim>\<open>null\<close>. A missing record qualifies.\<close>

definition numbers_or_absent :: "StoredCrawl option \<Rightarrow> bool" where
  "numbers_or_absent crawl =
     (case crawl of
        None \<Rightarrow> True
      | Some c \<Rightarrow> opt_delay (sc_crawlerOptions c) \<noteq> Null \<and> sc_maxConcurrency c \<noteq> Null)"



text \<open>The tenant ceiling: the one on record for the mode, 2 when the record is unknown.\<close>

definition team_ceiling ::
  "('a, 'o, 'd) env \<Rightarrow> ('a, 'o) event list \<Rightarrow> string \<Rightarrow> RateLimiterMode \<Rightarrow> int" where
  "team_ceiling env tr team mode =
     (case getACUCTeam env tr team False True mode of None \<Rightarrow> 2 | Some acuc \<Rightarrow> concurrency acuc)"

text \<open>The result of a wait whose completion yields an empty document: the result is
  fetched from the blob store by the job's id; without a blob, or with an empty list of
  documents, the result-not-found error is raised; otherwise the first document is the
  result, and the blob is deleted after the read when the job is marked
  zero-data-retention.\<close>

definition fetched_from_blob_store ::
  "('a, 'o, 'd) env \<Rightarrow> ('a, 'o) Job \<Rightarrow> ('a, 'o) event list
     \<Rightarrow> (thrown + 'd) \<times> ('a, 'o) event list" where
  "fetched_from_blob_store env job tr =
     (case getJobFromGCS env tr (job_id job) of
        None \<Rightarrow> (Inl (GenericError ''Job not found in GCS''), tr @ [GetJobFromGCS (job_id job)])
      | Some docs \<Rightarrow>
          (case docs of
             [] \<Rightarrow> (Inl (GenericError ''Job not found in GCS''), tr @ [GetJobFromGCS (job_id job)])
           | doc # rest \<Rightarrow>
               (Inr doc,
                tr @ [GetJobFromGCS (job_id job)] @
                  (case internalOptions (job_data job) of
                     None \<Rightarrow> []
                   | Some io \<Rightarrow> if zeroDataRetention io then [RemoveJobFromGCS (job_id job)] else []))))"

text \<open>The error a wait raises when its completion fails with \<open>e\<close>: a transportable
  error as it is, an \<^verbatim>\<open>Error\<close> whose message deserialises to a transportable error as
  that typed error, anything else as it is.\<close>

definition reraised :: "('a, 'o, 'd) env \<Rightarrow> thrown \<Rightarrow> thrown" where
  "reraised env e =
     (case e of
        Transportable t \<Rightarrow> Transportable t
      | GenericError msg \<Rightarrow>
          (case deserializeTransportableError env msg of
             Some x \<Rightarrow> Transportable x
           | None \<Rightarrow> GenericError msg)
      | NonError v \<Rightarrow> NonError v)"

text \<open>A job that materialises in round \<open>n + 1\<close> of the polling loop, within the budget:
  on the trace \<open>tr\<close> that the first look-up leaves, the look-ups of the first \<open>n\<close> rounds
  find nothing, the look-up of the next round finds \<open>job\<close>, and at none of these
  \<open>n + 1\<close> rounds the time elapsed since \<open>start\<close> exceeds the timeout (180 000 ms when
  none was passed).\<close>

definition materialises_in_round ::
  "('a, 'o, 'd) env \<Rightarrow> string \<Rightarrow> int \<Rightarrow> int option \<Rightarrow> ('a, 'o) event list \<Rightarrow> nat
     \<Rightarrow> ('a, 'o) Job \<Rightarrow> bool" where
  "materialises_in_round env i start timeout' tr n job =
     (list_all (\<lambda>m. queue_getJob env (tr @ rounds i m @ [Sleep 500]) i = None) [0..<n]
      \<and> queue_getJob env (tr @ rounds i n @ [Sleep 500]) i = Some job
      \<and> list_all (\<lambda>m. dateNow env (tr @ rounds i (Suc m)) - start
                        \<le> (case timeout' of Some t \<Rightarrow> t | None \<Rightarrow> 180000)) [0..<Suc n])"

subsection \<open>A fixed environment for concrete runs\<close>

text \<open>Every crawl id has the record \<open>crawl\<close> and \<open>crawlActive\<close> active jobs; every
  tenant has the ceiling \<open>ceiling\<close> (\<open>None\<close>: no record), \<open>active\<close> active jobs and
  \<open>queued\<close> deferred jobs; the notification check says yes; the clock reads 1000; the
  blob store holds \<open>blob\<close>; no message deserialises to a transportable error; the
  worker queue knows no job; a wait for a job resolves with an empty document, before
  any deadline; the answers to the calls of suspended callbacks arrive in the order in
  which the calls were made; a \<^verbatim>\<open>ScrapeJobTimeoutError\<close> is a transportable error with
  the code \<^verbatim>\<open>SCRAPE_TIMEOUT\<close>.\<close>

definition fixed_env ::
  "StoredCrawl option \<Rightarrow> nat \<Rightarrow> int option \<Rightarrow> nat \<Rightarrow> int \<Rightarrow> 'd list option \<Rightarrow> ('a, 'o, 'd) env" where
  "fixed_env crawl crawlActive ceiling active queued blob =
     \<lparr>getCrawl = (\<lambda>tr cid. crawl),
      getCrawlConcurrencyLimitActiveJobs = (\<lambda>tr cid. replicate crawlActive ''job''),
      getACUCTeam = (\<lambda>tr team a b mode. map_option (\<lambda>c. \<lparr>concurrency = c\<rparr>) ceiling),
      getConcurrencyLimitActiveJobs = (\<lambda>tr team now. replicate active ''job''),
      getConcurrencyQueueJobsCount = (\<lambda>tr team. queued),
      shouldSendConcurrencyLimitNotification = (\<lambda>tr team. True),
      dateNow = (\<lambda>tr. 1000),
      getJobFromGCS = (\<lambda>tr i. blob),
      deserializeTransportableError = (\<lambda>msg. None),
      queue_getJob = (\<lambda>tr i. None),
      waitUntilFinished = (\<lambda>tr i ttl. Resolved None),
      deadline_first = (\<lambda>tr. False),
      resume_next = (\<lambda>tr. 0),
      newScrapeJobTimeoutError =
        (\<lambda>msg. Transportable \<lparr>code = ''SCRAPE_TIMEOUT'', message = msg\<rparr>)\<rparr>"

definition payload :: "string \<Rightarrow> string option \<Rightarrow> WebScraperOptions" where
  "payload team crawl =
     \<lparr>team_id = team, crawl_id = crawl, crawlerOptions = None, scrapeOptions = None,
      internalOptions = None, is_extract = False, from_extract = False,
      concurrencyLimited = False\<rparr>"

definition handle :: "string \<Rightarrow> (unit, unit) Job" where
  "handle i = \<lparr>job_id = i, job_data = payload ''t'' None, job_opts = queueOpts () 10 i\<rparr>"

text \<open>A handle of a job that is marked zero-data-retention.\<close>

definition zdr_handle :: "string \<Rightarrow> (unit, unit) Job" where
  "zdr_handle i =
     \<lparr>job_id = i,
      job_data = (payload ''t'' None)\<lparr>internalOptions := Some \<lparr>zeroDataRetention = True\<rparr>\<rparr>,
      job_opts = queueOpts () 10 i\<rparr>"

text \<open>An environment for concrete waits: the clock reads the milliseconds slept so far;
  the job asked for is in the worker queue once \<open>appears\<close> milliseconds have been slept
  (\<open>None\<close>: never); a wait for a job settles as \<open>fin\<close> says, unless a deadline timer was
  started and \<open>late\<close> holds: then the timer fires first. The blob store holds \<open>blob\<close>.\<close>

definition waiting_env ::
  "int option \<Rightarrow> bool \<Rightarrow> 'd settled \<Rightarrow> 'd list option \<Rightarrow> (unit, unit, 'd) env" where
  "waiting_env appears late fin blob =
     (fixed_env None 0 None 0 0 blob)
       \<lparr>dateNow := (\<lambda>tr. slept tr),
        queue_getJob :=
          (\<lambda>tr i. case appears of
                     None \<Rightarrow> None
                   | Some ms \<Rightarrow> if ms \<le> slept tr then Some (handle i) else None),
        waitUntilFinished := (\<lambda>tr i ttl. fin),
        deadline_first := (\<lambda>tr. late)\<rparr>"

definition bulk_job :: "string \<Rightarrow> string \<Rightarrow> string option \<Rightarrow> unit BulkJob" where
  "bulk_job i team crawl = \<lparr>data = payload team crawl, opts = \<lparr>jobId = i, priority = 10\<rparr>\<rparr>"

section \<open>Properties\<close>

subsection \<open>Reading a trace: basic facts\<close>

lemma queue_adds_append [simp]: "queue_adds (xs @ ys) = queue_adds xs @ queue_adds ys"
  by (simp add: queue_adds_def)

lemma cq_pushes_append [simp]: "cq_pushes (xs @ ys) = cq_pushes xs @ cq_pushes ys"
  by (simp add: cq_pushes_def)

lemma push_actives_append [simp]: "push_actives (xs @ ys) = push_actives xs @ push_actives ys"
  by (simp add: push_actives_def)

lemma crawl_push_actives_append [simp]:
  "crawl_push_actives (xs @ ys) = crawl_push_actives xs @ crawl_push_actives ys"
  by (simp add: crawl_push_actives_def)

lemma gate_calls_append [simp]: "gate_calls (xs @ ys) = gate_calls xs @ gate_calls ys"
  by (simp add: gate_calls_def)

lemma queue_adds_Nil [simp]: "queue_adds [] = []"
  by (simp add: queue_adds_def)

lemma queue_adds_Cons [simp]: "queue_adds (e # es) = queue_add_of e @ queue_adds es"
  by (simp add: queue_adds_def)

lemma cq_pushes_Nil [simp]: "cq_pushes [] = []"
  by (simp add: cq_pushes_def)

lemma cq_pushes_Cons [simp]: "cq_pushes (e # es) = cq_push_of e @ cq_pushes es"
  by (simp add: cq_pushes_def)

lemma push_actives_Nil [simp]: "push_actives [] = []"
  by (simp add: push_actives_def)

lemma push_actives_Cons [simp]: "push_actives (e # es) = push_active_of e @ push_actives es"
  by (simp add: push_actives_def)

lemma crawl_push_actives_Nil [simp]: "crawl_push_actives [] = []"
  by (simp add: crawl_push_actives_def)

lemma crawl_push_actives_Cons [simp]:
  "crawl_push_actives (e # es) = crawl_push_active_of e @ crawl_push_actives es"
  by (simp add: crawl_push_actives_def)

lemma gate_calls_Nil [simp]: "gate_calls [] = []"
  by (simp add: gate_calls_def)

lemma gate_calls_Cons [simp]: "gate_calls (e # es) = gate_call_of e @ gate_calls es"
  by (simp add: gate_calls_def)

lemma enqueued_jobs_append [simp]: "enqueued_jobs (xs @ ys) = enqueued_jobs xs @ enqueued_jobs ys"
  by (simp add: enqueued_jobs_def)

lemma deferred_jobs_append [simp]: "deferred_jobs (xs @ ys) = deferred_jobs xs @ deferred_jobs ys"
  by (simp add: deferred_jobs_def)

lemma enqueued_jobs_cong: "queue_adds a = queue_adds b \<Longrightarrow> enqueued_jobs a = enqueued_jobs b"
  by (simp add: enqueued_jobs_def)

lemma deferred_jobs_cong: "cq_pushes a = cq_pushes b \<Longrightarrow> deferred_jobs a = deferred_jobs b"
  by (simp add: deferred_jobs_def)

subsection \<open>Tenant buckets and crawl buckets\<close>

lemma map_of_map_push:
  "map_of (map_push m k v) k' =
     (if k' = k then Some ((case map_of m k of None \<Rightarrow> [] | Some vs \<Rightarrow> vs) @ [v])
      else map_of m k')"
  by (induction m k v rule: map_push.induct) auto

lemma keys_map_push:
  "map fst (map_push m k v) = (if k \<in> set (map fst m) then map fst m else map fst m @ [k])"
  by (induction m k v rule: map_push.induct) auto

lemma distinct_map_push: "distinct (map fst m) \<Longrightarrow> distinct (map fst (map_push m k v))"
  by (simp add: keys_map_push)

lemma jobsByTeam_distinct: "distinct (map fst m) \<Longrightarrow> distinct (map fst (jobsByTeam jobs m))"
  by (induction jobs arbitrary: m) (simp_all add: distinct_map_push)

lemma jobsByTeam_map_of:
  "map_of (jobsByTeam jobs m) t =
     (case map_of m t of
        None \<Rightarrow> (if filter (\<lambda>job. team_id (data job) = t) jobs = [] then None
                 else Some (filter (\<lambda>job. team_id (data job) = t) jobs))
      | Some vs \<Rightarrow> Some (vs @ filter (\<lambda>job. team_id (data job) = t) jobs))"
  by (induction jobs arbitrary: m) (auto simp: map_of_map_push split: option.splits)

text \<open>The tenant buckets of a submission: one for each tenant that has a job in it,
  holding that tenant's jobs in input order.\<close>

lemma jobsByTeam_bucket:
  "((t, teamJobs) \<in> set (jobsByTeam jobs [])) =
     (teamJobs = filter (\<lambda>job. team_id (data job) = t) jobs \<and> teamJobs \<noteq> [])"
proof -
  have d: "distinct (map fst (jobsByTeam jobs []))"
    by (rule jobsByTeam_distinct) simp
  have "((t, teamJobs) \<in> set (jobsByTeam jobs [])) = (map_of (jobsByTeam jobs []) t = Some teamJobs)"
    using d by simp
  then show ?thesis
    by (auto simp: jobsByTeam_map_of)
qed

lemma selectByCrawlID_distinct:
  "distinct (map fst m) \<Longrightarrow> distinct (map fst (fst (selectByCrawlID jobs m wo)))"
  by (induction jobs arbitrary: m wo) (simp_all add: distinct_map_push split: option.splits)

lemma selectByCrawlID_map_of:
  "c \<noteq> [] \<Longrightarrow>
   map_of (fst (selectByCrawlID jobs m wo)) c =
     (case map_of m c of
        None \<Rightarrow> (if filter (\<lambda>job. crawl_id (data job) = Some c) jobs = [] then None
                 else Some (filter (\<lambda>job. crawl_id (data job) = Some c) jobs))
      | Some vs \<Rightarrow> Some (vs @ filter (\<lambda>job. crawl_id (data job) = Some c) jobs))"
  by (induction jobs arbitrary: m wo) (auto simp: map_of_map_push split: option.splits)

lemma keys_map_push_set: "set (map fst (map_push m k v)) = insert k (set (map fst m))"
  by (auto simp: keys_map_push)

lemma selectByCrawlID_keys:
  "[] \<notin> set (map fst m) \<Longrightarrow> [] \<notin> set (map fst (fst (selectByCrawlID jobs m wo)))"
proof (induction jobs arbitrary: m wo)
  case Nil
  then show ?case by simp
next
  case (Cons job jobs)
  show ?case
  proof (cases "crawl_id (data job)")
    case None
    then show ?thesis using Cons by simp
  next
    case (Some cid)
    show ?thesis
    proof (cases "cid = []")
      case True
      then show ?thesis using Some Cons by simp
    next
      case False
      have "[] \<notin> set (map fst (map_push m cid job))"
        using False Cons.prems by (simp only: keys_map_push_set) auto
      from Cons.IH [OF this] show ?thesis
        using Some False by simp
    qed
  qed
qed

text \<open>The crawl buckets of a tenant bucket: one for each non-empty crawl id that has a
  job in it, holding that crawl's jobs in input order.\<close>

lemma selectByCrawlID_bucket:
  "((c, crawlJobs) \<in> set (fst (selectByCrawlID teamJobs [] []))) =
     (c \<noteq> [] \<and> crawlJobs = filter (\<lambda>job. crawl_id (data job) = Some c) teamJobs
      \<and> crawlJobs \<noteq> [])"
proof (cases "c = []")
  case True
  have "[] \<notin> set (map fst (fst (selectByCrawlID teamJobs [] [])))"
    by (rule selectByCrawlID_keys) simp
  then have "([], crawlJobs) \<notin> set (fst (selectByCrawlID teamJobs [] []))"
    by force
  with True show ?thesis by simp
next
  case False
  have d: "distinct (map fst (fst (selectByCrawlID teamJobs [] [])))"
    by (rule selectByCrawlID_distinct) simp
  have "((c, crawlJobs) \<in> set (fst (selectByCrawlID teamJobs [] []))) =
          (map_of (fst (selectByCrawlID teamJobs [] [])) c = Some crawlJobs)"
    using d by simp
  then show ?thesis
    using False by (auto simp: selectByCrawlID_map_of)
qed

lemma mset_map_push:
  "mset (concat (map snd (map_push m k v))) = mset (concat (map snd m)) + {#v#}"
  by (induction m k v rule: map_push.induct) simp_all

lemma selectByCrawlID_mset:
  "mset (concat (map snd (fst (selectByCrawlID js m wo)))) + mset (snd (selectByCrawlID js m wo))
     = mset (concat (map snd m)) + mset wo + mset js"
  by (induction js arbitrary: m wo) (simp_all add: mset_map_push split: option.splits)

lemma selectByCrawlID_without:
  "snd (selectByCrawlID js m wo) = wo @ filter (\<lambda>job. \<not> truthy (crawl_id (data job))) js"
  by (induction js arbitrary: m wo) (simp_all add: truthy_def split: option.splits)

lemma take_drop_mset: "mset (take n xs) + mset (drop n xs) = mset xs"
  by (metis append_take_drop_id mset_append)

lemma crawl_buckets_mset:
  "mset (fst (crawl_buckets env bs pot forced tr))
     + mset (fst (snd (crawl_buckets env bs pot forced tr)))
     = mset pot + mset forced + mset (concat (map snd bs))"
proof (induction env bs pot forced tr rule: crawl_buckets.induct)
  case (1 env potentially forced tr)
  then show ?case by simp
next
  case (2 env crawlID crawlJobs rest potentially forced tr)
  show ?case
  proof (cases "concurrencyLimit_of (getCrawl env tr crawlID)")
    case None
    then show ?thesis using 2(1) by simp
  next
    case (Some lim)
    define n where
      "n = nat (max (lim - int (length (getCrawlConcurrencyLimitActiveJobs env
                                           (tr @ [GetCrawl crawlID]) crawlID))) 0)"
    define tr' where "tr' = tr @ [GetCrawl crawlID, GetCrawlConcurrencyLimitActiveJobs crawlID]"
    have step: "crawl_buckets env ((crawlID, crawlJobs) # rest) potentially forced tr =
                crawl_buckets env rest (potentially @ take n crawlJobs) (forced @ drop n crawlJobs) tr'"
      using Some by (simp add: n_def tr'_def Let_def)
    have ih: "mset (fst (crawl_buckets env rest (potentially @ take n crawlJobs)
                           (forced @ drop n crawlJobs) tr'))
              + mset (fst (snd (crawl_buckets env rest (potentially @ take n crawlJobs)
                                  (forced @ drop n crawlJobs) tr')))
              = mset (potentially @ take n crawlJobs) + mset (forced @ drop n crawlJobs)
                + mset (concat (map snd rest))"
      using 2(2) [OF Some refl refl] by (simp add: n_def tr'_def)
    have "mset (potentially @ take n crawlJobs) + mset (forced @ drop n crawlJobs)
            = mset potentially + mset forced + (mset (take n crawlJobs) + mset (drop n crawlJobs))"
      by simp
    also have "\<dots> = mset potentially + mset forced + mset crawlJobs"
      by (simp only: take_drop_mset)
    finally show ?thesis
      unfolding step ih by simp
  qed
qed

lemma crawl_buckets_frame:
  "queue_adds (snd (snd (crawl_buckets env bs pot forced tr))) = queue_adds tr
   \<and> cq_pushes (snd (snd (crawl_buckets env bs pot forced tr))) = cq_pushes tr
   \<and> gate_calls (snd (snd (crawl_buckets env bs pot forced tr))) = gate_calls tr"
  by (induction env bs pot forced tr rule: crawl_buckets.induct)
     (simp_all add: Let_def split: option.splits)

lemma classify_mset:
  "mset (jobsPotentiallyInCQ env teamJobs tr) + mset (jobsForcedToCQ env teamJobs tr)
     = mset teamJobs"
proof -
  obtain byCrawl without where sel: "selectByCrawlID teamJobs [] [] = (byCrawl, without)"
    by (cases "selectByCrawlID teamJobs [] []")
  have a: "mset (concat (map snd byCrawl)) + mset without = mset teamJobs"
    using selectByCrawlID_mset [of teamJobs "[]" "[]"] by (simp add: sel)
  have b: "mset (fst (crawl_buckets env byCrawl [] [] tr))
             + mset (fst (snd (crawl_buckets env byCrawl [] [] tr)))
           = mset (concat (map snd byCrawl))"
    using crawl_buckets_mset [of env byCrawl "[]" "[]" tr] by simp
  have "mset (jobsPotentiallyInCQ env teamJobs tr) + mset (jobsForcedToCQ env teamJobs tr)
          = (mset (fst (crawl_buckets env byCrawl [] [] tr))
             + mset (fst (snd (crawl_buckets env byCrawl [] [] tr)))) + mset without"
    by (simp add: jobsPotentiallyInCQ_def jobsForcedToCQ_def classify_def sel case_prod_beta)
  then show ?thesis by (simp only: a b)
qed

lemma classify_order:
  "jobsPotentiallyInCQ env teamJobs tr =
     fst (crawl_buckets env (fst (selectByCrawlID teamJobs [] [])) [] [] tr)
     @ filter (\<lambda>job. \<not> truthy (crawl_id (data job))) teamJobs"
  using selectByCrawlID_without [of teamJobs "[]" "[]"]
  by (simp add: jobsPotentiallyInCQ_def classify_def case_prod_beta)

lemma classify_frame:
  "queue_adds (snd (snd (classify env teamJobs tr))) = queue_adds tr
   \<and> cq_pushes (snd (snd (classify env teamJobs tr))) = cq_pushes tr
   \<and> gate_calls (snd (snd (classify env teamJobs tr))) = gate_calls tr"
  using crawl_buckets_frame [of env "fst (selectByCrawlID teamJobs [] [])" "[]" "[]" tr]
  by (simp add: classify_def case_prod_beta)

lemma headroom_frame:
  "queue_adds (snd (snd (headroom env job0 teamId tr))) = queue_adds tr
   \<and> cq_pushes (snd (snd (headroom env job0 teamId tr))) = cq_pushes tr
   \<and> gate_calls (snd (snd (headroom env job0 teamId tr))) = gate_calls tr"
  by (simp add: headroom_def Let_def)

lemma notify_bulk_frame:
  "queue_adds (notify_bulk env job0 n k m tr) = queue_adds tr
   \<and> cq_pushes (notify_bulk env job0 n k m tr) = cq_pushes tr"
  by (simp add: notify_bulk_def Let_def)

lemma addAllToCQ_trace:
  "deferred_jobs (addAllToCQ js tr) = deferred_jobs tr @ js
   \<and> enqueued_jobs (addAllToCQ js tr) = enqueued_jobs tr
   \<and> gate_calls (addAllToCQ js tr) = gate_calls tr"
  by (induction js arbitrary: tr)
     (simp_all add: addScrapeJobToConcurrencyQueue_def deferred_jobs_def enqueued_jobs_def
        queueOpts_def)

subsection \<open>The callbacks of the bulk dispatch\<close>

declare run_pending.simps [simp del]

lemma run_pending_Nil [simp]: "run_pending env [] tr = tr"
  by (subst run_pending.simps) simp

lemma run_pending_Cons:
  "run_pending env (p # ps) tr =
     run_pending env (fst (resume_one env (p # ps) tr)) (snd (resume_one env (p # ps) tr))"
  by (subst run_pending.simps) simp

lemma enqueued_jobs_Nil [simp]: "enqueued_jobs [] = []"
  by (simp add: enqueued_jobs_def)

lemma enqueued_jobs_Cons [simp]:
  "enqueued_jobs (e # es) =
     map (\<lambda>(i, d, q). \<lparr>data = d, opts = opt_spread q\<rparr>) (queue_add_of e) @ enqueued_jobs es"
  by (simp add: enqueued_jobs_def)

lemma enqueued_jobs_bull_add: "enqueued_jobs (bull_add job tr) = enqueued_jobs tr @ [job]"
  by (simp add: bull_add_def queueOpts_def)

lemma bull_add_frame:
  "cq_pushes (bull_add job tr) = cq_pushes tr \<and> gate_calls (bull_add job tr) = gate_calls tr"
  by (simp add: bull_add_def)

lemma mset_without_nth:
  "k < length xs \<Longrightarrow> mset xs = mset (take k xs @ drop (Suc k) xs) + {#xs ! k#}"
proof -
  assume "k < length xs"
  then have "xs = take k xs @ xs ! k # drop (Suc k) xs"
    by (rule id_take_nth_drop)
  then have "mset xs = mset (take k xs @ xs ! k # drop (Suc k) xs)"
    by simp
  then show ?thesis
    by simp
qed

text \<open>The jobs whose enqueue is still to come: those of the suspended callbacks that do
  not wait for the answer of the worker queue's \<^verbatim>\<open>add\<close>. A step of the event loop moves
  a job from these to the enqueued ones, or leaves both as they are.\<close>

lemma bull_resume_enqueued:
  "mset (enqueued_jobs (snd (bull_resume env job st tr)))
     + (case fst (bull_resume env job st tr) of
          None \<Rightarrow> {#}
        | Some st1 \<Rightarrow> if st1 \<noteq> Awaits_add then {#job#} else {#})
   = mset (enqueued_jobs tr) + (if st \<noteq> Awaits_add then {#job#} else {#})"
  by (cases st)
     (simp_all add: bull_resume_def enqueued_jobs_bull_add split: option.splits)

lemma bull_resume_frame:
  "cq_pushes (snd (bull_resume env job st tr)) = cq_pushes tr
   \<and> gate_calls (snd (bull_resume env job st tr)) = gate_calls tr"
  by (cases st) (simp_all add: bull_resume_def bull_add_frame split: option.splits)

lemma resume_one_unfold:
  "resume_one env pending tr =
     (take (resume_next env tr mod length pending) pending
        @ drop (Suc (resume_next env tr mod length pending)) pending
        @ (case fst (bull_resume env (fst (pending ! (resume_next env tr mod length pending)))
                       (snd (pending ! (resume_next env tr mod length pending))) tr) of
             None \<Rightarrow> []
           | Some st1 \<Rightarrow> [(fst (pending ! (resume_next env tr mod length pending)), st1)]),
      snd (bull_resume env (fst (pending ! (resume_next env tr mod length pending)))
             (snd (pending ! (resume_next env tr mod length pending))) tr))"
  by (simp add: resume_one_def Let_def case_prod_beta split: option.splits)

lemma resume_one_enqueued:
  assumes "pending \<noteq> []"
  shows "mset (enqueued_jobs (snd (resume_one env pending tr)))
           + mset (map fst (filter (\<lambda>p. snd p \<noteq> Awaits_add) (fst (resume_one env pending tr))))
         = mset (enqueued_jobs tr) + mset (map fst (filter (\<lambda>p. snd p \<noteq> Awaits_add) pending))"
proof -
  define k where "k = resume_next env tr mod length pending"
  define before where "before = take k pending"
  define behind where "behind = drop (Suc k) pending"
  define job where "job = fst (pending ! k)"
  define st where "st = snd (pending ! k)"
  define r where "r = bull_resume env job st tr"
  define owed :: "('a BulkJob \<times> stage) list \<Rightarrow> 'a BulkJob multiset"
    where "owed = (\<lambda>ps. mset (map fst (filter (\<lambda>p. snd p \<noteq> Awaits_add) ps)))"
  have owed_append: "owed (xs @ ys) = owed xs + owed ys" for xs ys
    by (simp add: owed_def)
  have owed_one: "owed [(job, s)] = (if s \<noteq> Awaits_add then {#job#} else {#})" for s
    by (simp add: owed_def)
  have k: "k < length pending"
    using assms by (simp add: k_def)
  have "pending = before @ (job, st) # behind"
    using id_take_nth_drop [OF k] by (simp add: before_def behind_def job_def st_def)
  then have "owed pending = owed (before @ [(job, st)] @ behind)"
    by simp
  then have whole: "owed pending = owed before + owed behind + (if st \<noteq> Awaits_add then {#job#} else {#})"
    by (simp only: owed_append owed_one ac_simps)
  have step: "resume_one env pending tr =
                (before @ behind @ (case fst r of None \<Rightarrow> [] | Some st1 \<Rightarrow> [(job, st1)]), snd r)"
    by (simp only: resume_one_unfold k_def before_def behind_def job_def st_def r_def)
  have next_owed: "owed (case fst r of None \<Rightarrow> [] | Some st1 \<Rightarrow> [(job, st1)]) =
                (case fst r of None \<Rightarrow> {#} | Some st1 \<Rightarrow> if st1 \<noteq> Awaits_add then {#job#} else {#})"
    by (cases "fst r") (simp_all add: owed_def)
  have res: "mset (enqueued_jobs (snd r))
               + (case fst r of None \<Rightarrow> {#} | Some st1 \<Rightarrow> if st1 \<noteq> Awaits_add then {#job#} else {#})
             = mset (enqueued_jobs tr) + (if st \<noteq> Awaits_add then {#job#} else {#})"
    unfolding r_def by (rule bull_resume_enqueued)
  have "mset (enqueued_jobs (snd (resume_one env pending tr)))
          + owed (fst (resume_one env pending tr))
        = (mset (enqueued_jobs (snd r))
            + (case fst r of None \<Rightarrow> {#} | Some st1 \<Rightarrow> if st1 \<noteq> Awaits_add then {#job#} else {#}))
          + (owed before + owed behind)"
    by (simp only: step fst_conv snd_conv owed_append next_owed ac_simps)
  also have "\<dots> = (mset (enqueued_jobs tr) + (if st \<noteq> Awaits_add then {#job#} else {#}))
                     + (owed before + owed behind)"
    by (simp only: res)
  also have "\<dots> = mset (enqueued_jobs tr) + owed pending"
    by (simp only: whole ac_simps)
  finally show ?thesis
    by (simp only: owed_def)
qed

lemma resume_one_frame:
  "cq_pushes (snd (resume_one env pending tr)) = cq_pushes tr
   \<and> gate_calls (snd (resume_one env pending tr)) = gate_calls tr"
  by (simp only: resume_one_unfold snd_conv bull_resume_frame simp_thms)

lemma run_pending_enqueued:
  "mset (enqueued_jobs (run_pending env pending tr)) =
     mset (enqueued_jobs tr) + mset (map fst (filter (\<lambda>p. snd p \<noteq> Awaits_add) pending))"
proof (induction env pending tr rule: run_pending.induct)
  case (1 env pending tr)
  show ?case
  proof (cases "pending = []")
    case True
    then show ?thesis by simp
  next
    case False
    have "run_pending env pending tr =
            run_pending env (fst (resume_one env pending tr)) (snd (resume_one env pending tr))"
      using False by (subst run_pending.simps) simp
    then show ?thesis
      using 1 [OF False] resume_one_enqueued [OF False, of env tr] by simp
  qed
qed

lemma run_pending_frame:
  "cq_pushes (run_pending env pending tr) = cq_pushes tr
   \<and> gate_calls (run_pending env pending tr) = gate_calls tr"
proof (induction env pending tr rule: run_pending.induct)
  case (1 env pending tr)
  show ?case
  proof (cases "pending = []")
    case True
    then show ?thesis by simp
  next
    case False
    have "run_pending env pending tr =
            run_pending env (fst (resume_one env pending tr)) (snd (resume_one env pending tr))"
      using False by (subst run_pending.simps) simp
    then show ?thesis
      using 1 [OF False] resume_one_frame [of env pending tr] by simp
  qed
qed

lemma start_all_enqueued:
  "mset (enqueued_jobs (snd (start_all jobs pending tr)))
     + mset (map fst (filter (\<lambda>p. snd p \<noteq> Awaits_add) (fst (start_all jobs pending tr))))
   = mset (enqueued_jobs tr) + mset (map fst (filter (\<lambda>p. snd p \<noteq> Awaits_add) pending))
     + mset jobs"
  by (induction jobs arbitrary: pending tr)
     (simp_all add: bull_start_def enqueued_jobs_bull_add)

lemma start_all_frame:
  "cq_pushes (snd (start_all jobs pending tr)) = cq_pushes tr
   \<and> gate_calls (snd (start_all jobs pending tr)) = gate_calls tr"
  by (induction jobs arbitrary: pending tr) (simp_all add: bull_start_def bull_add_frame)

text \<open>Whatever the order in which the answers arrive, \<^verbatim>\<open>Promise.all\<close> over
  \<^verbatim>\<open>addToBull\<close> ends, enqueues every job of the list once and nothing else, and pushes
  nothing to the deferred queue.\<close>

lemma addAllToBull_trace:
  "mset (enqueued_jobs (addAllToBull env js tr)) = mset (enqueued_jobs tr) + mset js
   \<and> deferred_jobs (addAllToBull env js tr) = deferred_jobs tr
   \<and> gate_calls (addAllToBull env js tr) = gate_calls tr"
proof -
  have a: "mset (enqueued_jobs (addAllToBull env js tr)) = mset (enqueued_jobs tr) + mset js"
    using start_all_enqueued [of js "[]" tr]
    by (simp add: addAllToBull_def case_prod_beta run_pending_enqueued)
  have b: "cq_pushes (addAllToBull env js tr) = cq_pushes tr"
    using start_all_frame [of js "[]" tr]
    by (simp add: addAllToBull_def case_prod_beta run_pending_frame)
  have c: "gate_calls (addAllToBull env js tr) = gate_calls tr"
    using start_all_frame [of js "[]" tr]
    by (simp add: addAllToBull_def case_prod_beta run_pending_frame)
  show ?thesis
    using a deferred_jobs_cong [OF b] c by simp
qed

text \<open>A job that is dispatched alone makes the calls of the single-job dispatch.\<close>

lemma addAllToBull_alone:
  "addAllToBull env [job] tr =
     snd (addScrapeJobToBullMQ env (data job) (opts job) (jobId (opts job)) (priority (opts job)) tr)"
  by (simp add: addAllToBull_def bull_start_def run_pending_Cons resume_one_def bull_resume_def
        bull_add_def addScrapeJobToBullMQ_def Let_def split: option.splits)

text \<open>The push-actives of the bulk dispatch are made while the callbacks are started, one
  for each job with a non-empty \<^verbatim>\<open>team_id\<close>, in list order, before any enqueue of a job
  that has one; a callback that is resumed makes none.\<close>

lemma bull_resume_push_actives:
  "push_actives (snd (bull_resume env job st tr)) = push_actives tr"
  by (cases st) (simp_all add: bull_resume_def bull_add_def split: option.splits)

lemma resume_one_push_actives:
  "push_actives (snd (resume_one env pending tr)) = push_actives tr"
  by (simp only: resume_one_unfold snd_conv bull_resume_push_actives)

lemma run_pending_push_actives:
  "push_actives (run_pending env pending tr) = push_actives tr"
proof (induction env pending tr rule: run_pending.induct)
  case (1 env pending tr)
  show ?case
  proof (cases "pending = []")
    case True
    then show ?thesis by simp
  next
    case False
    have "run_pending env pending tr =
            run_pending env (fst (resume_one env pending tr)) (snd (resume_one env pending tr))"
      using False by (subst run_pending.simps) simp
    then show ?thesis
      using 1 [OF False] resume_one_push_actives [of env pending tr] by simp
  qed
qed

lemma start_all_push_actives:
  "push_actives (snd (start_all jobs pending tr)) =
     push_actives tr
     @ map (\<lambda>job. (team_id (data job), jobId (opts job), 60000))
         (filter (\<lambda>job. team_id (data job) \<noteq> []) jobs)"
  by (induction jobs arbitrary: pending tr) (simp_all add: bull_start_def bull_add_def)

lemma addAllToBull_push_actives:
  "push_actives (addAllToBull env jobs tr) =
     push_actives tr
     @ map (\<lambda>job. (team_id (data job), jobId (opts job), 60000))
         (filter (\<lambda>job. team_id (data job) \<noteq> []) jobs)"
  by (simp add: addAllToBull_def case_prod_beta run_pending_push_actives start_all_push_actives)

lemma team_bucket_unfold:
  "team_bucket env job0 teamId teamJobs tr =
     addAllToBull env
       (take (nat (countCanBeDirectlyAdded env job0 teamId teamJobs tr))
          (jobsPotentiallyInCQ env teamJobs tr))
       (addAllToCQ
          (drop (nat (countCanBeDirectlyAdded env job0 teamId teamJobs tr))
             (jobsPotentiallyInCQ env teamJobs tr)
           @ jobsForcedToCQ env teamJobs tr)
          (notify_bulk env job0 (int (length (jobsPotentiallyInCQ env teamJobs tr)))
             (countCanBeDirectlyAdded env job0 teamId teamJobs tr)
             (fst (headroom env job0 teamId (snd (snd (classify env teamJobs tr)))))
             (snd (snd (headroom env job0 teamId (snd (snd (classify env teamJobs tr))))))))"
  by (simp add: team_bucket_def countCanBeDirectlyAdded_def jobsPotentiallyInCQ_def
        jobsForcedToCQ_def case_prod_beta Let_def)

lemma before_dispatch_frame:
  "enqueued_jobs (notify_bulk env job0 n k m
      (snd (snd (headroom env job0 teamId (snd (snd (classify env teamJobs tr)))))))
     = enqueued_jobs tr
   \<and> deferred_jobs (notify_bulk env job0 n k m
      (snd (snd (headroom env job0 teamId (snd (snd (classify env teamJobs tr)))))))
     = deferred_jobs tr"
proof -
  let ?t1 = "snd (snd (classify env teamJobs tr))"
  let ?t2 = "snd (snd (headroom env job0 teamId ?t1))"
  have q: "queue_adds (notify_bulk env job0 n k m ?t2) = queue_adds tr"
    using notify_bulk_frame [of env job0 n k m ?t2] headroom_frame [of env job0 teamId ?t1]
          classify_frame [of env teamJobs tr]
    by simp
  have c: "cq_pushes (notify_bulk env job0 n k m ?t2) = cq_pushes tr"
    using notify_bulk_frame [of env job0 n k m ?t2] headroom_frame [of env job0 teamId ?t1]
          classify_frame [of env teamJobs tr]
    by simp
  show ?thesis
    using enqueued_jobs_cong [OF q] deferred_jobs_cong [OF c] by simp
qed

lemma headroom_value:
  "countCanBeDirectlyAdded env job0 teamId teamJobs tr =
     (let tr1 = snd (snd (classify env teamJobs tr));
          now = dateNow env tr1;
          mode = (if from_extract (data job0) then Extract else Crawl);
          cleaned = tr1 @ [GetACUCTeam teamId False True mode,
                           CleanOldConcurrencyLimitEntries teamId now]
      in max (team_ceiling env tr1 teamId mode
              - int (length (getConcurrencyLimitActiveJobs env cleaned teamId now))) 0)"
  by (simp add: countCanBeDirectlyAdded_def headroom_def team_ceiling_def Let_def)

text \<open>What the body of the loop does with one tenant bucket: the first
  \<^verbatim>\<open>countCanBeDirectlyAdded\<close> jobs of \<^verbatim>\<open>jobsPotentiallyInCQ\<close> are enqueued, each once;
  the rest of that list and then \<^verbatim>\<open>jobsForcedToCQ\<close> are pushed to the deferred queue, in
  this order; and these are the jobs of the bucket, each once.\<close>

lemma tenant_bucket_dispatch:
  "mset (enqueued_jobs (team_bucket env job0 teamId teamJobs tr)) =
     mset (enqueued_jobs tr)
     + mset (take (nat (countCanBeDirectlyAdded env job0 teamId teamJobs tr))
               (jobsPotentiallyInCQ env teamJobs tr))
   \<and> deferred_jobs (team_bucket env job0 teamId teamJobs tr) =
       deferred_jobs tr @
         drop (nat (countCanBeDirectlyAdded env job0 teamId teamJobs tr))
           (jobsPotentiallyInCQ env teamJobs tr)
         @ jobsForcedToCQ env teamJobs tr
   \<and> mset (take (nat (countCanBeDirectlyAdded env job0 teamId teamJobs tr))
              (jobsPotentiallyInCQ env teamJobs tr))
       + mset (drop (nat (countCanBeDirectlyAdded env job0 teamId teamJobs tr))
                (jobsPotentiallyInCQ env teamJobs tr)
               @ jobsForcedToCQ env teamJobs tr)
       = mset teamJobs"
proof -
  let ?k = "nat (countCanBeDirectlyAdded env job0 teamId teamJobs tr)"
  let ?pot = "jobsPotentiallyInCQ env teamJobs tr"
  let ?forced = "jobsForcedToCQ env teamJobs tr"
  have enq: "mset (enqueued_jobs (team_bucket env job0 teamId teamJobs tr))
               = mset (enqueued_jobs tr) + mset (take ?k ?pot)"
    by (simp add: team_bucket_unfold addAllToBull_trace addAllToCQ_trace before_dispatch_frame)
  have dfr: "deferred_jobs (team_bucket env job0 teamId teamJobs tr) =
               deferred_jobs tr @ drop ?k ?pot @ ?forced"
    by (simp add: team_bucket_unfold addAllToBull_trace addAllToCQ_trace before_dispatch_frame)
  have "mset (take ?k ?pot) + mset (drop ?k ?pot @ ?forced) =
          (mset (take ?k ?pot) + mset (drop ?k ?pot)) + mset ?forced"
    by simp
  also have "\<dots> = mset ?pot + mset ?forced"
    by (simp only: take_drop_mset)
  finally have ms: "mset (take ?k ?pot) + mset (drop ?k ?pot @ ?forced) = mset teamJobs"
    by (simp only: classify_mset)
  show ?thesis
    using enq dfr ms by (simp only: simp_thms)
qed

subsection \<open>The loop over the tenant buckets\<close>

lemma team_loop_append:
  "team_loop env job0 (xs @ ys) tr = team_loop env job0 ys (team_loop env job0 xs tr)"
  by (induction xs arbitrary: tr) auto

lemma bucket_trace_0: "bucket_trace env jobs tr 0 = tr"
  by (simp add: bucket_trace_def split: list.splits)

lemma team_loop_take_Suc:
  assumes "n < length bs"
  shows "team_loop env job0 (take (Suc n) bs) tr =
           team_bucket env job0 (fst (bs ! n)) (snd (bs ! n)) (team_loop env job0 (take n bs) tr)"
proof -
  have one: "team_loop env job0 [b] t = team_bucket env job0 (fst b) (snd b) t" for b t
    by (cases b) simp
  have "take (Suc n) bs = take n bs @ [bs ! n]"
    using assms by (simp add: take_Suc_conv_app_nth)
  then show ?thesis
    by (simp only: team_loop_append one)
qed

lemma bucket_trace_Suc:
  assumes "n < length (jobsByTeam (job0 # rest) [])"
  shows "bucket_trace env (job0 # rest) tr (Suc n) =
           team_bucket env job0 (fst (jobsByTeam (job0 # rest) [] ! n))
             (snd (jobsByTeam (job0 # rest) [] ! n)) (bucket_trace env (job0 # rest) tr n)"
  by (simp only: bucket_trace_def list.case team_loop_take_Suc [OF assms])

lemma bucket_trace_last:
  "snd (addScrapeJobs env jobs tr) = bucket_trace env jobs tr (length (jobsByTeam jobs []))"
  by (simp add: addScrapeJobs_def bucket_trace_def split: list.splits)

lemma jobsByTeam_nth:
  assumes "n < length (jobsByTeam jobs [])"
  shows "snd (jobsByTeam jobs [] ! n) =
           filter (\<lambda>job. team_id (data job) = fst (jobsByTeam jobs [] ! n)) jobs
         \<and> snd (jobsByTeam jobs [] ! n) \<noteq> []"
proof -
  have "jobsByTeam jobs [] ! n \<in> set (jobsByTeam jobs [])"
    using assms by (rule nth_mem)
  then have "(fst (jobsByTeam jobs [] ! n), snd (jobsByTeam jobs [] ! n)) \<in> set (jobsByTeam jobs [])"
    by simp
  then show ?thesis
    by (rule jobsByTeam_bucket [THEN iffD1])
qed

lemma jobsByTeam_mset:
  "mset (concat (map snd (jobsByTeam jobs m))) = mset (concat (map snd m)) + mset jobs"
  by (induction jobs arbitrary: m) (simp_all add: mset_map_push)

lemma fst_set_map_push: "fst ` set (map_push m k v) = insert k (fst ` set m)"
  using keys_map_push_set [of m k v] by simp

lemma jobsByTeam_keys:
  "fst ` set (jobsByTeam jobs m) = fst ` set m \<union> (\<lambda>job. team_id (data job)) ` set jobs"
  by (induction jobs arbitrary: m) (simp_all add: fst_set_map_push)

lemma team_loop_total:
  "mset (enqueued_jobs (team_loop env job0 bs tr)) + mset (deferred_jobs (team_loop env job0 bs tr))
     = mset (enqueued_jobs tr) + mset (deferred_jobs tr) + mset (concat (map snd bs))"
proof (induction bs arbitrary: tr)
  case Nil
  then show ?case by simp
next
  case (Cons b bs)
  obtain teamId teamJobs where b: "b = (teamId, teamJobs)"
    by (cases b)
  let ?k = "nat (countCanBeDirectlyAdded env job0 teamId teamJobs tr)"
  let ?pot = "jobsPotentiallyInCQ env teamJobs tr"
  let ?forced = "jobsForcedToCQ env teamJobs tr"
  let ?tr1 = "team_bucket env job0 teamId teamJobs tr"
  have one: "mset (enqueued_jobs ?tr1) + mset (deferred_jobs ?tr1)
               = mset (enqueued_jobs tr) + mset (deferred_jobs tr) + mset teamJobs"
  proof -
    have "mset (enqueued_jobs ?tr1) + mset (deferred_jobs ?tr1)
            = mset (enqueued_jobs tr) + mset (deferred_jobs tr)
              + (mset (take ?k ?pot) + mset (drop ?k ?pot @ ?forced))"
      using tenant_bucket_dispatch [of env job0 teamId teamJobs tr] by simp
    then show ?thesis
      using tenant_bucket_dispatch [of env job0 teamId teamJobs tr] by (simp only:)
  qed
  show ?case
    using Cons.IH [of ?tr1] one by (simp add: b)
qed

text \<open>Every job of a bulk submission goes to exactly one of the two destinations.\<close>

lemma addScrapeJobs_total:
  "mset (enqueued_jobs (snd (addScrapeJobs env jobs tr)))
     + mset (deferred_jobs (snd (addScrapeJobs env jobs tr)))
   = mset (enqueued_jobs tr) + mset (deferred_jobs tr) + mset jobs"
proof (cases jobs)
  case Nil
  then show ?thesis by (simp add: addScrapeJobs_def)
next
  case (Cons job0 rest)
  have "mset (concat (map snd (jobsByTeam jobs []))) = mset jobs"
    using jobsByTeam_mset [of jobs "[]"] by simp
  then show ?thesis
    using team_loop_total [of env job0 "jobsByTeam jobs []" tr]
    by (simp add: addScrapeJobs_def Cons)
qed

text \<open>The definitions a concrete run unfolds.\<close>

lemmas run_defs =
  addScrapeJobs_def team_bucket_def classify_def headroom_def notify_bulk_def
  addScrapeJobToBullMQ_def addScrapeJobToConcurrencyQueue_def queueOpts_def
  concurrencyLimit_of_def opt_delay_def opt_maxConcurrency_def opt_timeout_def
  truthy_def truthy_num_def isCrawlOrBatchScrape_def fixed_env_def bulk_job_def payload_def
  jobsPotentiallyInCQ_def jobsForcedToCQ_def countCanBeDirectlyAdded_def
  deferred_jobs_def team_ceiling_def
  addScrapeJobRaw_def admission_def crawl_gate_def team_gate_def notify_single_def Let_def
  addAllToBull_def bull_start_def bull_resume_def bull_add_def resume_one_def run_pending_Cons
  bucket_trace_def

subsection \<open>The per-crawl gate\<close>

text \<open>For a crawl record that holds no \<^verbatim>\<open>null\<close>, the ceiling the code computes is the
  ceiling as the specification words it. A \<^verbatim>\<open>null\<close> in either property bounds the crawl:
  at 1, unless \<^verbatim>\<open>max_concurrency\<close> is a number.\<close>

lemma concurrencyLimit_of_ceiling:
  "numbers_or_absent crawl \<Longrightarrow> concurrencyLimit_of crawl = crawl_ceiling crawl"
  by (auto simp: concurrencyLimit_of_def crawl_ceiling_def numbers_or_absent_def
        split: option.splits js.splits)

lemma concurrencyLimit_of_null:
  "opt_delay (sc_crawlerOptions c) = Null \<or> sc_maxConcurrency c = Null \<Longrightarrow>
     concurrencyLimit_of (Some c) = Some (case sc_maxConcurrency c of Val m \<Rightarrow> m | _ \<Rightarrow> 1)"
  by (auto simp: concurrencyLimit_of_def)

lemma team_gate_verdict: "fst (team_gate env w tr) \<noteq> Yes_crawl"
  by (simp add: team_gate_def Let_def)

lemma crawl_gate_value:
  assumes "crawl_id w = Some c" and "c \<noteq> []" and "numbers_or_absent (getCrawl env tr c)"
  shows "fst (crawl_gate env w tr) =
           (case crawl_ceiling (getCrawl env tr c) of
              None \<Rightarrow> None
            | Some ceiling \<Rightarrow>
                if max (ceiling
                        - int (length (getCrawlConcurrencyLimitActiveJobs env (tr @ [GetCrawl c]) c))) 0 = 0
                then Some Yes_crawl else None)"
  using assms(1,2)
  by (simp add: crawl_gate_def Let_def concurrencyLimit_of_ceiling [OF assms(3)] split: option.splits)

lemma admission_crawl_verdict:
  "(fst (admission env w False tr) = Yes_crawl) = (fst (crawl_gate env w tr) = Some Yes_crawl)"
proof (cases "crawl_gate env w tr")
  case (Pair v tr1)
  then show ?thesis
    using team_gate_verdict [of env w tr1]
    by (cases v) (auto simp: admission_def)
qed

lemma gate_case:
  "((case x of None \<Rightarrow> None | Some y \<Rightarrow> if P y then Some a else None) = Some a) =
     (case x of None \<Rightarrow> False | Some y \<Rightarrow> P y)"
  by (cases x) simp_all

lemma admission_crawl_value:
  assumes "crawl_id w = Some c" and "c \<noteq> []" and "numbers_or_absent (getCrawl env tr c)"
  shows "(fst (admission env w False tr) = Yes_crawl) =
           (case crawl_ceiling (getCrawl env tr c) of
              None \<Rightarrow> False
            | Some ceiling \<Rightarrow>
                max (ceiling
                     - int (length (getCrawlConcurrencyLimitActiveJobs env (tr @ [GetCrawl c]) c))) 0 = 0)"
  unfolding admission_crawl_verdict crawl_gate_value [OF assms]
  by (rule gate_case)

text \<open>One round of the loop over the crawl buckets, whatever the accumulators hold.\<close>

lemma crawl_bucket_step:
  assumes "numbers_or_absent (getCrawl env tr c)"
  shows "crawl_buckets env ((c, crawlJobs) # buckets) potentially forced tr =
     (case crawl_ceiling (getCrawl env tr c) of
        None \<Rightarrow> crawl_buckets env buckets (potentially @ crawlJobs) forced (tr @ [GetCrawl c])
      | Some ceiling \<Rightarrow>
          crawl_buckets env buckets
            (potentially @
               take (nat (max (ceiling
                 - int (length (getCrawlConcurrencyLimitActiveJobs env (tr @ [GetCrawl c]) c))) 0))
                 crawlJobs)
            (forced @
               drop (nat (max (ceiling
                 - int (length (getCrawlConcurrencyLimitActiveJobs env (tr @ [GetCrawl c]) c))) 0))
                 crawlJobs)
            (tr @ [GetCrawl c, GetCrawlConcurrencyLimitActiveJobs c]))"
  by (simp add: concurrencyLimit_of_ceiling [OF assms] Let_def split: option.splits)

lemma forced_value:
  "jobsForcedToCQ env teamJobs tr =
     fst (snd (crawl_buckets env (fst (selectByCrawlID teamJobs [] [])) [] [] tr))"
  by (simp add: jobsForcedToCQ_def classify_def case_prod_beta)

lemma forced_are_deferred:
  assumes "n < length (jobsByTeam (job0 # jobs) [])"
  shows "deferred_jobs (bucket_trace env (job0 # jobs) tr (Suc n)) =
           deferred_jobs (bucket_trace env (job0 # jobs) tr n)
           @ drop (nat (countCanBeDirectlyAdded env job0 (fst (jobsByTeam (job0 # jobs) [] ! n))
                          (snd (jobsByTeam (job0 # jobs) [] ! n)) (bucket_trace env (job0 # jobs) tr n)))
               (jobsPotentiallyInCQ env (snd (jobsByTeam (job0 # jobs) [] ! n))
                  (bucket_trace env (job0 # jobs) tr n))
           @ jobsForcedToCQ env (snd (jobsByTeam (job0 # jobs) [] ! n))
               (bucket_trace env (job0 # jobs) tr n)"
  by (simp only: bucket_trace_Suc [OF assms] tenant_bucket_dispatch)

text \<open>
  C1, as amended. For a crawl record whose \<^verbatim>\<open>max_concurrency\<close> and \<^verbatim>\<open>delay\<close> are each
  a number or absent, the per-crawl ceiling is \<^verbatim>\<open>max_concurrency\<close> if the record sets it,
  else 1 if \<^verbatim>\<open>delay\<close> is present, else unbounded, and a missing record is unbounded
  (\<open>crawl_ceiling\<close>). A single job with a crawl id that is not sent direct-to-worker gets
  the verdict DEFER\_CRAWL exactly when the ceiling is bounded and
  \<open>max (ceiling - count-crawl-active) 0 = 0\<close>; otherwise the crawl gate passes it on.

  In a bulk submission the same ceiling is computed once for every crawl bucket of every
  tenant bucket: the loop over the crawl buckets ends with its two lists when no bucket
  is left, and otherwise appends the first \<open>max (ceiling - count-crawl-active) 0\<close> jobs
  of the next bucket (all of them when the crawl is unbounded) to the potentially
  admissible jobs and every later job of the bucket to the forced-defer list, whatever
  the two lists hold already, and goes on with the remaining buckets. The crawl buckets
  of a tenant bucket are one for each non-empty crawl id, with that crawl's jobs in input
  order. For every tenant bucket of the submission the forced-defer list is what this loop
  leaves, started with two empty lists, and all its jobs are pushed to the deferred
  queue, behind the potentially admissible jobs that the tenant's headroom does not
  cover.
\<close>

theorem crawl_gate_rule:
  "(crawl_id w = Some c \<and> c \<noteq> [] \<and> numbers_or_absent (getCrawl env tr c) \<longrightarrow>
      (fst (admission env w False tr) = Yes_crawl) =
        (case crawl_ceiling (getCrawl env tr c) of
           None \<Rightarrow> False
         | Some ceiling \<Rightarrow>
             max (ceiling
                  - int (length (getCrawlConcurrencyLimitActiveJobs env (tr @ [GetCrawl c]) c))) 0 = 0)
      \<and> fst (crawl_gate env w tr) =
        (case crawl_ceiling (getCrawl env tr c) of
           None \<Rightarrow> None
         | Some ceiling \<Rightarrow>
             if max (ceiling
                     - int (length (getCrawlConcurrencyLimitActiveJobs env (tr @ [GetCrawl c]) c))) 0 = 0
             then Some Yes_crawl else None))
   \<and> crawl_buckets benv [] potentially forced btr = (potentially, forced, btr)
   \<and> (numbers_or_absent (getCrawl benv btr b) \<longrightarrow>
        crawl_buckets benv ((b, crawlJobs) # buckets) potentially forced btr =
          (case crawl_ceiling (getCrawl benv btr b) of
             None \<Rightarrow> crawl_buckets benv buckets (potentially @ crawlJobs) forced (btr @ [GetCrawl b])
           | Some ceiling \<Rightarrow>
               crawl_buckets benv buckets
                 (potentially @
                    take (nat (max (ceiling
                      - int (length (getCrawlConcurrencyLimitActiveJobs benv (btr @ [GetCrawl b]) b))) 0))
                      crawlJobs)
                 (forced @
                    drop (nat (max (ceiling
                      - int (length (getCrawlConcurrencyLimitActiveJobs benv (btr @ [GetCrawl b]) b))) 0))
                      crawlJobs)
                 (btr @ [GetCrawl b, GetCrawlConcurrencyLimitActiveJobs b])))
   \<and> ((b', jobs') \<in> set (fst (selectByCrawlID teamJobs [] []))) =
       (b' \<noteq> [] \<and> jobs' = filter (\<lambda>job. crawl_id (data job) = Some b') teamJobs \<and> jobs' \<noteq> [])
   \<and> jobsForcedToCQ benv teamJobs btr =
       fst (snd (crawl_buckets benv (fst (selectByCrawlID teamJobs [] [])) [] [] btr))
   \<and> (\<forall>n < length (jobsByTeam (job0 # jobs) []).
        deferred_jobs (bucket_trace benv (job0 # jobs) start (Suc n)) =
          deferred_jobs (bucket_trace benv (job0 # jobs) start n)
          @ drop (nat (countCanBeDirectlyAdded benv job0 (fst (jobsByTeam (job0 # jobs) [] ! n))
                         (snd (jobsByTeam (job0 # jobs) [] ! n))
                         (bucket_trace benv (job0 # jobs) start n)))
              (jobsPotentiallyInCQ benv (snd (jobsByTeam (job0 # jobs) [] ! n))
                 (bucket_trace benv (job0 # jobs) start n))
          @ jobsForcedToCQ benv (snd (jobsByTeam (job0 # jobs) [] ! n))
              (bucket_trace benv (job0 # jobs) start n))
   \<and> snd (addScrapeJobs benv (job0 # jobs) start) =
       bucket_trace benv (job0 # jobs) start (length (jobsByTeam (job0 # jobs) []))"
proof (intro conjI impI allI)
  assume a: "crawl_id w = Some c \<and> c \<noteq> [] \<and> numbers_or_absent (getCrawl env tr c)"
  show "(fst (admission env w False tr) = Yes_crawl) =
        (case crawl_ceiling (getCrawl env tr c) of
           None \<Rightarrow> False
         | Some ceiling \<Rightarrow>
             max (ceiling
                  - int (length (getCrawlConcurrencyLimitActiveJobs env (tr @ [GetCrawl c]) c))) 0 = 0)"
    using a by (intro admission_crawl_value) simp_all
  show "fst (crawl_gate env w tr) =
        (case crawl_ceiling (getCrawl env tr c) of
           None \<Rightarrow> None
         | Some ceiling \<Rightarrow>
             if max (ceiling
                     - int (length (getCrawlConcurrencyLimitActiveJobs env (tr @ [GetCrawl c]) c))) 0 = 0
             then Some Yes_crawl else None)"
    using a by (intro crawl_gate_value) simp_all
next
  show "crawl_buckets benv [] potentially forced btr = (potentially, forced, btr)"
    by simp
next
  assume "numbers_or_absent (getCrawl benv btr b)"
  then show "crawl_buckets benv ((b, crawlJobs) # buckets) potentially forced btr =
          (case crawl_ceiling (getCrawl benv btr b) of
             None \<Rightarrow> crawl_buckets benv buckets (potentially @ crawlJobs) forced (btr @ [GetCrawl b])
           | Some ceiling \<Rightarrow>
               crawl_buckets benv buckets
                 (potentially @
                    take (nat (max (ceiling
                      - int (length (getCrawlConcurrencyLimitActiveJobs benv (btr @ [GetCrawl b]) b))) 0))
                      crawlJobs)
                 (forced @
                    drop (nat (max (ceiling
                      - int (length (getCrawlConcurrencyLimitActiveJobs benv (btr @ [GetCrawl b]) b))) 0))
                      crawlJobs)
                 (btr @ [GetCrawl b, GetCrawlConcurrencyLimitActiveJobs b]))"
    by (rule crawl_bucket_step)
next
  show "((b', jobs') \<in> set (fst (selectByCrawlID teamJobs [] []))) =
       (b' \<noteq> [] \<and> jobs' = filter (\<lambda>job. crawl_id (data job) = Some b') teamJobs \<and> jobs' \<noteq> [])"
    by (rule selectByCrawlID_bucket)
next
  show "jobsForcedToCQ benv teamJobs btr =
       fst (snd (crawl_buckets benv (fst (selectByCrawlID teamJobs [] [])) [] [] btr))"
    by (rule forced_value)
next
  fix n
  assume "n < length (jobsByTeam (job0 # jobs) [])"
  then show "deferred_jobs (bucket_trace benv (job0 # jobs) start (Suc n)) =
          deferred_jobs (bucket_trace benv (job0 # jobs) start n)
          @ drop (nat (countCanBeDirectlyAdded benv job0 (fst (jobsByTeam (job0 # jobs) [] ! n))
                         (snd (jobsByTeam (job0 # jobs) [] ! n))
                         (bucket_trace benv (job0 # jobs) start n)))
              (jobsPotentiallyInCQ benv (snd (jobsByTeam (job0 # jobs) [] ! n))
                 (bucket_trace benv (job0 # jobs) start n))
          @ jobsForcedToCQ benv (snd (jobsByTeam (job0 # jobs) [] ! n))
              (bucket_trace benv (job0 # jobs) start n)"
    by (rule forced_are_deferred)
next
  show "snd (addScrapeJobs benv (job0 # jobs) start) =
       bucket_trace benv (job0 # jobs) start (length (jobsByTeam (job0 # jobs) []))"
    by (rule bucket_trace_last)
qed

text \<open>
  C1, witness. A crawl whose record has a delay of 5 and no \<^verbatim>\<open>max_concurrency\<close> has
  the ceiling 1; with one active job of the crawl a single job of that crawl is deferred
  by the crawl gate. In a bulk submission of three jobs \<open>a\<close>, \<open>b\<close>, \<open>c\<close> of a crawl with
  \<^verbatim>\<open>max_concurrency\<close> 2 and one active job, the round of the crawl bucket, entered with
  the lists \<open>[x]\<close> and \<open>[y]\<close>, leaves \<open>[x, a]\<close> and \<open>[y, b, c]\<close>; the tenant bucket of the
  submission, which is its first, leaves \<open>b\<close> and \<open>c\<close> in the deferred queue.
\<close>

theorem crawl_gate_rule_witness:
  "crawl_id (payload ''t'' (Some ''c'')) = Some ''c'' \<and> ''c'' \<noteq> []
   \<and> numbers_or_absent (getCrawl
        (fixed_env (Some \<lparr>sc_crawlerOptions = Some \<lparr>delay = Val 5\<rparr>, sc_maxConcurrency = Undefined\<rparr>)
           1 None 0 0 (None :: unit list option))
        ([] :: (unit, unit) event list) ''c'')
   \<and> fst (admission
            (fixed_env (Some \<lparr>sc_crawlerOptions = Some \<lparr>delay = Val 5\<rparr>, sc_maxConcurrency = Undefined\<rparr>)
               1 None 0 0 (None :: unit list option))
            (payload ''t'' (Some ''c'')) False ([] :: (unit, unit) event list)) = Yes_crawl
   \<and> crawl_ceiling (Some \<lparr>sc_crawlerOptions = Some \<lparr>delay = Val 5\<rparr>, sc_maxConcurrency = Undefined\<rparr>)
       = Some 1
   \<and> numbers_or_absent (getCrawl
        (fixed_env (Some \<lparr>sc_crawlerOptions = None, sc_maxConcurrency = Val 2\<rparr>) 1 (Some 10) 0 0
           (None :: unit list option))
        ([] :: (unit, BulkOpts) event list) ''c'')
   \<and> crawl_buckets
        (fixed_env (Some \<lparr>sc_crawlerOptions = None, sc_maxConcurrency = Val 2\<rparr>) 1 (Some 10) 0 0
           (None :: unit list option))
        [(''c'', [bulk_job ''a'' ''t'' (Some ''c''), bulk_job ''b'' ''t'' (Some ''c''),
                  bulk_job ''c'' ''t'' (Some ''c'')])]
        [bulk_job ''x'' ''t'' None] [bulk_job ''y'' ''t'' None] []
      = ([bulk_job ''x'' ''t'' None, bulk_job ''a'' ''t'' (Some ''c'')],
         [bulk_job ''y'' ''t'' None, bulk_job ''b'' ''t'' (Some ''c''), bulk_job ''c'' ''t'' (Some ''c'')],
         [GetCrawl ''c'', GetCrawlConcurrencyLimitActiveJobs ''c''])
   \<and> 0 < length (jobsByTeam [bulk_job ''a'' ''t'' (Some ''c''), bulk_job ''b'' ''t'' (Some ''c''),
                               bulk_job ''c'' ''t'' (Some ''c'')] [])
   \<and> deferred_jobs (bucket_trace
        (fixed_env (Some \<lparr>sc_crawlerOptions = None, sc_maxConcurrency = Val 2\<rparr>) 1 (Some 10) 0 0
           (None :: unit list option))
        [bulk_job ''a'' ''t'' (Some ''c''), bulk_job ''b'' ''t'' (Some ''c''),
         bulk_job ''c'' ''t'' (Some ''c'')] [] (Suc 0))
      = [bulk_job ''b'' ''t'' (Some ''c''), bulk_job ''c'' ''t'' (Some ''c'')]"
proof -
  let ?e = "fixed_env (Some \<lparr>sc_crawlerOptions = Some \<lparr>delay = Val 5\<rparr>, sc_maxConcurrency = Undefined\<rparr>)
              1 None 0 0 (None :: unit list option) :: (unit, unit, unit) env"
  let ?b = "fixed_env (Some \<lparr>sc_crawlerOptions = None, sc_maxConcurrency = Val 2\<rparr>) 1 (Some 10) 0 0
              (None :: unit list option) :: (unit, BulkOpts, unit) env"
  let ?js = "[bulk_job ''a'' ''t'' (Some ''c''), bulk_job ''b'' ''t'' (Some ''c''),
              bulk_job ''c'' ''t'' (Some ''c'')]"
  have h1: "crawl_id (payload ''t'' (Some ''c'')) = Some ''c'' \<and> ''c'' \<noteq> []
            \<and> numbers_or_absent (getCrawl ?e ([] :: (unit, unit) event list) ''c'')"
    by (simp add: payload_def fixed_env_def numbers_or_absent_def opt_delay_def)
  have h2: "numbers_or_absent (getCrawl ?b ([] :: (unit, BulkOpts) event list) ''c'')"
    by (simp add: fixed_env_def numbers_or_absent_def opt_delay_def)
  have h3: "0 < length (jobsByTeam ?js [])"
    by (simp add: bulk_job_def payload_def)
  note rule = crawl_gate_rule
    [where w = "payload ''t'' (Some ''c'')" and c = "''c''" and env = ?e and tr = "[]"
       and benv = ?b and btr = "[]" and b = "''c''" and crawlJobs = ?js and buckets = "[]"
       and potentially = "[bulk_job ''x'' ''t'' None]" and forced = "[bulk_job ''y'' ''t'' None]"
       and ?job0.0 = "bulk_job ''a'' ''t'' (Some ''c'')"
       and jobs = "[bulk_job ''b'' ''t'' (Some ''c''), bulk_job ''c'' ''t'' (Some ''c'')]"
       and start = "[]"]
  have a: "fst (admission ?e (payload ''t'' (Some ''c'')) False ([] :: (unit, unit) event list))
             = Yes_crawl"
    using rule [THEN conjunct1] h1
    by (simp add: fixed_env_def crawl_ceiling_def opt_delay_def)
  have b: "crawl_buckets ?b [(''c'', ?js)] [bulk_job ''x'' ''t'' None] [bulk_job ''y'' ''t'' None] []
      = ([bulk_job ''x'' ''t'' None, bulk_job ''a'' ''t'' (Some ''c'')],
         [bulk_job ''y'' ''t'' None, bulk_job ''b'' ''t'' (Some ''c''), bulk_job ''c'' ''t'' (Some ''c'')],
         [GetCrawl ''c'', GetCrawlConcurrencyLimitActiveJobs ''c''])"
    using rule [THEN conjunct2, THEN conjunct2, THEN conjunct1] h2
    by (simp add: fixed_env_def crawl_ceiling_def opt_delay_def)
  have c: "deferred_jobs (bucket_trace ?b ?js [] (Suc 0))
             = [bulk_job ''b'' ''t'' (Some ''c''), bulk_job ''c'' ''t'' (Some ''c'')]"
    using rule [THEN conjunct2, THEN conjunct2, THEN conjunct2, THEN conjunct2, THEN conjunct2,
                THEN conjunct1, THEN spec, of 0] h3
    by (simp add: run_defs)
  show ?thesis
    using h1 h2 h3 a b c
    by (simp add: crawl_ceiling_def opt_delay_def)
qed

text \<open>
  C1, counterexample to the claim as stated, at two inputs. A bulk submission of two
  jobs \<open>a\<close>, \<open>b\<close> of one crawl whose ceiling is 2 and which has one active job: the free
  crawl slots are \<open>max (2 - 1) 0 = 1\<close>, not 0, and yet the crawl gate forces \<open>b\<close> into
  the deferred queue (the tenant, with ceiling 10 and nothing active, would have admitted
  it). A single job of a crawl whose record holds a \<^verbatim>\<open>max_concurrency\<close> of \<^verbatim>\<open>null\<close> and
  no delay, which the claim's rule leaves unbounded, with one active job of the crawl: the
  crawl gate defers it.
\<close>

theorem crawl_gate_bulk_counterexample:
  "crawl_ceiling (getCrawl
       (fixed_env (Some \<lparr>sc_crawlerOptions = None, sc_maxConcurrency = Val 2\<rparr>) 1 (Some 10) 0 0
          (None :: unit list option))
       ([] :: (unit, BulkOpts) event list) ''c'') = Some 2
   \<and> max (2 - int (length (getCrawlConcurrencyLimitActiveJobs
       (fixed_env (Some \<lparr>sc_crawlerOptions = None, sc_maxConcurrency = Val 2\<rparr>) 1 (Some 10) 0 0
          (None :: unit list option))
       ([GetCrawl ''c''] :: (unit, BulkOpts) event list) ''c''))) 0 = 1
   \<and> jobsForcedToCQ
       (fixed_env (Some \<lparr>sc_crawlerOptions = None, sc_maxConcurrency = Val 2\<rparr>) 1 (Some 10) 0 0
          (None :: unit list option))
       [bulk_job ''a'' ''t'' (Some ''c''), bulk_job ''b'' ''t'' (Some ''c'')] []
      = [bulk_job ''b'' ''t'' (Some ''c'')]
   \<and> deferred_jobs (snd (addScrapeJobs
       (fixed_env (Some \<lparr>sc_crawlerOptions = None, sc_maxConcurrency = Val 2\<rparr>) 1 (Some 10) 0 0
          (None :: unit list option))
       [bulk_job ''a'' ''t'' (Some ''c''), bulk_job ''b'' ''t'' (Some ''c'')] []))
      = [bulk_job ''b'' ''t'' (Some ''c'')]
   \<and> crawl_ceiling (Some \<lparr>sc_crawlerOptions = None, sc_maxConcurrency = Null\<rparr>) = None
   \<and> fst (admission
       (fixed_env (Some \<lparr>sc_crawlerOptions = None, sc_maxConcurrency = Null\<rparr>) 1 None 0 0
          (None :: unit list option))
       (payload ''t'' (Some ''c'')) False ([] :: (unit, unit) event list)) = Yes_crawl"
  by (simp add: run_defs crawl_ceiling_def)

subsection \<open>The tenant gate\<close>



subsection \<open>Dispatch of an admitted job\<close>






subsection \<open>The deferred path of the single-job entry point\<close>

lemma notify_single_frame:
  "queue_adds (notify_single env w tr) = queue_adds tr
   \<and> cq_pushes (notify_single env w tr) = cq_pushes tr
   \<and> push_actives (notify_single env w tr) = push_actives tr
   \<and> crawl_push_actives (notify_single env w tr) = crawl_push_actives tr"
  by (simp add: notify_single_def Let_def)

lemma crawl_gate_frame:
  "queue_adds (snd (crawl_gate env w tr)) = queue_adds tr
   \<and> cq_pushes (snd (crawl_gate env w tr)) = cq_pushes tr
   \<and> push_actives (snd (crawl_gate env w tr)) = push_actives tr
   \<and> crawl_push_actives (snd (crawl_gate env w tr)) = crawl_push_actives tr
   \<and> gate_calls (snd (crawl_gate env w tr)) = gate_calls tr"
  by (simp add: crawl_gate_def Let_def split: option.splits)

lemma team_gate_frame:
  "queue_adds (snd (team_gate env w tr)) = queue_adds tr
   \<and> cq_pushes (snd (team_gate env w tr)) = cq_pushes tr
   \<and> push_actives (snd (team_gate env w tr)) = push_actives tr
   \<and> crawl_push_actives (snd (team_gate env w tr)) = crawl_push_actives tr
   \<and> gate_calls (snd (team_gate env w tr)) = gate_calls tr"
  by (simp add: team_gate_def Let_def)

lemma admission_frame:
  "queue_adds (snd (admission env w d tr)) = queue_adds tr
   \<and> cq_pushes (snd (admission env w d tr)) = cq_pushes tr
   \<and> push_actives (snd (admission env w d tr)) = push_actives tr
   \<and> crawl_push_actives (snd (admission env w d tr)) = crawl_push_actives tr
   \<and> gate_calls (snd (admission env w d tr)) = gate_calls tr"
proof (cases "crawl_gate env w tr")
  case (Pair v tr1)
  then show ?thesis
    using crawl_gate_frame [of env w tr] team_gate_frame [of env w tr1]
    by (cases v) (simp_all add: admission_def)
qed

text \<open>What the single-job entry point does with a job whose verdict is a deferral: it
  returns \<^verbatim>\<open>null\<close>, sets the flag on the payload, and pushes the flagged payload to
  the tenant's deferred queue, held for the scrape timeout (60 000 ms when the payload
  has none) without crawl id and for ever with one.\<close>

lemma addScrapeJobRaw_deferred:
  assumes "fst (admission env w d tr) \<noteq> No"
  shows "addScrapeJobRaw env w options i p d tr =
           (None, w\<lparr>concurrencyLimited := True\<rparr>,
            (if fst (admission env w d tr) = Yes
             then notify_single env w (snd (admission env w d tr))
             else snd (admission env w d tr))
            @ [PushConcurrencyLimitedJob (team_id w)
                 \<lparr>cq_id = i, cq_data = w\<lparr>concurrencyLimited := True\<rparr>,
                  cq_opts = queueOpts options p i, cq_priority = p\<rparr>
                 (if truthy (crawl_id w) then Infinity
                  else Millis (case opt_timeout (scrapeOptions w) of
                                 Some t \<Rightarrow> t | None \<Rightarrow> 60000))])"
proof (cases "admission env w d tr")
  case (Pair v tr1)
  with assms show ?thesis
    by (cases v)
       (simp_all add: addScrapeJobRaw_def addScrapeJobToConcurrencyQueue_def Let_def
          split: option.splits)
qed

lemma addScrapeJobRaw_admitted:
  assumes "fst (admission env w d tr) = No"
  shows "addScrapeJobRaw env w options i p d tr =
           (Some (fst (addScrapeJobToBullMQ env w options i p (snd (admission env w d tr)))), w,
            snd (addScrapeJobToBullMQ env w options i p (snd (admission env w d tr))))"
proof (cases "admission env w d tr")
  case (Pair v tr1)
  with assms show ?thesis
    by (simp add: addScrapeJobRaw_def split: prod.splits)
qed

lemma addAllToCQ_frame:
  "push_actives (addAllToCQ js tr) = push_actives tr
   \<and> crawl_push_actives (addAllToCQ js tr) = crawl_push_actives tr
   \<and> queue_adds (addAllToCQ js tr) = queue_adds tr
   \<and> map (\<lambda>(t, e, h). cq_data e) (cq_pushes (addAllToCQ js tr)) =
       map (\<lambda>(t, e, h). cq_data e) (cq_pushes tr) @ map data js"
  by (induction js arbitrary: tr) (simp_all add: addScrapeJobToConcurrencyQueue_def)

text \<open>
  C10. On the deferred path of the single-job entry point the payload the caller sees
  afterwards is the payload it passed with \<^verbatim>\<open>concurrencyLimited\<close> set to true and
  nothing else changed, and the call adds no push-active, no crawl-push-active and no
  worker-queue enqueue to the trace. The bulk path's deferral of a list of jobs adds
  none of the three either, and pushes every payload as it was passed.
\<close>

theorem deferred_path_frame:
  assumes "fst (admission env w d tr) \<noteq> No"
  shows "fst (snd (addScrapeJobRaw env w options i p d tr)) = w\<lparr>concurrencyLimited := True\<rparr>
         \<and> push_actives (snd (snd (addScrapeJobRaw env w options i p d tr))) = push_actives tr
         \<and> crawl_push_actives (snd (snd (addScrapeJobRaw env w options i p d tr)))
             = crawl_push_actives tr
         \<and> queue_adds (snd (snd (addScrapeJobRaw env w options i p d tr))) = queue_adds tr
         \<and> push_actives (addAllToCQ js btr) = push_actives btr
         \<and> crawl_push_actives (addAllToCQ js btr) = crawl_push_actives btr
         \<and> queue_adds (addAllToCQ js btr) = queue_adds btr
         \<and> map (\<lambda>(t, e, h). cq_data e) (cq_pushes (addAllToCQ js btr)) =
             map (\<lambda>(t, e, h). cq_data e) (cq_pushes btr) @ map data js"
  using admission_frame [of env w d tr]
        notify_single_frame [of env w "snd (admission env w d tr)"]
        addAllToCQ_frame [of js btr]
  by (simp add: addScrapeJobRaw_deferred [OF assms])

text \<open>
  C10, witness: a job of a tenant without record (ceiling 2) that has two active jobs
  and an empty deferred queue. The whole result of the call: no handle, the flagged
  payload, and a trace of three reads, the clean-up, the count of the deferred queue
  and the push to it.
\<close>

theorem deferred_path_frame_witness:
  "fst (admission (fixed_env None 0 None 2 0 (None :: unit list option)) (payload ''t'' None) False
         ([] :: (unit, unit) event list)) \<noteq> No
   \<and> addScrapeJobRaw (fixed_env None 0 None 2 0 (None :: unit list option)) (payload ''t'' None) ()
        ''j'' 10 False [] =
       (None, (payload ''t'' None)\<lparr>concurrencyLimited := True\<rparr>,
        [GetACUCTeam ''t'' False True Crawl, CleanOldConcurrencyLimitEntries ''t'' 1000,
         GetConcurrencyLimitActiveJobs ''t'' 1000, GetConcurrencyQueueJobsCount ''t'',
         PushConcurrencyLimitedJob ''t''
           \<lparr>cq_id = ''j'', cq_data = (payload ''t'' None)\<lparr>concurrencyLimited := True\<rparr>,
            cq_opts = queueOpts () 10 ''j'', cq_priority = 10\<rparr> (Millis 60000)])
   \<and> push_actives (snd (snd (addScrapeJobRaw (fixed_env None 0 None 2 0 (None :: unit list option))
        (payload ''t'' None) () ''j'' 10 False ([] :: (unit, unit) event list)))) = []
   \<and> queue_adds (addAllToCQ [bulk_job ''a'' ''t'' None] ([] :: (unit, BulkOpts) event list)) = []"
proof -
  have h: "fst (admission (fixed_env None 0 None 2 0 (None :: unit list option))
                  (payload ''t'' None) False ([] :: (unit, unit) event list)) \<noteq> No"
    by (simp add: run_defs)
  show ?thesis
    using h deferred_path_frame [OF h, of "()" "''j''" 10 "[bulk_job ''a'' ''t'' None]" "[]"]
    by (simp add: run_defs)
qed

text \<open>
  C5, the code at the failing input. A bulk submission of one job without crawl id, for a
  tenant without record (ceiling 2) that has two active jobs: the job is pushed to the
  deferred queue, held for 60 000 ms, and the payload pushed has
  \<^verbatim>\<open>concurrencyLimited\<close> unset. The single-job entry point sets it
  (\<open>addScrapeJobRaw_deferred\<close>).
\<close>

theorem bulk_deferred_unmarked:
  "map (\<lambda>(t, e, h). (t, cq_id e, concurrencyLimited (cq_data e), h))
     (cq_pushes (snd (addScrapeJobs (fixed_env None 0 None 2 0 (None :: unit list option))
        [bulk_job ''a'' ''t'' None] [])))
     = [(''t'', ''a'', False, Millis 60000)]"
  by (simp add: run_defs)

subsection \<open>The notification gate\<close>

text \<open>On the single-job path a tenant deferral calls the notification gate exactly when
  the tenant's deferred queue is not empty: the bound of the comparison is the 0 of line
  135, whatever the tenant's ceiling, and no test for a crawl or batch scrape is made.\<close>

lemma single_notification_rule:
  assumes "fst (admission env w d tr) = Yes"
  shows "gate_calls (snd (snd (addScrapeJobRaw env w options i p d tr))) =
           gate_calls tr @
             (if getConcurrencyQueueJobsCount env (snd (admission env w d tr)) (team_id w) > 0
              then [team_id w] else [])"
proof -
  have no: "fst (admission env w d tr) \<noteq> No"
    using assms by simp
  show ?thesis
    using admission_frame [of env w d tr] assms
    by (simp add: addScrapeJobRaw_deferred [OF no] notify_single_def Let_def)
qed

text \<open>
  C4, the code at the failing input. A single job without crawl id, for a tenant without
  record (ceiling 2) that has two active jobs and one job in its deferred queue: the
  backlog, 1, does not exceed the ceiling, 2, and the notification gate is called for the
  tenant all the same.
\<close>

theorem single_notification_below_ceiling:
  "fst (admission (fixed_env None 0 None 2 1 (None :: unit list option)) (payload ''t'' None) False
          ([] :: (unit, unit) event list)) = Yes
   \<and> team_ceiling (fixed_env None 0 None 2 1 (None :: unit list option))
      ([] :: (unit, unit) event list) ''t'' Crawl = 2
   \<and> getConcurrencyQueueJobsCount (fixed_env None 0 None 2 1 (None :: unit list option))
        ([] :: (unit, unit) event list) ''t'' = 1
   \<and> gate_calls (snd (snd (addScrapeJobRaw (fixed_env None 0 None 2 1 (None :: unit list option))
        (payload ''t'' None) () ''j'' 10 False [])))
      = [''t'']"
  by (simp add: run_defs)

subsection \<open>Bulk admission of the tenant buckets\<close>

text \<open>
  C3, as amended. For every bulk submission and every tenant bucket of it (the buckets
  are one for each tenant of the submission, with that tenant's jobs in input order, and
  are handled one after the other): with \<open>N\<close> potentially admissible jobs (those that
  pass their per-crawl gate) and the tenant headroom \<open>k = max (ceiling - count-active) 0\<close>,
  exactly \<open>min N k\<close> jobs are enqueued to the worker queue: the first \<open>k\<close> of the list of
  potentially admissible jobs as the code builds it, which holds the admissible jobs of
  the crawl buckets first and, after all of them, the jobs without crawl id in input
  order. The rest of that list, followed by the forced-defer list, is pushed to the
  deferred queue, and every job of the bucket, and so of the submission, goes to exactly
  one of the two destinations. The statement says which jobs are enqueued, not in which
  order their enqueues are made.
\<close>

theorem tenant_bucket_split:
  "(\<forall>n < length (jobsByTeam (job0 # jobs) []).
      (let teamId = fst (jobsByTeam (job0 # jobs) [] ! n);
           teamJobs = snd (jobsByTeam (job0 # jobs) [] ! n);
           tr_in = bucket_trace env (job0 # jobs) tr n;
           tr_out = bucket_trace env (job0 # jobs) tr (Suc n);
           admissible = jobsPotentiallyInCQ env teamJobs tr_in;
           forced = jobsForcedToCQ env teamJobs tr_in;
           k = nat (countCanBeDirectlyAdded env job0 teamId teamJobs tr_in)
       in teamJobs = filter (\<lambda>job. team_id (data job) = teamId) (job0 # jobs)
          \<and> teamJobs \<noteq> []
          \<and> mset (enqueued_jobs tr_out) = mset (enqueued_jobs tr_in) + mset (take k admissible)
          \<and> length (enqueued_jobs tr_out) = length (enqueued_jobs tr_in) + min (length admissible) k
          \<and> deferred_jobs tr_out = deferred_jobs tr_in @ drop k admissible @ forced
          \<and> mset (take k admissible) + mset (drop k admissible @ forced) = mset teamJobs
          \<and> admissible =
              fst (crawl_buckets env (fst (selectByCrawlID teamJobs [] [])) [] [] tr_in)
              @ filter (\<lambda>job. \<not> truthy (crawl_id (data job))) teamJobs
          \<and> countCanBeDirectlyAdded env job0 teamId teamJobs tr_in =
              (let tr1 = snd (snd (classify env teamJobs tr_in));
                   now = dateNow env tr1;
                   mode = (if from_extract (data job0) then Extract else Crawl);
                   cleaned = tr1 @ [GetACUCTeam teamId False True mode,
                                    CleanOldConcurrencyLimitEntries teamId now]
               in max (team_ceiling env tr1 teamId mode
                       - int (length (getConcurrencyLimitActiveJobs env cleaned teamId now))) 0)))
   \<and> bucket_trace env (job0 # jobs) tr 0 = tr
   \<and> snd (addScrapeJobs env (job0 # jobs) tr) =
       bucket_trace env (job0 # jobs) tr (length (jobsByTeam (job0 # jobs) []))
   \<and> distinct (map fst (jobsByTeam (job0 # jobs) []))
   \<and> fst ` set (jobsByTeam (job0 # jobs) []) = (\<lambda>job. team_id (data job)) ` set (job0 # jobs)
   \<and> mset (enqueued_jobs (snd (addScrapeJobs env (job0 # jobs) tr)))
       + mset (deferred_jobs (snd (addScrapeJobs env (job0 # jobs) tr)))
       = mset (enqueued_jobs tr) + mset (deferred_jobs tr) + mset (job0 # jobs)
   \<and> addScrapeJobs env [] tr = (Some True, tr)"
proof (intro conjI allI impI)
  fix n
  assume n: "n < length (jobsByTeam (job0 # jobs) [])"
  let ?teamId = "fst (jobsByTeam (job0 # jobs) [] ! n)"
  let ?teamJobs = "snd (jobsByTeam (job0 # jobs) [] ! n)"
  let ?tr_in = "bucket_trace env (job0 # jobs) tr n"
  let ?tr_out = "bucket_trace env (job0 # jobs) tr (Suc n)"
  let ?pot = "jobsPotentiallyInCQ env ?teamJobs ?tr_in"
  let ?forced = "jobsForcedToCQ env ?teamJobs ?tr_in"
  let ?k = "nat (countCanBeDirectlyAdded env job0 ?teamId ?teamJobs ?tr_in)"
  have out: "?tr_out = team_bucket env job0 ?teamId ?teamJobs ?tr_in"
    by (rule bucket_trace_Suc [OF n])
  have bucket: "?teamJobs = filter (\<lambda>job. team_id (data job) = ?teamId) (job0 # jobs)"
    by (rule jobsByTeam_nth [OF n, THEN conjunct1])
  have ne: "?teamJobs \<noteq> []"
    by (rule jobsByTeam_nth [OF n, THEN conjunct2])
  have enq: "mset (enqueued_jobs ?tr_out) = mset (enqueued_jobs ?tr_in) + mset (take ?k ?pot)"
    and dfr: "deferred_jobs ?tr_out = deferred_jobs ?tr_in @ drop ?k ?pot @ ?forced"
    and ms: "mset (take ?k ?pot) + mset (drop ?k ?pot @ ?forced) = mset ?teamJobs"
    using tenant_bucket_dispatch [of env job0 ?teamId ?teamJobs ?tr_in]
    by (simp_all only: out)
  have "size (mset (enqueued_jobs ?tr_out)) =
          size (mset (enqueued_jobs ?tr_in)) + size (mset (take ?k ?pot))"
    by (simp only: enq size_union)
  then have len: "length (enqueued_jobs ?tr_out) =
                    length (enqueued_jobs ?tr_in) + min (length ?pot) ?k"
    by simp
  show "let teamId = ?teamId; teamJobs = ?teamJobs; tr_in = ?tr_in; tr_out = ?tr_out;
            admissible = jobsPotentiallyInCQ env teamJobs tr_in;
            forced = jobsForcedToCQ env teamJobs tr_in;
            k = nat (countCanBeDirectlyAdded env job0 teamId teamJobs tr_in)
        in teamJobs = filter (\<lambda>job. team_id (data job) = teamId) (job0 # jobs)
           \<and> teamJobs \<noteq> []
           \<and> mset (enqueued_jobs tr_out) = mset (enqueued_jobs tr_in) + mset (take k admissible)
           \<and> length (enqueued_jobs tr_out) = length (enqueued_jobs tr_in) + min (length admissible) k
           \<and> deferred_jobs tr_out = deferred_jobs tr_in @ drop k admissible @ forced
           \<and> mset (take k admissible) + mset (drop k admissible @ forced) = mset teamJobs
           \<and> admissible =
               fst (crawl_buckets env (fst (selectByCrawlID teamJobs [] [])) [] [] tr_in)
               @ filter (\<lambda>job. \<not> truthy (crawl_id (data job))) teamJobs
           \<and> countCanBeDirectlyAdded env job0 teamId teamJobs tr_in =
               (let tr1 = snd (snd (classify env teamJobs tr_in));
                    now = dateNow env tr1;
                    mode = (if from_extract (data job0) then Extract else Crawl);
                    cleaned = tr1 @ [GetACUCTeam teamId False True mode,
                                     CleanOldConcurrencyLimitEntries teamId now]
                in max (team_ceiling env tr1 teamId mode
                        - int (length (getConcurrencyLimitActiveJobs env cleaned teamId now))) 0)"
    unfolding Let_def
    using bucket ne enq len dfr ms classify_order [of env ?teamJobs ?tr_in]
          headroom_value [of env job0 ?teamId ?teamJobs ?tr_in, unfolded Let_def]
    by (intro conjI)
next
  show "bucket_trace env (job0 # jobs) tr 0 = tr"
    by (rule bucket_trace_0)
next
  show "snd (addScrapeJobs env (job0 # jobs) tr) =
       bucket_trace env (job0 # jobs) tr (length (jobsByTeam (job0 # jobs) []))"
    by (rule bucket_trace_last)
next
  show "distinct (map fst (jobsByTeam (job0 # jobs) []))"
    by (rule jobsByTeam_distinct) simp
next
  show "fst ` set (jobsByTeam (job0 # jobs) []) = (\<lambda>job. team_id (data job)) ` set (job0 # jobs)"
    using jobsByTeam_keys [of "job0 # jobs" "[]"] by simp
next
  show "mset (enqueued_jobs (snd (addScrapeJobs env (job0 # jobs) tr)))
       + mset (deferred_jobs (snd (addScrapeJobs env (job0 # jobs) tr)))
       = mset (enqueued_jobs tr) + mset (deferred_jobs tr) + mset (job0 # jobs)"
    by (rule addScrapeJobs_total)
next
  show "addScrapeJobs env [] tr = (Some True, tr)"
    by (simp add: addScrapeJobs_def)
qed

text \<open>
  C3, witness: a bulk submission of \<open>a\<close> for tenant \<open>t\<close>, \<open>b\<close> for tenant \<open>u\<close> and \<open>c\<close>
  for tenant \<open>t\<close>, without crawl ids; every tenant has the ceiling 1 and nothing active.
  The submission has two tenant buckets. The first enqueues \<open>a\<close> and defers \<open>c\<close>; the
  second, of index 1, enqueues \<open>b\<close> and defers nothing; and that is all the submission
  does.
\<close>

theorem tenant_bucket_split_witness:
  "Suc 0 < length (jobsByTeam
       [bulk_job ''a'' ''t'' None, bulk_job ''b'' ''u'' None, bulk_job ''c'' ''t'' None] [])
   \<and> enqueued_jobs (bucket_trace (fixed_env None 0 (Some 1) 0 0 (None :: unit list option))
        [bulk_job ''a'' ''t'' None, bulk_job ''b'' ''u'' None, bulk_job ''c'' ''t'' None] [] (Suc 0))
      = [bulk_job ''a'' ''t'' None]
   \<and> enqueued_jobs (bucket_trace (fixed_env None 0 (Some 1) 0 0 (None :: unit list option))
        [bulk_job ''a'' ''t'' None, bulk_job ''b'' ''u'' None, bulk_job ''c'' ''t'' None] []
        (Suc (Suc 0)))
      = [bulk_job ''a'' ''t'' None, bulk_job ''b'' ''u'' None]
   \<and> deferred_jobs (bucket_trace (fixed_env None 0 (Some 1) 0 0 (None :: unit list option))
        [bulk_job ''a'' ''t'' None, bulk_job ''b'' ''u'' None, bulk_job ''c'' ''t'' None] []
        (Suc (Suc 0)))
      = [bulk_job ''c'' ''t'' None]
   \<and> snd (addScrapeJobs (fixed_env None 0 (Some 1) 0 0 (None :: unit list option))
        [bulk_job ''a'' ''t'' None, bulk_job ''b'' ''u'' None, bulk_job ''c'' ''t'' None] [])
      = bucket_trace (fixed_env None 0 (Some 1) 0 0 (None :: unit list option))
        [bulk_job ''a'' ''t'' None, bulk_job ''b'' ''u'' None, bulk_job ''c'' ''t'' None] []
        (Suc (Suc 0))"
proof -
  let ?e = "fixed_env None 0 (Some 1) 0 0 (None :: unit list option) :: (unit, BulkOpts, unit) env"
  have h: "Suc 0 < length (jobsByTeam
       [bulk_job ''a'' ''t'' None, bulk_job ''b'' ''u'' None, bulk_job ''c'' ''t'' None] [])"
    by (simp add: bulk_job_def payload_def)
  note rule = tenant_bucket_split
    [where ?job0.0 = "bulk_job ''a'' ''t'' None"
       and jobs = "[bulk_job ''b'' ''u'' None, bulk_job ''c'' ''t'' None]"
       and env = ?e and tr = "[]"]
  show ?thesis
    using h rule [THEN conjunct1, THEN spec, of "Suc 0"]
    by (simp add: run_defs)
qed

text \<open>
  C3, counterexample to the claim as stated: a bulk submission of \<open>a\<close>, without crawl
  id, followed by \<open>b\<close>, of a crawl without record, for a tenant without record
  (ceiling 2) that has one active job. Both jobs are potentially admissible and the
  headroom is 1; the first of them in input order is \<open>a\<close>, and the job enqueued is
  \<open>b\<close>, while \<open>a\<close> is deferred.
\<close>

theorem input_order_counterexample:
  "jobsPotentiallyInCQ (fixed_env None 0 None 1 0 (None :: unit list option))
      [bulk_job ''a'' ''t'' None, bulk_job ''b'' ''t'' (Some ''c'')] []
     = [bulk_job ''b'' ''t'' (Some ''c''), bulk_job ''a'' ''t'' None]
   \<and> countCanBeDirectlyAdded (fixed_env None 0 None 1 0 (None :: unit list option))
        (bulk_job ''a'' ''t'' None) ''t''
        [bulk_job ''a'' ''t'' None, bulk_job ''b'' ''t'' (Some ''c'')] [] = 1
   \<and> take 1 [bulk_job ''a'' ''t'' None, bulk_job ''b'' ''t'' (Some ''c'')]
     = [bulk_job ''a'' ''t'' None]
   \<and> enqueued_jobs (snd (addScrapeJobs (fixed_env None 0 None 1 0 (None :: unit list option))
        [bulk_job ''a'' ''t'' None, bulk_job ''b'' ''t'' (Some ''c'')] []))
     = [bulk_job ''b'' ''t'' (Some ''c'')]
   \<and> deferred_jobs (snd (addScrapeJobs (fixed_env None 0 None 1 0 (None :: unit list option))
        [bulk_job ''a'' ''t'' None, bulk_job ''b'' ''t'' (Some ''c'')] []))
     = [bulk_job ''a'' ''t'' None]"
  by (simp add: run_defs)

text \<open>Two scenarios of the specification, run. A tenant with ceiling 2 and nothing
  active submits five jobs without crawl id: two are enqueued, three are deferred, and
  the notification gate is called once. A tenant with ceiling 3 and nothing active
  submits three jobs of a crawl of \<^verbatim>\<open>max_concurrency\<close> 1 (no active job) and three jobs
  without crawl id: one crawl job and two of the others are enqueued, the third is
  deferred for the tenant limit and two crawl jobs are deferred for the crawl limit;
  the notification gate is not called. The three dispatches run together: with the
  answers arriving in the order of the calls, the two jobs without crawl id, which have
  one call to wait for before their enqueue, are enqueued before the crawl job, which has
  three.\<close>

lemma scenario_tenant_saturation:
  "map (\<lambda>job. jobId (opts job))
     (enqueued_jobs (snd (addScrapeJobs (fixed_env None 0 (Some 2) 0 0 (None :: unit list option))
        [bulk_job ''1'' ''t'' None, bulk_job ''2'' ''t'' None, bulk_job ''3'' ''t'' None,
         bulk_job ''4'' ''t'' None, bulk_job ''5'' ''t'' None] [])))
     = [''1'', ''2'']
   \<and> map (\<lambda>job. jobId (opts job))
     (deferred_jobs (snd (addScrapeJobs (fixed_env None 0 (Some 2) 0 0 (None :: unit list option))
        [bulk_job ''1'' ''t'' None, bulk_job ''2'' ''t'' None, bulk_job ''3'' ''t'' None,
         bulk_job ''4'' ''t'' None, bulk_job ''5'' ''t'' None] [])))
     = [''3'', ''4'', ''5'']
   \<and> gate_calls (snd (addScrapeJobs (fixed_env None 0 (Some 2) 0 0 (None :: unit list option))
        [bulk_job ''1'' ''t'' None, bulk_job ''2'' ''t'' None, bulk_job ''3'' ''t'' None,
         bulk_job ''4'' ''t'' None, bulk_job ''5'' ''t'' None] []))
     = [''t'']"
  by (simp add: run_defs)

lemma scenario_bulk_mixed:
  "map (\<lambda>job. jobId (opts job))
     (enqueued_jobs (snd (addScrapeJobs
        (fixed_env (Some \<lparr>sc_crawlerOptions = None, sc_maxConcurrency = Val 1\<rparr>) 0 (Some 3) 0 0
           (None :: unit list option))
        [bulk_job ''c1'' ''t'' (Some ''C''), bulk_job ''c2'' ''t'' (Some ''C''),
         bulk_job ''c3'' ''t'' (Some ''C''), bulk_job ''n1'' ''t'' None,
         bulk_job ''n2'' ''t'' None, bulk_job ''n3'' ''t'' None] [])))
     = [''n1'', ''n2'', ''c1'']
   \<and> map (\<lambda>job. jobId (opts job))
     (deferred_jobs (snd (addScrapeJobs
        (fixed_env (Some \<lparr>sc_crawlerOptions = None, sc_maxConcurrency = Val 1\<rparr>) 0 (Some 3) 0 0
           (None :: unit list option))
        [bulk_job ''c1'' ''t'' (Some ''C''), bulk_job ''c2'' ''t'' (Some ''C''),
         bulk_job ''c3'' ''t'' (Some ''C''), bulk_job ''n1'' ''t'' None,
         bulk_job ''n2'' ''t'' None, bulk_job ''n3'' ''t'' None] [])))
     = [''n3'', ''c2'', ''c3'']
   \<and> gate_calls (snd (addScrapeJobs
        (fixed_env (Some \<lparr>sc_crawlerOptions = None, sc_maxConcurrency = Val 1\<rparr>) 0 (Some 3) 0 0
           (None :: unit list option))
        [bulk_job ''c1'' ''t'' (Some ''C''), bulk_job ''c2'' ''t'' (Some ''C''),
         bulk_job ''c3'' ''t'' (Some ''C''), bulk_job ''n1'' ''t'' None,
         bulk_job ''n2'' ''t'' None, bulk_job ''n3'' ''t'' None] []))
     = []"
  by (simp add: run_defs)

text \<open>The order of the enqueues is the order in which the answers arrive. Two jobs
  without crawl id of a tenant with room for both: when the answer to the second
  push-active arrives before the answer to the first, the second job is enqueued first.\<close>

lemma scenario_arrival_order:
  "map (\<lambda>job. jobId (opts job))
     (enqueued_jobs (snd (addScrapeJobs
        ((fixed_env None 0 (Some 5) 0 0 (None :: unit list option))\<lparr>resume_next := (\<lambda>tr. 1)\<rparr>)
        [bulk_job ''n1'' ''t'' None, bulk_job ''n2'' ''t'' None] [])))
     = [''n2'', ''n1'']
   \<and> map (\<lambda>job. jobId (opts job))
     (enqueued_jobs (snd (addScrapeJobs (fixed_env None 0 (Some 5) 0 0 (None :: unit list option))
        [bulk_job ''n1'' ''t'' None, bulk_job ''n2'' ''t'' None] [])))
     = [''n1'', ''n2'']
   \<and> push_actives (snd (addScrapeJobs
        ((fixed_env None 0 (Some 5) 0 0 (None :: unit list option))\<lparr>resume_next := (\<lambda>tr. 1)\<rparr>)
        [bulk_job ''n1'' ''t'' None, bulk_job ''n2'' ''t'' None] []))
     = [(''t'', ''n1'', 60000), (''t'', ''n2'', 60000)]"
  by (simp add: run_defs)

text \<open>The bulk path calls the notification gate, for the tenant of the first job of the
  submission, exactly when the backlog the bucket creates exceeds the tenant's ceiling
  and the first job of the submission is no crawl or batch scrape.\<close>

lemma bulk_notification_rule:
  "gate_calls (team_bucket env job0 teamId teamJobs tr) =
     gate_calls tr @
       (if int (length (jobsPotentiallyInCQ env teamJobs tr))
             - countCanBeDirectlyAdded env job0 teamId teamJobs tr
           > fst (headroom env job0 teamId (snd (snd (classify env teamJobs tr))))
           \<and> \<not> isCrawlOrBatchScrape (data job0)
        then [team_id (data job0)] else [])"
  by (simp add: team_bucket_unfold addAllToBull_trace addAllToCQ_trace
        notify_bulk_def Let_def headroom_frame classify_frame)

subsection \<open>Waiting: the polling loop\<close>

text \<open>If the job never shows up in the worker queue and the clock advances by at least
  500 ms over each round of the loop, the loop ends, with the error, at the first round
  after which the time elapsed since \<open>start\<close> exceeds the limit.\<close>

lemma poll_times_out:
  assumes never: "\<And>tr'. queue_getJob env tr' i = None"
      and clock: "\<And>tr'. dateNow env tr' + 500 \<le> dateNow env (tr' @ [Sleep 500, QueueGetJob i])"
  shows "\<exists>n. poll env i start timeout' tr =
              Some (Inl (newScrapeJobTimeoutError env
                           ''Scrape timed out while waiting in the concurrency limit queue''),
                    tr @ rounds i (Suc n))
            \<and> dateNow env (tr @ rounds i (Suc n)) - start
                > (case timeout' of Some t \<Rightarrow> t | None \<Rightarrow> 180000)
            \<and> (\<forall>m. 1 \<le> m \<and> m \<le> n \<longrightarrow>
                  dateNow env (tr @ rounds i m) - start
                    \<le> (case timeout' of Some t \<Rightarrow> t | None \<Rightarrow> 180000))"
proof (induction "nat ((case timeout' of Some t \<Rightarrow> t | None \<Rightarrow> 180000) - (dateNow env tr - start))"
         arbitrary: tr rule: less_induct)
  case less
  let ?limit = "case timeout' of Some t \<Rightarrow> t | None \<Rightarrow> 180000"
  let ?tr2 = "tr @ [Sleep 500, QueueGetJob i]"
  show ?case
  proof (cases "dateNow env ?tr2 - start > ?limit")
    case True
    have "poll env i start timeout' tr =
            Some (Inl (newScrapeJobTimeoutError env
                         ''Scrape timed out while waiting in the concurrency limit queue''),
                  tr @ rounds i (Suc 0))"
      using True by (subst poll.simps) (simp add: rounds_def)
    moreover have "dateNow env (tr @ rounds i (Suc 0)) - start > ?limit"
      using True by (simp add: rounds_def)
    ultimately show ?thesis
      by (intro exI [of _ 0]) simp
  next
    case False
    have step: "poll env i start timeout' tr = poll env i start timeout' ?tr2"
      using False never by (subst poll.simps) simp
    have "nat (?limit - (dateNow env ?tr2 - start)) < nat (?limit - (dateNow env tr - start))"
      using False clock [of tr] by linarith
    from less [OF this] obtain n where
      n: "poll env i start timeout' ?tr2 =
            Some (Inl (newScrapeJobTimeoutError env
                         ''Scrape timed out while waiting in the concurrency limit queue''),
                  ?tr2 @ rounds i (Suc n))"
         "dateNow env (?tr2 @ rounds i (Suc n)) - start > ?limit"
         "\<forall>m. 1 \<le> m \<and> m \<le> n \<longrightarrow> dateNow env (?tr2 @ rounds i m) - start \<le> ?limit"
      by blast
    have eq: "?tr2 @ rounds i m = tr @ rounds i (Suc m)" for m
      by (simp add: rounds_def)
    have early: "dateNow env (tr @ rounds i m) - start \<le> ?limit" if "1 \<le> m" "m \<le> Suc n" for m
    proof (cases m)
      case 0
      with that show ?thesis by simp
    next
      case (Suc m')
      show ?thesis
      proof (cases m')
        case 0
        with Suc False show ?thesis by (simp add: rounds_def)
      next
        case (Suc m'')
        with \<open>m = Suc m'\<close> that n(3) have "dateNow env (?tr2 @ rounds i m') - start \<le> ?limit"
          by simp
        then show ?thesis
          by (simp only: eq \<open>m = Suc m'\<close>)
      qed
    qed
    have n1: "poll env i start timeout' tr =
                Some (Inl (newScrapeJobTimeoutError env
                             ''Scrape timed out while waiting in the concurrency limit queue''),
                      tr @ rounds i (Suc (Suc n)))"
      using n(1) by (simp only: step eq)
    have n2: "dateNow env (tr @ rounds i (Suc (Suc n))) - start > ?limit"
      using n(2) by (simp only: eq)
    show ?thesis
      using n1 n2 early
      by (intro exI [of _ "Suc n"]) simp
  qed
qed

lemma wait_never_materialised:
  assumes never: "\<And>tr'. queue_getJob env tr' i = None"
      and clock: "\<And>tr'. dateNow env tr' + 500 \<le> dateNow env (tr' @ [Sleep 500, QueueGetJob i])"
  shows "\<exists>n. waitForJob env (ById i) timeout' tr =
              Some (Inl (newScrapeJobTimeoutError env
                           ''Scrape timed out while waiting in the concurrency limit queue''),
                    tr @ QueueGetJob i # rounds i (Suc n))
            \<and> dateNow env (tr @ QueueGetJob i # rounds i (Suc n)) - dateNow env tr
                > (case timeout' of Some t \<Rightarrow> t | None \<Rightarrow> 180000)
            \<and> (\<forall>m. 1 \<le> m \<and> m \<le> n \<longrightarrow>
                  dateNow env (tr @ QueueGetJob i # rounds i m) - dateNow env tr
                    \<le> (case timeout' of Some t \<Rightarrow> t | None \<Rightarrow> 180000))"
proof -
  from poll_times_out [of env i "dateNow env tr" timeout' "tr @ [QueueGetJob i]", OF never clock]
  obtain n where
    n: "poll env i (dateNow env tr) timeout' (tr @ [QueueGetJob i]) =
          Some (Inl (newScrapeJobTimeoutError env
                       ''Scrape timed out while waiting in the concurrency limit queue''),
                (tr @ [QueueGetJob i]) @ rounds i (Suc n))"
       "dateNow env ((tr @ [QueueGetJob i]) @ rounds i (Suc n)) - dateNow env tr
          > (case timeout' of Some t \<Rightarrow> t | None \<Rightarrow> 180000)"
       "\<forall>m. 1 \<le> m \<and> m \<le> n \<longrightarrow>
          dateNow env ((tr @ [QueueGetJob i]) @ rounds i m) - dateNow env tr
            \<le> (case timeout' of Some t \<Rightarrow> t | None \<Rightarrow> 180000)"
    by blast
  have w: "waitForJob env (ById i) timeout' tr =
             Some (Inl (newScrapeJobTimeoutError env
                          ''Scrape timed out while waiting in the concurrency limit queue''),
                   (tr @ [QueueGetJob i]) @ rounds i (Suc n))"
    by (simp add: waitForJob_def Let_def never n(1))
  show ?thesis
    using w n(2,3) by (intro exI [of _ n]) simp
qed

lemma wait_materialised:
  "queue_getJob env tr i = Some job \<Longrightarrow>
     waitForJob env (ById i) timeout' tr =
       Some (wait_finished env job True timeout' (dateNow env tr) (tr @ [QueueGetJob i]))"
  by (simp add: waitForJob_def Let_def)

lemma rounds_0 [simp]: "rounds i 0 = []"
  by (simp add: rounds_def)

lemma rounds_Suc: "rounds i (Suc n) = Sleep 500 # QueueGetJob i # rounds i n"
  by (simp add: rounds_def)

text \<open>A round at which the time elapsed exceeds the limit throws, whatever its look-up
  found; a round within the limit whose look-up finds the job ends the loop with it.\<close>

lemma poll_over_budget:
  "dateNow env (tr @ [Sleep 500, QueueGetJob i]) - start
      > (case timeout' of Some t \<Rightarrow> t | None \<Rightarrow> 180000) \<Longrightarrow>
   poll env i start timeout' tr =
     Some (Inl (newScrapeJobTimeoutError env
                  ''Scrape timed out while waiting in the concurrency limit queue''),
           tr @ [Sleep 500, QueueGetJob i])"
  by (subst poll.simps) simp

lemma poll_finds_now:
  "dateNow env (tr @ [Sleep 500, QueueGetJob i]) - start
      \<le> (case timeout' of Some t \<Rightarrow> t | None \<Rightarrow> 180000) \<Longrightarrow>
   queue_getJob env (tr @ [Sleep 500]) i = Some job \<Longrightarrow>
   poll env i start timeout' tr = Some (Inr job, tr @ [Sleep 500, QueueGetJob i])"
  by (subst poll.simps) simp

lemma poll_goes_on:
  "dateNow env (tr @ [Sleep 500, QueueGetJob i]) - start
      \<le> (case timeout' of Some t \<Rightarrow> t | None \<Rightarrow> 180000) \<Longrightarrow>
   queue_getJob env (tr @ [Sleep 500]) i = None \<Longrightarrow>
   poll env i start timeout' tr = poll env i start timeout' (tr @ [Sleep 500, QueueGetJob i])"
  by (subst poll.simps) simp

lemma poll_finds:
  assumes "\<forall>m<n. queue_getJob env (tr @ rounds i m @ [Sleep 500]) i = None"
      and "queue_getJob env (tr @ rounds i n @ [Sleep 500]) i = Some job"
      and "\<forall>m\<le>n. dateNow env (tr @ rounds i (Suc m)) - start
                     \<le> (case timeout' of Some t \<Rightarrow> t | None \<Rightarrow> 180000)"
  shows "poll env i start timeout' tr = Some (Inr job, tr @ rounds i (Suc n))"
  using assms
proof (induction n arbitrary: tr)
  case 0
  have "dateNow env (tr @ [Sleep 500, QueueGetJob i]) - start
          \<le> (case timeout' of Some t \<Rightarrow> t | None \<Rightarrow> 180000)"
    using "0.prems"(3) by (simp add: rounds_Suc)
  moreover have "queue_getJob env (tr @ [Sleep 500]) i = Some job"
    using "0.prems"(2) by simp
  ultimately show ?case
    by (simp add: poll_finds_now rounds_Suc)
next
  case (Suc n)
  let ?tr2 = "tr @ [Sleep 500, QueueGetJob i]"
  have shift: "tr @ rounds i (Suc m) @ xs = ?tr2 @ rounds i m @ xs" for m xs
    by (simp add: rounds_Suc)
  have clock0: "dateNow env ?tr2 - start \<le> (case timeout' of Some t \<Rightarrow> t | None \<Rightarrow> 180000)"
    using Suc.prems(3) [rule_format, of 0] by (simp add: rounds_Suc)
  have none0: "queue_getJob env (tr @ [Sleep 500]) i = None"
    using Suc.prems(1) [rule_format, of 0] by simp
  have a: "\<forall>m<n. queue_getJob env (?tr2 @ rounds i m @ [Sleep 500]) i = None"
  proof (intro allI impI)
    fix m assume "m < n"
    then have "queue_getJob env (tr @ rounds i (Suc m) @ [Sleep 500]) i = None"
      using Suc.prems(1) by simp
    then show "queue_getJob env (?tr2 @ rounds i m @ [Sleep 500]) i = None"
      by (simp only: shift)
  qed
  have b: "queue_getJob env (?tr2 @ rounds i n @ [Sleep 500]) i = Some job"
    using Suc.prems(2) by (simp only: shift)
  have c: "\<forall>m\<le>n. dateNow env (?tr2 @ rounds i (Suc m)) - start
                     \<le> (case timeout' of Some t \<Rightarrow> t | None \<Rightarrow> 180000)"
  proof (intro allI impI)
    fix m assume "m \<le> n"
    then have "dateNow env (tr @ rounds i (Suc (Suc m)) @ []) - start
                 \<le> (case timeout' of Some t \<Rightarrow> t | None \<Rightarrow> 180000)"
      using Suc.prems(3) by simp
    then have "dateNow env (?tr2 @ rounds i (Suc m) @ []) - start
                 \<le> (case timeout' of Some t \<Rightarrow> t | None \<Rightarrow> 180000)"
      by (simp only: shift)
    then show "dateNow env (?tr2 @ rounds i (Suc m)) - start
                 \<le> (case timeout' of Some t \<Rightarrow> t | None \<Rightarrow> 180000)"
      by simp
  qed
  have "poll env i start timeout' tr = poll env i start timeout' ?tr2"
    using clock0 none0 by (rule poll_goes_on)
  also have "\<dots> = Some (Inr job, ?tr2 @ rounds i (Suc n))"
    by (rule Suc.IH [OF a b c])
  also have "?tr2 @ rounds i (Suc n) = tr @ rounds i (Suc (Suc n))"
    using shift [of "Suc n" "[]"] by simp
  finally show ?case .
qed

lemma wait_materialised_later:
  assumes "queue_getJob env tr i = None"
      and "materialises_in_round env i (dateNow env tr) timeout' (tr @ [QueueGetJob i]) n job"
  shows "waitForJob env (ById i) timeout' tr =
           Some (wait_finished env job True timeout' (dateNow env tr)
                   (tr @ QueueGetJob i # rounds i (Suc n)))"
proof -
  have "poll env i (dateNow env tr) timeout' (tr @ [QueueGetJob i]) =
          Some (Inr job, (tr @ [QueueGetJob i]) @ rounds i (Suc n))"
    using assms(2)
    by (intro poll_finds) (auto simp: materialises_in_round_def list_all_iff)
  then show ?thesis
    using assms(1) by (simp add: waitForJob_def Let_def)
qed

lemma wait_by_handle:
  "waitForJob env (ByHandle job) timeout' tr =
     Some (wait_finished env job False timeout' (dateNow env tr) tr)"
  by (simp add: waitForJob_def Let_def)

subsection \<open>Waiting: the race\<close>

lemma wait_finished_deadline:
  "wait_finished env job byId (Some t) start tr =
     (let tr1 = tr @ [WaitUntilFinished (job_id job) t,
                      DeadlineTimer (max 0 (t - (dateNow env (tr @ [WaitUntilFinished (job_id job) t])
                                                  - start)))]
      in waitForJob_settled env job
           (if deadline_first env tr1
            then Rejected (newScrapeJobTimeoutError env
                   (''Scrape timed out'' @
                      (if byId then '' after waiting in the concurrency limit queue'' else [])))
            else waitUntilFinished env tr (job_id job) t)
           tr1)"
  by (simp add: wait_finished_def race_def Let_def)

lemma wait_finished_no_deadline:
  "wait_finished env job byId None start tr =
     waitForJob_settled env job (waitUntilFinished env tr (job_id job) 180000)
       (tr @ [WaitUntilFinished (job_id job) 180000])"
  by (simp add: wait_finished_def race_def Let_def)

text \<open>
  C7, as amended. For a call of the wait primitive with a job id: if the job never shows
  up in the worker queue, and the clock advances by at least 500 ms over each round, the
  call looks the job up, then sleeps 500 ms and looks it up again, round after round, and
  throws the \<^verbatim>\<open>ScrapeJobTimeoutError\<close> with the message \<^verbatim>\<open>Scrape timed out while waiting
  in the concurrency limit queue\<close> after the first round at which the elapsed time
  exceeds the timeout (180 000 ms when none was passed). Once the job has shown up, at
  the first look-up or in a round at which, as at the rounds before it, the elapsed time
  does not exceed the timeout, and a timeout \<open>t\<close> was passed, the wait for the job's
  completion is raced against a deadline timer that is started with the delay
  \<open>max 0 (t - elapsed)\<close> ms; when the timer fires first, the call fails with the
  \<^verbatim>\<open>ScrapeJobTimeoutError\<close> of the message \<^verbatim>\<open>Scrape timed out after waiting in the
  concurrency limit queue\<close> (the class being a \<^verbatim>\<open>TransportableError\<close>, which the catch
  block throws again as it is). When no timeout was passed, no timer is raced: the call
  settles as the queue's own wait, with a time to live of 180 000 ms, settles. When the
  platform lets a timer fire is not part of the statement.
\<close>

theorem wait_timeouts:
  "((\<forall>tr'. queue_getJob env tr' i = None)
      \<and> (\<forall>tr'. dateNow env tr' + 500 \<le> dateNow env (tr' @ [Sleep 500, QueueGetJob i]))
    \<longrightarrow> (\<exists>n. waitForJob env (ById i) timeout' tr =
              Some (Inl (newScrapeJobTimeoutError env
                           ''Scrape timed out while waiting in the concurrency limit queue''),
                    tr @ QueueGetJob i # rounds i (Suc n))
            \<and> dateNow env (tr @ QueueGetJob i # rounds i (Suc n)) - dateNow env tr
                > (case timeout' of Some t \<Rightarrow> t | None \<Rightarrow> 180000)
            \<and> (\<forall>m. 1 \<le> m \<and> m \<le> n \<longrightarrow>
                  dateNow env (tr @ QueueGetJob i # rounds i m) - dateNow env tr
                    \<le> (case timeout' of Some t \<Rightarrow> t | None \<Rightarrow> 180000))))
   \<and> (queue_getJob env tr i = Some job \<longrightarrow>
        waitForJob env (ById i) timeout' tr =
          Some (wait_finished env job True timeout' (dateNow env tr) (tr @ [QueueGetJob i])))
   \<and> (queue_getJob env tr i = None
        \<and> materialises_in_round env i (dateNow env tr) timeout' (tr @ [QueueGetJob i]) k job \<longrightarrow>
        waitForJob env (ById i) timeout' tr =
          Some (wait_finished env job True timeout' (dateNow env tr)
                  (tr @ QueueGetJob i # rounds i (Suc k))))
   \<and> wait_finished env job True (Some t) start tr2 =
       (let tr3 = tr2 @ [WaitUntilFinished (job_id job) t,
                         DeadlineTimer
                           (max 0 (t - (dateNow env (tr2 @ [WaitUntilFinished (job_id job) t])
                                        - start)))]
        in waitForJob_settled env job
             (if deadline_first env tr3
              then Rejected (newScrapeJobTimeoutError env
                     ''Scrape timed out after waiting in the concurrency limit queue'')
              else waitUntilFinished env tr2 (job_id job) t)
             tr3)
   \<and> (deadline_first env
          (tr2 @ [WaitUntilFinished (job_id job) t,
                  DeadlineTimer
                    (max 0 (t - (dateNow env (tr2 @ [WaitUntilFinished (job_id job) t]) - start)))])
        \<and> newScrapeJobTimeoutError env
             ''Scrape timed out after waiting in the concurrency limit queue'' = Transportable te
        \<longrightarrow> wait_finished env job True (Some t) start tr2 =
             (Inl (Transportable te),
              tr2 @ [WaitUntilFinished (job_id job) t,
                     DeadlineTimer
                       (max 0 (t - (dateNow env (tr2 @ [WaitUntilFinished (job_id job) t])
                                    - start)))]))
   \<and> wait_finished env job True None start tr2 =
       waitForJob_settled env job (waitUntilFinished env tr2 (job_id job) 180000)
         (tr2 @ [WaitUntilFinished (job_id job) 180000])"
proof (intro conjI impI)
  assume a: "(\<forall>tr'. queue_getJob env tr' i = None)
      \<and> (\<forall>tr'. dateNow env tr' + 500 \<le> dateNow env (tr' @ [Sleep 500, QueueGetJob i]))"
  show "\<exists>n. waitForJob env (ById i) timeout' tr =
              Some (Inl (newScrapeJobTimeoutError env
                           ''Scrape timed out while waiting in the concurrency limit queue''),
                    tr @ QueueGetJob i # rounds i (Suc n))
            \<and> dateNow env (tr @ QueueGetJob i # rounds i (Suc n)) - dateNow env tr
                > (case timeout' of Some t \<Rightarrow> t | None \<Rightarrow> 180000)
            \<and> (\<forall>m. 1 \<le> m \<and> m \<le> n \<longrightarrow>
                  dateNow env (tr @ QueueGetJob i # rounds i m) - dateNow env tr
                    \<le> (case timeout' of Some t \<Rightarrow> t | None \<Rightarrow> 180000))"
    using a by (intro wait_never_materialised) simp_all
next
  assume "queue_getJob env tr i = Some job"
  then show "waitForJob env (ById i) timeout' tr =
          Some (wait_finished env job True timeout' (dateNow env tr) (tr @ [QueueGetJob i]))"
    by (rule wait_materialised)
next
  assume "queue_getJob env tr i = None
        \<and> materialises_in_round env i (dateNow env tr) timeout' (tr @ [QueueGetJob i]) k job"
  then show "waitForJob env (ById i) timeout' tr =
          Some (wait_finished env job True timeout' (dateNow env tr)
                  (tr @ QueueGetJob i # rounds i (Suc k)))"
    by (intro wait_materialised_later) simp_all
next
  show "wait_finished env job True (Some t) start tr2 =
       (let tr3 = tr2 @ [WaitUntilFinished (job_id job) t,
                         DeadlineTimer
                           (max 0 (t - (dateNow env (tr2 @ [WaitUntilFinished (job_id job) t])
                                        - start)))]
        in waitForJob_settled env job
             (if deadline_first env tr3
              then Rejected (newScrapeJobTimeoutError env
                     ''Scrape timed out after waiting in the concurrency limit queue'')
              else waitUntilFinished env tr2 (job_id job) t)
             tr3)"
    by (simp add: wait_finished_deadline Let_def)
next
  let ?tr3 = "tr2 @ [WaitUntilFinished (job_id job) t,
                     DeadlineTimer
                       (max 0 (t - (dateNow env (tr2 @ [WaitUntilFinished (job_id job) t]) - start)))]"
  assume "deadline_first env ?tr3
        \<and> newScrapeJobTimeoutError env
             ''Scrape timed out after waiting in the concurrency limit queue'' = Transportable te"
  then have first: "deadline_first env ?tr3"
    and err: "newScrapeJobTimeoutError env
             ''Scrape timed out after waiting in the concurrency limit queue'' = Transportable te"
    by simp_all
  have "wait_finished env job True (Some t) start tr2 =
          waitForJob_settled env job (Rejected (Transportable te)) ?tr3"
    using first err by (simp only: wait_finished_deadline Let_def if_True append.simps)
  then show "wait_finished env job True (Some t) start tr2 = (Inl (Transportable te), ?tr3)"
    by (simp add: waitForJob_settled_def)
next
  show "wait_finished env job True None start tr2 =
       waitForJob_settled env job (waitUntilFinished env tr2 (job_id job) 180000)
         (tr2 @ [WaitUntilFinished (job_id job) 180000])"
    by (rule wait_finished_no_deadline)
qed

text \<open>The definitions a concrete wait unfolds.\<close>

lemmas wait_defs =
  waitForJob_def wait_finished_def race_def waitForJob_settled_def waiting_env_def fixed_env_def
  handle_def zdr_handle_def payload_def queueOpts_def slept_def rounds_def
  opt_zeroDataRetention_def materialises_in_round_def Let_def

text \<open>
  C7, counterexample to the claim as stated, at two inputs; the clock reads the
  milliseconds slept. A wait by id without timeout for a job that is in the worker queue
  and whose completion the queue gives up waiting for: no deadline timer is started,
  although one would have fired first, and the call fails with the queue's own error,
  which is not the scrape-timeout error. A wait by id with a timeout of 400 ms for a job
  that is in the worker queue once 500 ms have been slept: the look-up of the first round
  finds it, and the call fails with the time-out in the queue all the same, without any
  race.
\<close>

theorem wait_no_timeout_counterexample:
  "waitForJob
     (waiting_env (Some 0) True
        (Rejected (GenericError ''Job wait j timed out before finishing'') :: unit settled) None)
     (ById ''j'') None []
   = Some (Inl (GenericError ''Job wait j timed out before finishing''),
           [QueueGetJob ''j'', WaitUntilFinished ''j'' 180000])
   \<and> queue_getJob (waiting_env (Some 500) False (Resolved None :: unit settled) None)
        [QueueGetJob ''j'', Sleep 500] ''j'' = Some (handle ''j'')
   \<and> waitForJob (waiting_env (Some 500) False (Resolved None :: unit settled) None)
        (ById ''j'') (Some 400) []
     = Some (Inl (Transportable
               \<lparr>code = ''SCRAPE_TIMEOUT'',
                message = ''Scrape timed out while waiting in the concurrency limit queue''\<rparr>),
             [QueueGetJob ''j'', Sleep 500, QueueGetJob ''j''])"
  by (simp add: wait_defs poll.simps)

text \<open>
  C7, witness. The clock reads the milliseconds slept. A job that never shows up, waited
  for with a timeout of 1000 ms: three rounds, then the time-out in the queue (after the
  second round the elapsed time is 1000 ms, which does not exceed the timeout). A job
  that is in the queue at once, waited for with a timeout of 1000 ms, where the deadline
  fires first: the timer is started with 1000 ms and the call fails with the scrape
  time-out. A job that shows up in the first round (round 0 of the count), where the
  deadline fires first: the timer is started with the remaining 500 ms.
\<close>

theorem wait_timeouts_witness:
  "(\<forall>tr'. queue_getJob (waiting_env None False (Resolved None :: unit settled) None) tr' ''j'' = None)
   \<and> (\<forall>tr'. dateNow (waiting_env None False (Resolved None :: unit settled) None) tr' + 500
             \<le> dateNow (waiting_env None False (Resolved None :: unit settled) None)
                  (tr' @ [Sleep 500, QueueGetJob ''j'']))
   \<and> waitForJob (waiting_env None False (Resolved None :: unit settled) None)
        (ById ''j'') (Some 1000) []
       = Some (Inl (Transportable
                 \<lparr>code = ''SCRAPE_TIMEOUT'',
                  message = ''Scrape timed out while waiting in the concurrency limit queue''\<rparr>),
               [QueueGetJob ''j'', Sleep 500, QueueGetJob ''j'', Sleep 500, QueueGetJob ''j'',
                Sleep 500, QueueGetJob ''j''])
   \<and> queue_getJob (waiting_env (Some 0) True (Resolved None :: unit settled) None) [] ''j''
       = Some (handle ''j'')
   \<and> waitForJob (waiting_env (Some 0) True (Resolved None :: unit settled) None)
        (ById ''j'') (Some 1000) []
       = Some (Inl (Transportable
                 \<lparr>code = ''SCRAPE_TIMEOUT'',
                  message = ''Scrape timed out after waiting in the concurrency limit queue''\<rparr>),
               [QueueGetJob ''j'', WaitUntilFinished ''j'' 1000, DeadlineTimer 1000])
   \<and> queue_getJob (waiting_env (Some 500) True (Resolved None :: unit settled) None) [] ''j'' = None
   \<and> materialises_in_round (waiting_env (Some 500) True (Resolved None :: unit settled) None)
        ''j'' 0 (Some 1000) [QueueGetJob ''j''] 0 (handle ''j'')
   \<and> waitForJob (waiting_env (Some 500) True (Resolved None :: unit settled) None)
        (ById ''j'') (Some 1000) []
       = Some (Inl (Transportable
                 \<lparr>code = ''SCRAPE_TIMEOUT'',
                  message = ''Scrape timed out after waiting in the concurrency limit queue''\<rparr>),
               [QueueGetJob ''j'', Sleep 500, QueueGetJob ''j'', WaitUntilFinished ''j'' 1000,
                DeadlineTimer 500])
   \<and> deadline_first (waiting_env (Some 0) True (Resolved None :: unit settled) None)
        [QueueGetJob ''j'', WaitUntilFinished ''j'' 1000, DeadlineTimer 1000]
   \<and> wait_finished (waiting_env (Some 0) True (Resolved None :: unit settled) None)
        (handle ''j'') True (Some 1000) 0 [QueueGetJob ''j'']
       = (Inl (Transportable
                \<lparr>code = ''SCRAPE_TIMEOUT'',
                 message = ''Scrape timed out after waiting in the concurrency limit queue''\<rparr>),
          [QueueGetJob ''j'', WaitUntilFinished ''j'' 1000, DeadlineTimer 1000])"
proof -
  let ?e1 = "waiting_env None False (Resolved None :: unit settled) None"
  let ?e2 = "waiting_env (Some 0) True (Resolved None :: unit settled) None"
  let ?e3 = "waiting_env (Some 500) True (Resolved None :: unit settled) None"
  let ?late = "Transportable
                 \<lparr>code = ''SCRAPE_TIMEOUT'',
                  message = ''Scrape timed out after waiting in the concurrency limit queue''\<rparr>"
  have never: "\<forall>tr'. queue_getJob ?e1 tr' ''j'' = None"
    by (simp add: waiting_env_def)
  have clock: "\<forall>tr'. dateNow ?e1 tr' + 500 \<le> dateNow ?e1 (tr' @ [Sleep 500, QueueGetJob ''j''])"
    by (simp add: waiting_env_def slept_def)
  have a: "waitForJob ?e1 (ById ''j'') (Some 1000) []
       = Some (Inl (Transportable
                 \<lparr>code = ''SCRAPE_TIMEOUT'',
                  message = ''Scrape timed out while waiting in the concurrency limit queue''\<rparr>),
               [QueueGetJob ''j'', Sleep 500, QueueGetJob ''j'', Sleep 500, QueueGetJob ''j'',
                Sleep 500, QueueGetJob ''j''])"
    using wait_timeouts [of ?e1 "''j''" "Some 1000" "[]", THEN conjunct1] never clock
    by (simp add: wait_defs poll.simps)
  have found: "queue_getJob ?e2 [] ''j'' = Some (handle ''j'')"
    by (simp add: waiting_env_def slept_def)
  have b: "waitForJob ?e2 (ById ''j'') (Some 1000) []
       = Some (Inl ?late, [QueueGetJob ''j'', WaitUntilFinished ''j'' 1000, DeadlineTimer 1000])"
    using wait_timeouts [of ?e2 "''j''" "Some 1000" "[]" "handle ''j''",
            THEN conjunct2, THEN conjunct1] found
    by (simp add: wait_defs)
  have absent: "queue_getJob ?e3 [] ''j'' = None"
    by (simp add: waiting_env_def slept_def)
  have shows_up: "materialises_in_round ?e3 ''j'' 0 (Some 1000) [QueueGetJob ''j''] 0 (handle ''j'')"
    by (simp add: wait_defs)
  have start3: "dateNow ?e3 [] = 0"
    by (simp add: waiting_env_def slept_def)
  have c: "waitForJob ?e3 (ById ''j'') (Some 1000) []
       = Some (Inl ?late, [QueueGetJob ''j'', Sleep 500, QueueGetJob ''j'',
                           WaitUntilFinished ''j'' 1000, DeadlineTimer 500])"
    using wait_timeouts [of ?e3 "''j''" "Some 1000" "[]" "handle ''j''" 0,
            THEN conjunct2, THEN conjunct2, THEN conjunct1]
          absent shows_up start3
    by (simp add: wait_defs)
  have first: "deadline_first ?e2 [QueueGetJob ''j'', WaitUntilFinished ''j'' 1000, DeadlineTimer 1000]"
    by (simp add: waiting_env_def)
  have err: "newScrapeJobTimeoutError ?e2
               ''Scrape timed out after waiting in the concurrency limit queue'' = ?late"
    by (simp add: waiting_env_def fixed_env_def)
  have d: "wait_finished ?e2 (handle ''j'') True (Some 1000) 0 [QueueGetJob ''j'']
             = (Inl ?late, [QueueGetJob ''j'', WaitUntilFinished ''j'' 1000, DeadlineTimer 1000])"
    using wait_timeouts [of ?e2 "''j''" "Some 1000" "[]" "handle ''j''" 0 1000 0
              "[QueueGetJob ''j'']",
            THEN conjunct2, THEN conjunct2, THEN conjunct2, THEN conjunct2, THEN conjunct1]
          first err
    by (simp add: handle_def waiting_env_def slept_def)
  show ?thesis
    using never clock a found b absent shows_up c first d by simp
qed

subsection \<open>Waiting: after the race\<close>

lemma settled_resolved:
  "waitForJob_settled env job (Resolved d) tr =
     (case d of Some doc \<Rightarrow> (Inr doc, tr) | None \<Rightarrow> fetched_from_blob_store env job tr)"
  by (simp add: waitForJob_settled_def fetched_from_blob_store_def opt_zeroDataRetention_def
        split: option.splits list.splits)

lemma settled_rejected:
  "waitForJob_settled env job (Rejected e) tr = (Inl (reraised env e), tr)"
  by (simp add: waitForJob_settled_def reraised_def split: option.splits thrown.splits)

lemma wait_finished_resolved:
  "fst (race env job byId timeout' start tr) = Resolved d \<Longrightarrow>
     wait_finished env job byId timeout' start tr =
       (case d of
          Some doc \<Rightarrow> (Inr doc, snd (race env job byId timeout' start tr))
        | None \<Rightarrow> fetched_from_blob_store env job (snd (race env job byId timeout' start tr)))"
  by (simp add: wait_finished_def case_prod_beta settled_resolved)

lemma wait_finished_rejected:
  "fst (race env job byId timeout' start tr) = Rejected e \<Longrightarrow>
     wait_finished env job byId timeout' start tr =
       (Inl (reraised env e), snd (race env job byId timeout' start tr))"
  by (simp add: wait_finished_def case_prod_beta settled_rejected)

text \<open>
  C8. For a wait call, by job handle or by job id (the job being found at the first
  look-up, or in a later round within the budget), whose race resolves: a non-empty
  document is returned as it is, without any access to the blob store. With an empty
  document, the result is fetched from the blob store by the job's id
  (\<open>fetched_from_blob_store\<close>): without a blob, or with an empty list of documents, the
  call throws the error \<^verbatim>\<open>Job not found in GCS\<close> and deletes nothing; otherwise it
  returns the first document of the blob, and if the job's payload is marked
  zero-data-retention, the blob is deleted after the read and before the return.
\<close>

theorem blob_fallback:
  "(fst (race env job False timeout' (dateNow env tr) tr) = Resolved d \<longrightarrow>
      waitForJob env (ByHandle job) timeout' tr =
        Some (case d of
                Some doc \<Rightarrow> (Inr doc, snd (race env job False timeout' (dateNow env tr) tr))
              | None \<Rightarrow>
                  fetched_from_blob_store env job
                    (snd (race env job False timeout' (dateNow env tr) tr))))
   \<and> (queue_getJob env tr i = Some job
        \<and> fst (race env job True timeout' (dateNow env tr) (tr @ [QueueGetJob i])) = Resolved d \<longrightarrow>
      waitForJob env (ById i) timeout' tr =
        Some (case d of
                Some doc \<Rightarrow>
                  (Inr doc, snd (race env job True timeout' (dateNow env tr) (tr @ [QueueGetJob i])))
              | None \<Rightarrow>
                  fetched_from_blob_store env job
                    (snd (race env job True timeout' (dateNow env tr) (tr @ [QueueGetJob i])))))
   \<and> (queue_getJob env tr i = None
        \<and> materialises_in_round env i (dateNow env tr) timeout' (tr @ [QueueGetJob i]) k job
        \<and> fst (race env job True timeout' (dateNow env tr)
                 (tr @ QueueGetJob i # rounds i (Suc k))) = Resolved d \<longrightarrow>
      waitForJob env (ById i) timeout' tr =
        Some (case d of
                Some doc \<Rightarrow>
                  (Inr doc, snd (race env job True timeout' (dateNow env tr)
                                   (tr @ QueueGetJob i # rounds i (Suc k))))
              | None \<Rightarrow>
                  fetched_from_blob_store env job
                    (snd (race env job True timeout' (dateNow env tr)
                            (tr @ QueueGetJob i # rounds i (Suc k))))))"
proof (intro conjI impI)
  assume "fst (race env job False timeout' (dateNow env tr) tr) = Resolved d"
  then show "waitForJob env (ByHandle job) timeout' tr =
        Some (case d of
                Some doc \<Rightarrow> (Inr doc, snd (race env job False timeout' (dateNow env tr) tr))
              | None \<Rightarrow>
                  fetched_from_blob_store env job
                    (snd (race env job False timeout' (dateNow env tr) tr)))"
    by (simp only: wait_by_handle wait_finished_resolved)
next
  assume a: "queue_getJob env tr i = Some job
        \<and> fst (race env job True timeout' (dateNow env tr) (tr @ [QueueGetJob i])) = Resolved d"
  then have "waitForJob env (ById i) timeout' tr =
               Some (wait_finished env job True timeout' (dateNow env tr) (tr @ [QueueGetJob i]))"
    by (intro wait_materialised) simp
  then show "waitForJob env (ById i) timeout' tr =
        Some (case d of
                Some doc \<Rightarrow>
                  (Inr doc, snd (race env job True timeout' (dateNow env tr) (tr @ [QueueGetJob i])))
              | None \<Rightarrow>
                  fetched_from_blob_store env job
                    (snd (race env job True timeout' (dateNow env tr) (tr @ [QueueGetJob i]))))"
    using a by (simp only: wait_finished_resolved)
next
  assume a: "queue_getJob env tr i = None
        \<and> materialises_in_round env i (dateNow env tr) timeout' (tr @ [QueueGetJob i]) k job
        \<and> fst (race env job True timeout' (dateNow env tr)
                 (tr @ QueueGetJob i # rounds i (Suc k))) = Resolved d"
  then have "waitForJob env (ById i) timeout' tr =
               Some (wait_finished env job True timeout' (dateNow env tr)
                       (tr @ QueueGetJob i # rounds i (Suc k)))"
    by (intro wait_materialised_later) simp_all
  then show "waitForJob env (ById i) timeout' tr =
        Some (case d of
                Some doc \<Rightarrow>
                  (Inr doc, snd (race env job True timeout' (dateNow env tr)
                                   (tr @ QueueGetJob i # rounds i (Suc k))))
              | None \<Rightarrow>
                  fetched_from_blob_store env job
                    (snd (race env job True timeout' (dateNow env tr)
                            (tr @ QueueGetJob i # rounds i (Suc k)))))"
    using a by (simp only: wait_finished_resolved)
qed

text \<open>
  C8, witness. A wait by handle, without timeout, for a job marked zero-data-retention
  whose wait resolves with an empty document, the blob holding two documents: the first
  is returned, after the read and the deletion of the blob. A wait by id with a timeout
  of 1000 ms for a job found at once, without blob: the call throws the error
  \<^verbatim>\<open>Job not found in GCS\<close>. A wait by id for a job found in the first round, the blob
  holding an empty list: the same error. The same wait for a job whose wait resolves
  with a document: the document is returned and the blob store is not touched.
\<close>

theorem blob_fallback_witness:
  "fst (race (waiting_env None False (Resolved None) (Some [''doc'', ''other'']))
          (zdr_handle ''j'') False None
          (dateNow (waiting_env None False (Resolved None) (Some [''doc'', ''other''])) []) [])
     = Resolved None
   \<and> waitForJob (waiting_env None False (Resolved None) (Some [''doc'', ''other'']))
        (ByHandle (zdr_handle ''j'')) None []
     = Some (Inr ''doc'', [WaitUntilFinished ''j'' 180000, GetJobFromGCS ''j'', RemoveJobFromGCS ''j''])
   \<and> queue_getJob (waiting_env (Some 0) False (Resolved None :: string settled) None) [] ''j''
       = Some (handle ''j'')
   \<and> waitForJob (waiting_env (Some 0) False (Resolved None :: string settled) None)
        (ById ''j'') (Some 1000) []
     = Some (Inl (GenericError ''Job not found in GCS''),
             [QueueGetJob ''j'', WaitUntilFinished ''j'' 1000, DeadlineTimer 1000, GetJobFromGCS ''j''])
   \<and> queue_getJob (waiting_env (Some 500) False (Resolved None :: string settled) (Some [])) [] ''j''
       = None
   \<and> materialises_in_round (waiting_env (Some 500) False (Resolved None :: string settled) (Some []))
        ''j'' 0 (Some 1000) [QueueGetJob ''j''] 0 (handle ''j'')
   \<and> waitForJob (waiting_env (Some 500) False (Resolved None :: string settled) (Some []))
        (ById ''j'') (Some 1000) []
     = Some (Inl (GenericError ''Job not found in GCS''),
             [QueueGetJob ''j'', Sleep 500, QueueGetJob ''j'', WaitUntilFinished ''j'' 1000,
              DeadlineTimer 500, GetJobFromGCS ''j''])
   \<and> waitForJob (waiting_env (Some 500) False (Resolved (Some ''page'')) (Some [''doc'']))
        (ById ''j'') (Some 1000) []
     = Some (Inr ''page'',
             [QueueGetJob ''j'', Sleep 500, QueueGetJob ''j'', WaitUntilFinished ''j'' 1000,
              DeadlineTimer 500])"
proof -
  let ?e1 = "waiting_env None False (Resolved None) (Some [''doc'', ''other''])"
  let ?e2 = "waiting_env (Some 0) False (Resolved None :: string settled) None"
  let ?e3 = "waiting_env (Some 500) False (Resolved None :: string settled) (Some [])"
  let ?e4 = "waiting_env (Some 500) False (Resolved (Some ''page'')) (Some [''doc''])"
  have h1: "fst (race ?e1 (zdr_handle ''j'') False None (dateNow ?e1 []) []) = Resolved None"
    by (simp add: wait_defs)
  have a: "waitForJob ?e1 (ByHandle (zdr_handle ''j'')) None []
     = Some (Inr ''doc'', [WaitUntilFinished ''j'' 180000, GetJobFromGCS ''j'', RemoveJobFromGCS ''j''])"
    using blob_fallback [of ?e1 "zdr_handle ''j''" None "[]" None, THEN conjunct1] h1
    by (simp add: wait_defs fetched_from_blob_store_def)
  have h2: "queue_getJob ?e2 [] ''j'' = Some (handle ''j'')"
    by (simp add: wait_defs)
  have h2': "fst (race ?e2 (handle ''j'') True (Some 1000) (dateNow ?e2 []) ([] @ [QueueGetJob ''j'']))
               = Resolved None"
    by (simp add: wait_defs)
  have b: "waitForJob ?e2 (ById ''j'') (Some 1000) []
     = Some (Inl (GenericError ''Job not found in GCS''),
             [QueueGetJob ''j'', WaitUntilFinished ''j'' 1000, DeadlineTimer 1000, GetJobFromGCS ''j''])"
    using blob_fallback [of ?e2 "handle ''j''" "Some 1000" "[]" None "''j''",
            THEN conjunct2, THEN conjunct1] h2 h2'
    by (simp add: wait_defs fetched_from_blob_store_def)
  have h3: "queue_getJob ?e3 [] ''j'' = None"
    by (simp add: wait_defs)
  have h3': "materialises_in_round ?e3 ''j'' 0 (Some 1000) [QueueGetJob ''j''] 0 (handle ''j'')"
    by (simp add: wait_defs)
  have h3'': "fst (race ?e3 (handle ''j'') True (Some 1000) (dateNow ?e3 [])
                     ([] @ QueueGetJob ''j'' # rounds ''j'' (Suc 0))) = Resolved None"
    by (simp add: wait_defs)
  have start3: "dateNow ?e3 [] = 0"
    by (simp add: wait_defs)
  have c: "waitForJob ?e3 (ById ''j'') (Some 1000) []
     = Some (Inl (GenericError ''Job not found in GCS''),
             [QueueGetJob ''j'', Sleep 500, QueueGetJob ''j'', WaitUntilFinished ''j'' 1000,
              DeadlineTimer 500, GetJobFromGCS ''j''])"
    using blob_fallback [of ?e3 "handle ''j''" "Some 1000" "[]" None "''j''" 0,
            THEN conjunct2, THEN conjunct2] h3 h3' h3'' start3
    by (simp add: wait_defs fetched_from_blob_store_def)
  have h4: "queue_getJob ?e4 [] ''j'' = None"
    by (simp add: wait_defs)
  have h4': "materialises_in_round ?e4 ''j'' 0 (Some 1000) [QueueGetJob ''j''] 0 (handle ''j'')"
    by (simp add: wait_defs)
  have h4'': "fst (race ?e4 (handle ''j'') True (Some 1000) (dateNow ?e4 [])
                     ([] @ QueueGetJob ''j'' # rounds ''j'' (Suc 0))) = Resolved (Some ''page'')"
    by (simp add: wait_defs)
  have start4: "dateNow ?e4 [] = 0"
    by (simp add: wait_defs)
  have d: "waitForJob ?e4 (ById ''j'') (Some 1000) []
     = Some (Inr ''page'',
             [QueueGetJob ''j'', Sleep 500, QueueGetJob ''j'', WaitUntilFinished ''j'' 1000,
              DeadlineTimer 500])"
    using blob_fallback [of ?e4 "handle ''j''" "Some 1000" "[]" "Some ''page''" "''j''" 0,
            THEN conjunct2, THEN conjunct2] h4 h4' h4'' start4
    by (simp add: wait_defs)
  show ?thesis
    using h1 a h2 b h3 h3' c d by simp
qed

text \<open>
  C9. For a wait call, by job handle or by job id (the job being found at the first
  look-up, or in a later round within the budget), whose race rejects with \<open>e\<close>: the call
  throws \<open>reraised env e\<close> and touches nothing else. An error that is already a
  \<^verbatim>\<open>TransportableError\<close> is thrown again as it is, code and message unchanged; another
  \<^verbatim>\<open>Error\<close> whose message deserialises to a transportable error is replaced by that
  typed error, with the code and the message the deserialiser gives; any other failure
  is thrown again as the original.
\<close>

theorem rethrow_rule:
  "(fst (race env job False timeout' (dateNow env tr) tr) = Rejected e \<longrightarrow>
      waitForJob env (ByHandle job) timeout' tr =
        Some (Inl (reraised env e), snd (race env job False timeout' (dateNow env tr) tr)))
   \<and> (queue_getJob env tr i = Some job
        \<and> fst (race env job True timeout' (dateNow env tr) (tr @ [QueueGetJob i])) = Rejected e \<longrightarrow>
      waitForJob env (ById i) timeout' tr =
        Some (Inl (reraised env e),
              snd (race env job True timeout' (dateNow env tr) (tr @ [QueueGetJob i]))))
   \<and> (queue_getJob env tr i = None
        \<and> materialises_in_round env i (dateNow env tr) timeout' (tr @ [QueueGetJob i]) k job
        \<and> fst (race env job True timeout' (dateNow env tr)
                 (tr @ QueueGetJob i # rounds i (Suc k))) = Rejected e \<longrightarrow>
      waitForJob env (ById i) timeout' tr =
        Some (Inl (reraised env e),
              snd (race env job True timeout' (dateNow env tr)
                     (tr @ QueueGetJob i # rounds i (Suc k)))))
   \<and> reraised env (Transportable x) = Transportable x
   \<and> reraised env (GenericError msg) =
       (case deserializeTransportableError env msg of
          Some y \<Rightarrow> Transportable y
        | None \<Rightarrow> GenericError msg)
   \<and> reraised env (NonError v) = NonError v"
proof (intro conjI impI)
  assume "fst (race env job False timeout' (dateNow env tr) tr) = Rejected e"
  then show "waitForJob env (ByHandle job) timeout' tr =
        Some (Inl (reraised env e), snd (race env job False timeout' (dateNow env tr) tr))"
    by (simp only: wait_by_handle wait_finished_rejected)
next
  assume a: "queue_getJob env tr i = Some job
        \<and> fst (race env job True timeout' (dateNow env tr) (tr @ [QueueGetJob i])) = Rejected e"
  then have "waitForJob env (ById i) timeout' tr =
               Some (wait_finished env job True timeout' (dateNow env tr) (tr @ [QueueGetJob i]))"
    by (intro wait_materialised) simp
  then show "waitForJob env (ById i) timeout' tr =
        Some (Inl (reraised env e),
              snd (race env job True timeout' (dateNow env tr) (tr @ [QueueGetJob i])))"
    using a by (simp only: wait_finished_rejected)
next
  assume a: "queue_getJob env tr i = None
        \<and> materialises_in_round env i (dateNow env tr) timeout' (tr @ [QueueGetJob i]) k job
        \<and> fst (race env job True timeout' (dateNow env tr)
                 (tr @ QueueGetJob i # rounds i (Suc k))) = Rejected e"
  then have "waitForJob env (ById i) timeout' tr =
               Some (wait_finished env job True timeout' (dateNow env tr)
                       (tr @ QueueGetJob i # rounds i (Suc k)))"
    by (intro wait_materialised_later) simp_all
  then show "waitForJob env (ById i) timeout' tr =
        Some (Inl (reraised env e),
              snd (race env job True timeout' (dateNow env tr)
                     (tr @ QueueGetJob i # rounds i (Suc k))))"
    using a by (simp only: wait_finished_rejected)
qed (simp_all add: reraised_def)

text \<open>
  C9, witness. A wait by handle that fails with a transportable error of the code
  \<^verbatim>\<open>SCRAPE_SITE_ERROR\<close>: the same error is thrown. A wait by id, for a job found at
  once, that fails with an \<^verbatim>\<open>Error\<close> whose message the deserialiser reads as a
  transportable error of the code \<^verbatim>\<open>SCRAPE_DNS_ERROR\<close>: the typed error is thrown. A
  wait by id, for a job found in the first round, that fails with an \<^verbatim>\<open>Error\<close> whose
  message does not deserialise: the original error is thrown.
\<close>

theorem rethrow_rule_witness:
  "fst (race (waiting_env None False
               (Rejected (Transportable \<lparr>code = ''SCRAPE_SITE_ERROR'', message = ''down''\<rparr>)
                  :: unit settled) None)
          (handle ''j'') False None
          (dateNow (waiting_env None False
               (Rejected (Transportable \<lparr>code = ''SCRAPE_SITE_ERROR'', message = ''down''\<rparr>)
                  :: unit settled) None) []) [])
     = Rejected (Transportable \<lparr>code = ''SCRAPE_SITE_ERROR'', message = ''down''\<rparr>)
   \<and> waitForJob (waiting_env None False
               (Rejected (Transportable \<lparr>code = ''SCRAPE_SITE_ERROR'', message = ''down''\<rparr>)
                  :: unit settled) None)
        (ByHandle (handle ''j'')) None []
     = Some (Inl (Transportable \<lparr>code = ''SCRAPE_SITE_ERROR'', message = ''down''\<rparr>),
             [WaitUntilFinished ''j'' 180000])
   \<and> queue_getJob ((waiting_env (Some 0) False (Rejected (GenericError ''wire'') :: unit settled) None)
          \<lparr>deserializeTransportableError :=
             (\<lambda>msg. if msg = ''wire''
                     then Some \<lparr>code = ''SCRAPE_DNS_ERROR'', message = ''no such host''\<rparr>
                     else None)\<rparr>) [] ''j''
       = Some (handle ''j'')
   \<and> waitForJob ((waiting_env (Some 0) False (Rejected (GenericError ''wire'') :: unit settled) None)
          \<lparr>deserializeTransportableError :=
             (\<lambda>msg. if msg = ''wire''
                     then Some \<lparr>code = ''SCRAPE_DNS_ERROR'', message = ''no such host''\<rparr>
                     else None)\<rparr>)
        (ById ''j'') None []
     = Some (Inl (Transportable \<lparr>code = ''SCRAPE_DNS_ERROR'', message = ''no such host''\<rparr>),
             [QueueGetJob ''j'', WaitUntilFinished ''j'' 180000])
   \<and> queue_getJob (waiting_env (Some 500) False (Rejected (GenericError ''boom'') :: unit settled) None)
        [] ''j'' = None
   \<and> materialises_in_round
        (waiting_env (Some 500) False (Rejected (GenericError ''boom'') :: unit settled) None)
        ''j'' 0 None [QueueGetJob ''j''] 0 (handle ''j'')
   \<and> waitForJob (waiting_env (Some 500) False (Rejected (GenericError ''boom'') :: unit settled) None)
        (ById ''j'') None []
     = Some (Inl (GenericError ''boom''),
             [QueueGetJob ''j'', Sleep 500, QueueGetJob ''j'', WaitUntilFinished ''j'' 180000])"
proof -
  let ?t = "Transportable \<lparr>code = ''SCRAPE_SITE_ERROR'', message = ''down''\<rparr>"
  let ?e1 = "waiting_env None False (Rejected ?t :: unit settled) None"
  let ?e2 = "(waiting_env (Some 0) False (Rejected (GenericError ''wire'') :: unit settled) None)
          \<lparr>deserializeTransportableError :=
             (\<lambda>msg. if msg = ''wire''
                     then Some \<lparr>code = ''SCRAPE_DNS_ERROR'', message = ''no such host''\<rparr>
                     else None)\<rparr>"
  let ?e3 = "waiting_env (Some 500) False (Rejected (GenericError ''boom'') :: unit settled) None"
  have h1: "fst (race ?e1 (handle ''j'') False None (dateNow ?e1 []) []) = Rejected ?t"
    by (simp add: wait_defs)
  have a: "waitForJob ?e1 (ByHandle (handle ''j'')) None [] = Some (Inl ?t, [WaitUntilFinished ''j'' 180000])"
    using rethrow_rule [of ?e1 "handle ''j''" None "[]" ?t, THEN conjunct1] h1
    by (simp add: wait_defs reraised_def)
  have h2: "queue_getJob ?e2 [] ''j'' = Some (handle ''j'')"
    by (simp add: wait_defs)
  have h2': "fst (race ?e2 (handle ''j'') True None (dateNow ?e2 []) ([] @ [QueueGetJob ''j'']))
               = Rejected (GenericError ''wire'')"
    by (simp add: wait_defs)
  have b: "waitForJob ?e2 (ById ''j'') None []
     = Some (Inl (Transportable \<lparr>code = ''SCRAPE_DNS_ERROR'', message = ''no such host''\<rparr>),
             [QueueGetJob ''j'', WaitUntilFinished ''j'' 180000])"
    using rethrow_rule [of ?e2 "handle ''j''" None "[]" "GenericError ''wire''" "''j''",
            THEN conjunct2, THEN conjunct1] h2 h2'
    by (simp add: wait_defs reraised_def)
  have h3: "queue_getJob ?e3 [] ''j'' = None"
    by (simp add: wait_defs)
  have h3': "materialises_in_round ?e3 ''j'' 0 None [QueueGetJob ''j''] 0 (handle ''j'')"
    by (simp add: wait_defs)
  have h3'': "fst (race ?e3 (handle ''j'') True None (dateNow ?e3 [])
                     ([] @ QueueGetJob ''j'' # rounds ''j'' (Suc 0))) = Rejected (GenericError ''boom'')"
    by (simp add: wait_defs)
  have start3: "dateNow ?e3 [] = 0"
    by (simp add: wait_defs)
  have c: "waitForJob ?e3 (ById ''j'') None []
     = Some (Inl (GenericError ''boom''),
             [QueueGetJob ''j'', Sleep 500, QueueGetJob ''j'', WaitUntilFinished ''j'' 180000])"
    using rethrow_rule [of ?e3 "handle ''j''" None "[]" "GenericError ''boom''" "''j''" 0,
            THEN conjunct2, THEN conjunct2, THEN conjunct1] h3 h3' h3'' start3
    by (simp add: wait_defs reraised_def)
  show ?thesis
    using h1 a h2 b h3 h3' c by simp
qed

end
